theory Spec2Isabelle
  imports Complex_Main "HOL-Library.Sublist"
begin

section \<open>Python values and the part of the runtime the program relies on\<close>

text \<open>
  The tools receive their arguments as the result of \<^verbatim>\<open>json.loads\<close>: a value
  built from None, booleans, integers, floats, strings, lists and dictionaries. A
  dictionary is an association list in insertion order (keys are unique in a Python
  dictionary). Strings are the UTF-8 bytes of the Python text, so the containment test
  \<^verbatim>\<open>key in nombre\<close> is the contiguous-sublist test on bytes.

  Floating point is not computed here: the type of floats is a parameter \<open>'f\<close> and the
  float operations, together with Unicode lower-casing and the \<^verbatim>\<open>repr\<close> of
  a string, are fields of the record \<open>pyrt\<close> that every function takes. Python integers
  are unbounded and are computed exactly.
\<close>

datatype py_error =
    TypeError | KeyError | AttributeError | ZeroDivisionError | OverflowError | ValueError
  | ProviderError string

datatype 'f pyval =
    PNone
  | PBool bool
  | PInt int
  | PFloat 'f
  | PStr string
  | PList "'f pyval list"
  | PDict "(string \<times> 'f pyval) list"

type_synonym 'f dict = "(string \<times> 'f pyval) list"

datatype 'f numero = NInt int | NFloat 'f

text \<open>The outcome of \<^verbatim>\<open>int(x)\<close> on a float: inf raises OverflowError, nan ValueError.\<close>

datatype truncado = Entero int | Infinito | NoEsNumero

record 'f pyrt =
  float_of_int :: "int \<Rightarrow> 'f option"          \<comment> \<open>None: OverflowError\<close>
  float_add :: "'f \<Rightarrow> 'f \<Rightarrow> 'f"
  float_sub :: "'f \<Rightarrow> 'f \<Rightarrow> 'f"
  float_mul :: "'f \<Rightarrow> 'f \<Rightarrow> 'f"
  float_div :: "'f \<Rightarrow> 'f \<Rightarrow> 'f"              \<comment> \<open>the divisor is not zero\<close>
  int_truediv :: "int \<Rightarrow> int \<Rightarrow> 'f option"    \<comment> \<open>the divisor is not zero; None: OverflowError\<close>
  float_is_zero :: "'f \<Rightarrow> bool"                \<comment> \<open>\<^verbatim>\<open>x == 0\<close>\<close>
  float_gt_zero :: "'f \<Rightarrow> bool"                \<comment> \<open>\<^verbatim>\<open>x > 0\<close>\<close>
  float_trunc :: "'f \<Rightarrow> truncado"               \<comment> \<open>\<^verbatim>\<open>int(x)\<close>\<close>
  float_repr :: "'f \<Rightarrow> string"
  str_lower :: "string \<Rightarrow> string"
  str_repr :: "string \<Rightarrow> string"

definition ligar :: "'e + 'a \<Rightarrow> ('a \<Rightarrow> 'e + 'b) \<Rightarrow> 'e + 'b" where
  "ligar x f = (case x of Inl e \<Rightarrow> Inl e | Inr a \<Rightarrow> f a)"

subsection \<open>Text\<close>

definition nl :: string where "nl = [CHR 0x0A]"
definition A_acento :: string where "A_acento = [CHR 0xC3, CHR 0x81]"
definition a_acento :: string where "a_acento = [CHR 0xC3, CHR 0xA1]"
definition e_acento :: string where "e_acento = [CHR 0xC3, CHR 0xA9]"
definition i_acento :: string where "i_acento = [CHR 0xC3, CHR 0xAD]"
definition o_acento :: string where "o_acento = [CHR 0xC3, CHR 0xB3]"
definition u_acento :: string where "u_acento = [CHR 0xC3, CHR 0xBA]"
definition U_acento :: string where "U_acento = [CHR 0xC3, CHR 0x9A]"
definition enie :: string where "enie = [CHR 0xC3, CHR 0xB1]"
definition flecha :: string where "flecha = [CHR 0xE2, CHR 0x86, CHR 0x92]"
definition emoji_grafico :: string where "emoji_grafico = [CHR 0xF0, CHR 0x9F, CHR 0x93, CHR 0x8A]"
definition emoji_fuego :: string where "emoji_fuego = [CHR 0xF0, CHR 0x9F, CHR 0x94, CHR 0xA5]"
definition emoji_plato :: string where
  "emoji_plato = [CHR 0xF0, CHR 0x9F, CHR 0x8D, CHR 0xBD, CHR 0xEF, CHR 0xB8, CHR 0x8F]"
definition emoji_pin :: string where "emoji_pin = [CHR 0xF0, CHR 0x9F, CHR 0x93, CHR 0x8D]"

fun join :: "string \<Rightarrow> string list \<Rightarrow> string" where
  "join sep [] = []"
| "join sep [x] = x"
| "join sep (x # y # ys) = x @ sep @ join sep (y # ys)"

fun digitos :: "nat \<Rightarrow> string" where
  "digitos n =
     (if n < 10 then [''0123456789'' ! n]
      else digitos (n div 10) @ [''0123456789'' ! (n mod 10)])"

declare digitos.simps [simp del]

definition str_int :: "int \<Rightarrow> string" where
  "str_int i = (if i < 0 then ''-'' @ digitos (nat (- i)) else digitos (nat i))"

fun py_repr :: "'f pyrt \<Rightarrow> 'f pyval \<Rightarrow> string"
  and py_repr_list :: "'f pyrt \<Rightarrow> 'f pyval list \<Rightarrow> string list"
  and py_repr_items :: "'f pyrt \<Rightarrow> (string \<times> 'f pyval) list \<Rightarrow> string list"
where
  "py_repr P PNone = ''None''"
| "py_repr P (PBool b) = (if b then ''True'' else ''False'')"
| "py_repr P (PInt i) = str_int i"
| "py_repr P (PFloat x) = float_repr P x"
| "py_repr P (PStr s) = str_repr P s"
| "py_repr P (PList xs) = ''['' @ join '', '' (py_repr_list P xs) @ '']''"
| "py_repr P (PDict kvs) = ''{'' @ join '', '' (py_repr_items P kvs) @ ''}''"
| "py_repr_list P [] = []"
| "py_repr_list P (x # xs) = py_repr P x # py_repr_list P xs"
| "py_repr_items P [] = []"
| "py_repr_items P ((k, v) # kvs) =
     (str_repr P k @ '': '' @ py_repr P v) # py_repr_items P kvs"

text \<open>\<^verbatim>\<open>str(v)\<close>, which is what an f-string field \<^verbatim>\<open>{v}\<close> inserts.\<close>

definition py_str :: "'f pyrt \<Rightarrow> 'f pyval \<Rightarrow> string" where
  "py_str P v = (case v of PStr s \<Rightarrow> s | _ \<Rightarrow> py_repr P v)"

subsection \<open>Arithmetic and comparison\<close>

text \<open>A bool is an int in arithmetic; every other non-number has no numeric value.\<close>

definition como_numero :: "'f pyval \<Rightarrow> 'f numero option" where
  "como_numero v =
     (case v of
        PBool b \<Rightarrow> Some (NInt (if b then 1 else 0))
      | PInt i \<Rightarrow> Some (NInt i)
      | PFloat x \<Rightarrow> Some (NFloat x)
      | _ \<Rightarrow> None)"

definition de_numero :: "'f numero \<Rightarrow> 'f pyval" where
  "de_numero n = (case n of NInt i \<Rightarrow> PInt i | NFloat x \<Rightarrow> PFloat x)"

definition a_float :: "'f pyrt \<Rightarrow> 'f numero \<Rightarrow> py_error + 'f" where
  "a_float P n =
     (case n of
        NInt i \<Rightarrow> (case float_of_int P i of None \<Rightarrow> Inl OverflowError | Some x \<Rightarrow> Inr x)
      | NFloat x \<Rightarrow> Inr x)"

definition num_binop ::
  "'f pyrt \<Rightarrow> (int \<Rightarrow> int \<Rightarrow> int) \<Rightarrow> ('f \<Rightarrow> 'f \<Rightarrow> 'f) \<Rightarrow> 'f numero \<Rightarrow> 'f numero \<Rightarrow> py_error + 'f numero" where
  "num_binop P fi ff a b =
     (case (a, b) of
        (NInt i, NInt j) \<Rightarrow> Inr (NInt (fi i j))
      | _ \<Rightarrow> ligar (a_float P a) (\<lambda>x. ligar (a_float P b) (\<lambda>y. Inr (NFloat (ff x y)))))"

definition num_add :: "'f pyrt \<Rightarrow> 'f numero \<Rightarrow> 'f numero \<Rightarrow> py_error + 'f numero" where
  "num_add P = num_binop P (+) (float_add P)"

definition repetir :: "int \<Rightarrow> 'a list \<Rightarrow> 'a list" where
  "repetir n xs = concat (replicate (nat n) xs)"

definition como_entero :: "'f pyval \<Rightarrow> int option" where
  "como_entero v =
     (case v of PBool b \<Rightarrow> Some (if b then 1 else 0) | PInt i \<Rightarrow> Some i | _ \<Rightarrow> None)"

definition py_add :: "'f pyrt \<Rightarrow> 'f pyval \<Rightarrow> 'f pyval \<Rightarrow> py_error + 'f pyval" where
  "py_add P a b =
     (case (como_numero a, como_numero b) of
        (Some x, Some y) \<Rightarrow> ligar (num_add P x y) (\<lambda>r. Inr (de_numero r))
      | _ \<Rightarrow>
        (case (a, b) of
           (PStr s, PStr t) \<Rightarrow> Inr (PStr (s @ t))
         | (PList xs, PList ys) \<Rightarrow> Inr (PList (xs @ ys))
         | _ \<Rightarrow> Inl TypeError))"

definition py_sub :: "'f pyrt \<Rightarrow> 'f pyval \<Rightarrow> 'f pyval \<Rightarrow> py_error + 'f pyval" where
  "py_sub P a b =
     (case (como_numero a, como_numero b) of
        (Some x, Some y) \<Rightarrow>
          ligar (num_binop P (-) (float_sub P) x y) (\<lambda>r. Inr (de_numero r))
      | _ \<Rightarrow> Inl TypeError)"

definition py_mul :: "'f pyrt \<Rightarrow> 'f pyval \<Rightarrow> 'f pyval \<Rightarrow> py_error + 'f pyval" where
  "py_mul P a b =
     (case (como_numero a, como_numero b) of
        (Some x, Some y) \<Rightarrow>
          ligar (num_binop P (*) (float_mul P) x y) (\<lambda>r. Inr (de_numero r))
      | _ \<Rightarrow>
        (case (a, como_entero b) of
           (PStr s, Some n) \<Rightarrow> Inr (PStr (repetir n s))
         | (PList xs, Some n) \<Rightarrow> Inr (PList (repetir n xs))
         | _ \<Rightarrow>
           (case (como_entero a, b) of
              (Some n, PStr s) \<Rightarrow> Inr (PStr (repetir n s))
            | (Some n, PList xs) \<Rightarrow> Inr (PList (repetir n xs))
            | _ \<Rightarrow> Inl TypeError)))"

text \<open>
  True division always gives a float. Two ints are divided exactly and rounded once; a
  mixed pair is converted to floats first, and only then is the divisor tested.
\<close>

definition py_truediv :: "'f pyrt \<Rightarrow> 'f pyval \<Rightarrow> 'f pyval \<Rightarrow> py_error + 'f" where
  "py_truediv P a b =
     (case (como_numero a, como_numero b) of
        (Some (NInt i), Some (NInt j)) \<Rightarrow>
          (if j = 0 then Inl ZeroDivisionError
           else (case int_truediv P i j of None \<Rightarrow> Inl OverflowError | Some q \<Rightarrow> Inr q))
      | (Some x, Some y) \<Rightarrow>
          ligar (a_float P x) (\<lambda>u. ligar (a_float P y) (\<lambda>v.
            if float_is_zero P v then Inl ZeroDivisionError else Inr (float_div P u v)))
      | _ \<Rightarrow> Inl TypeError)"

text \<open>\<^verbatim>\<open>y != 0\<close>: a value that is not a number is different from 0.\<close>

definition py_ne_zero :: "'f pyrt \<Rightarrow> 'f pyval \<Rightarrow> bool" where
  "py_ne_zero P y =
     (case como_numero y of
        Some (NInt i) \<Rightarrow> i \<noteq> 0
      | Some (NFloat x) \<Rightarrow> \<not> float_is_zero P x
      | None \<Rightarrow> True)"

text \<open>\<^verbatim>\<open>n > 0\<close>: ordering a non-number against an int raises TypeError.\<close>

definition py_gt_zero :: "'f pyrt \<Rightarrow> 'f pyval \<Rightarrow> py_error + bool" where
  "py_gt_zero P n =
     (case como_numero n of
        Some (NInt i) \<Rightarrow> Inr (0 < i)
      | Some (NFloat x) \<Rightarrow> Inr (float_gt_zero P x)
      | None \<Rightarrow> Inl TypeError)"

definition float_to_int :: "'f pyrt \<Rightarrow> 'f \<Rightarrow> py_error + int" where
  "float_to_int P x =
     (case float_trunc P x of
        Entero i \<Rightarrow> Inr i
      | Infinito \<Rightarrow> Inl OverflowError
      | NoEsNumero \<Rightarrow> Inl ValueError)"

definition num_int :: "'f pyrt \<Rightarrow> 'f numero \<Rightarrow> py_error + int" where
  "num_int P n = (case n of NInt i \<Rightarrow> Inr i | NFloat x \<Rightarrow> float_to_int P x)"

subsection \<open>Subscripting, iteration, keyword arguments\<close>

text \<open>\<^verbatim>\<open>v[key]\<close> with a string key: only a dictionary accepts it.\<close>

definition py_getitem :: "'f pyval \<Rightarrow> string \<Rightarrow> py_error + 'f pyval" where
  "py_getitem v k =
     (case v of
        PDict kvs \<Rightarrow> (case map_of kvs k of None \<Rightarrow> Inl KeyError | Some x \<Rightarrow> Inr x)
      | _ \<Rightarrow> Inl TypeError)"

text \<open>\<^verbatim>\<open>v.lower()\<close>: only a string has the method.\<close>

definition py_lower :: "'f pyrt \<Rightarrow> 'f pyval \<Rightarrow> py_error + string" where
  "py_lower P v = (case v of PStr s \<Rightarrow> Inr (str_lower P s) | _ \<Rightarrow> Inl AttributeError)"

text \<open>
  \<^verbatim>\<open>for x in v\<close>: a list gives its elements, a dictionary its keys, a string its
  characters (one-element strings); anything else is not iterable.
\<close>

definition py_iter :: "'f pyval \<Rightarrow> py_error + 'f pyval list" where
  "py_iter v =
     (case v of
        PList xs \<Rightarrow> Inr xs
      | PDict kvs \<Rightarrow> Inr (map (\<lambda>kv. PStr (fst kv)) kvs)
      | PStr s \<Rightarrow> Inr (map (\<lambda>c. PStr [c]) s)
      | _ \<Rightarrow> Inl TypeError)"

text \<open>
  \<^verbatim>\<open>f(**argumentos)\<close> for a function whose parameters are all required: an
  unexpected key or a missing parameter raises TypeError; otherwise the values come in
  the order of the parameters.
\<close>

definition vincular :: "string list \<Rightarrow> 'f dict \<Rightarrow> py_error + 'f pyval list" where
  "vincular params argumentos =
     (if (\<forall>k \<in> set (map fst argumentos). k \<in> set params)
         \<and> (\<forall>p \<in> set params. p \<in> set (map fst argumentos))
      then Inr (map (\<lambda>p. case map_of argumentos p of Some v \<Rightarrow> v | None \<Rightarrow> PNone) params)
      else Inl TypeError)"

text \<open>A list and a dictionary cannot be hashed, so they cannot be looked up in a dict.\<close>

definition hashable :: "'f pyval \<Rightarrow> bool" where
  "hashable v = (case v of PList _ \<Rightarrow> False | PDict _ \<Rightarrow> False | _ \<Rightarrow> True)"


section \<open>tools.py\<close>

subsection \<open>calculadora\<close>

text \<open>
  The four operations of the dictionary \<^verbatim>\<open>operaciones\<close>. Division tests
  \<^verbatim>\<open>y != 0\<close> first and gives the error text, itself the value of
  \<^verbatim>\<open>resultado\<close>, when the test fails.
\<close>

definition error_division :: string where
  "error_division = ''Error: divisi'' @ o_acento @ ''n por cero''"

definition operaciones ::
  "'f pyrt \<Rightarrow> string \<Rightarrow> ('f pyval \<Rightarrow> 'f pyval \<Rightarrow> py_error + 'f pyval) option" where
  "operaciones P operacion =
     (if operacion = ''sumar'' then Some (py_add P)
      else if operacion = ''restar'' then Some (py_sub P)
      else if operacion = ''multiplicar'' then Some (py_mul P)
      else if operacion = ''dividir'' then
        Some (\<lambda>x y. if py_ne_zero P y
                     then ligar (py_truediv P x y) (\<lambda>q. Inr (PFloat q))
                     else Inr (PStr error_division))
      else None)"

definition calculadora ::
  "'f pyrt \<Rightarrow> 'f pyval \<Rightarrow> 'f pyval \<Rightarrow> 'f pyval \<Rightarrow> py_error + string" where
  "calculadora P operacion a b =
     (if \<not> hashable operacion then Inl TypeError
      else
        (case (case operacion of PStr s \<Rightarrow> operaciones P s | _ \<Rightarrow> None) of
           None \<Rightarrow>
             Inr (''Error: operaci'' @ o_acento @ ''n '' @ [CHR 0x27] @ py_str P operacion
                  @ [CHR 0x27] @ '' no reconocida'')
         | Some f \<Rightarrow>
             ligar (f a b) (\<lambda>resultado.
               Inr (''El resultado de '' @ py_str P a @ '' '' @ py_str P operacion @ '' ''
                    @ py_str P b @ '' = '' @ py_str P resultado))))"

subsection \<open>obtener_hora\<close>

text \<open>
  The clock is outside the program: \<open>reloj\<close> reads it from the world \<open>'w\<close> and gives
  the text of \<^verbatim>\<open>datetime.now().strftime('%Y-%m-%d %H:%M:%S')\<close> with the world
  after the reading.
\<close>

type_synonym 'w reloj = "'w \<Rightarrow> string \<times> 'w"

definition obtener_hora :: "'w reloj \<Rightarrow> 'w \<Rightarrow> string \<times> 'w" where
  "obtener_hora R w = (case R w of (ahora, w') \<Rightarrow> (''Fecha y hora actual: '' @ ahora, w'))"

subsection \<open>calcular_calorias\<close>

definition calorias_por_100g :: "(string \<times> int) list" where
  "calorias_por_100g =
     [(''pollo'', 165), (''pechuga de pollo'', 165), (''carne'', 250), (''carne de res'', 250),
      (''cerdo'', 242), (''pescado'', 120), (''salmon'', 208), (''atun'', 130), (''huevo'', 155),
      (''tofu'', 76), (''jamon'', 145),
      (''arroz'', 130), (''pasta'', 131), (''pan'', 265), (''papa'', 77), (''patata'', 77),
      (''quinoa'', 120), (''avena'', 389), (''tortilla'', 218), (''harina'', 364),
      (''tomate'', 18), (''cebolla'', 40), (''ajo'', 149), (''zanahoria'', 41),
      (''brocoli'', 34), (''espinaca'', 23), (''lechuga'', 15), (''pimiento'', 31),
      (''champi'' @ enie @ ''on'', 22), (''calabacin'', 17), (''berenjena'', 25),
      (''leche'', 42), (''queso'', 402), (''crema'', 340), (''yogur'', 59), (''mantequilla'', 717),
      (''aceite'', 884), (''aceite de oliva'', 884), (''mayonesa'', 680),
      (''frijoles'', 347), (''lentejas'', 116), (''garbanzos'', 164),
      (''manzana'', 52), (''platano'', 89), (''naranja'', 47), (''limon'', 29),
      (''azucar'', 387), (''sal'', 0), (''pimienta'', 251), (''chocolate'', 546)]"

text \<open>
  The inner loop: the first entry, in the order of the dictionary, whose key is contained
  in the name or contains it.
\<close>

fun buscar_calorias :: "(string \<times> int) list \<Rightarrow> string \<Rightarrow> int option" where
  "buscar_calorias [] nombre = None"
| "buscar_calorias ((key, cal) # resto) nombre =
     (if sublist key nombre \<or> sublist nombre key then Some cal
      else buscar_calorias resto nombre)"

text \<open>\<^verbatim>\<open>gramos * calorias_base / 100\<close>\<close>

definition kcal :: "'f pyrt \<Rightarrow> 'f pyval \<Rightarrow> int \<Rightarrow> py_error + 'f" where
  "kcal P gramos calorias_base =
     ligar (py_mul P gramos (PInt calorias_base)) (\<lambda>m. py_truediv P m (PInt 100))"

definition linea_estimada :: "string \<Rightarrow> string \<Rightarrow> int \<Rightarrow> string" where
  "linea_estimada nombre gramos k =
     ''  - '' @ nombre @ '': '' @ gramos @ ''g '' @ flecha @ '' ~'' @ str_int k
     @ '' kcal (estimado)''"

definition linea_ingrediente :: "string \<Rightarrow> string \<Rightarrow> int \<Rightarrow> string" where
  "linea_ingrediente nombre gramos k =
     ''  - '' @ nombre @ '': '' @ gramos @ ''g '' @ flecha @ '' '' @ str_int k @ '' kcal''"

text \<open>
  The loop over the ingredients, with its two accumulators. \<^verbatim>\<open>total_calorias\<close>
  starts as the int 0 and becomes a float with the first matched ingredient.
\<close>

fun bucle_ingredientes ::
  "'f pyrt \<Rightarrow> 'f pyval list \<Rightarrow> 'f numero \<Rightarrow> string list \<Rightarrow> py_error + ('f numero \<times> string list)"
where
  "bucle_ingredientes P [] total_calorias detalles = Inr (total_calorias, detalles)"
| "bucle_ingredientes P (ing # resto) total_calorias detalles =
     ligar (py_getitem ing ''nombre'') (\<lambda>n.
     ligar (py_lower P n) (\<lambda>nombre.
     ligar (py_getitem ing ''cantidad_gramos'') (\<lambda>gramos.
       (case buscar_calorias calorias_por_100g nombre of
          None \<Rightarrow>
            ligar (kcal P gramos 100) (\<lambda>x.
            ligar (float_to_int P x) (\<lambda>k.
              bucle_ingredientes P resto total_calorias
                (detalles @ [linea_estimada nombre (py_str P gramos) k])))
        | Some calorias_base \<Rightarrow>
            ligar (kcal P gramos calorias_base) (\<lambda>calorias_ing.
            ligar (num_add P total_calorias (NFloat calorias_ing)) (\<lambda>total'.
            ligar (float_to_int P calorias_ing) (\<lambda>k.
              bucle_ingredientes P resto total'
                (detalles @ [linea_ingrediente nombre (py_str P gramos) k]))))))))"

definition texto_analisis :: "string list \<Rightarrow> int \<Rightarrow> string \<Rightarrow> int \<Rightarrow> string" where
  "texto_analisis detalles total_kcal porciones por_porcion =
     emoji_grafico @ '' AN'' @ A_acento @ ''LISIS NUTRICIONAL'' @ nl
     @ replicate 40 (CHR ''='') @ nl
     @ ''Desglose por ingrediente:'' @ nl
     @ join nl detalles @ nl
     @ nl
     @ replicate 40 (CHR ''='') @ nl
     @ emoji_fuego @ '' Calor'' @ i_acento @ ''as totales: '' @ str_int total_kcal @ '' kcal'' @ nl
     @ emoji_plato @ ''  Porciones: '' @ porciones @ nl
     @ emoji_pin @ '' Calor'' @ i_acento @ ''as por porci'' @ o_acento @ ''n: ''
     @ str_int por_porcion @ '' kcal'' @ nl"

definition calcular_calorias :: "'f pyrt \<Rightarrow> 'f pyval \<Rightarrow> 'f pyval \<Rightarrow> py_error + string" where
  "calcular_calorias P ingredientes num_porciones =
     ligar (py_iter ingredientes) (\<lambda>ings.
     ligar (bucle_ingredientes P ings (NInt 0) []) (\<lambda>(total_calorias, detalles).
     ligar (py_gt_zero P num_porciones) (\<lambda>positivo.
     ligar (if positivo
            then ligar (py_truediv P (de_numero total_calorias) num_porciones)
                   (\<lambda>q. Inr (NFloat q))
            else Inr total_calorias) (\<lambda>calorias_por_porcion.
     ligar (num_int P total_calorias) (\<lambda>total_kcal.
     ligar (num_int P calorias_por_porcion) (\<lambda>por_porcion.
       Inr (texto_analisis detalles total_kcal (py_str P num_porciones) por_porcion)))))))"

subsection \<open>The dispatcher\<close>

text \<open>
  The result is a string, or None for the reserved name of the delegation tool. The two
  \<^verbatim>\<open>print\<close> calls format a string and a dictionary and cannot fail; output to
  the console is not part of the model.
\<close>

definition error_herramienta :: "string \<Rightarrow> string" where
  "error_herramienta nombre =
     ''Error: herramienta '' @ [CHR 0x27] @ nombre @ [CHR 0x27] @ '' no encontrada''"

definition ejecutar_herramienta ::
  "'f pyrt \<Rightarrow> 'w reloj \<Rightarrow> string \<Rightarrow> 'f dict \<Rightarrow> 'w \<Rightarrow> (py_error + string option) \<times> 'w" where
  "ejecutar_herramienta P R nombre argumentos w =
     (if nombre = ''calculadora'' then
        (ligar (vincular [''operacion'', ''a'', ''b''] argumentos)
           (\<lambda>vs. ligar (calculadora P (vs ! 0) (vs ! 1) (vs ! 2)) (\<lambda>s. Inr (Some s))), w)
      else if nombre = ''obtener_hora'' then
        (case obtener_hora R w of (texto, w') \<Rightarrow> (Inr (Some texto), w'))
      else if nombre = ''calcular_calorias'' then
        (ligar (vincular [''ingredientes'', ''num_porciones''] argumentos)
           (\<lambda>vs. ligar (calcular_calorias P (vs ! 0) (vs ! 1)) (\<lambda>s. Inr (Some s))), w)
      else if nombre = ''consultar_agente_experto'' then (Inr None, w)
      else (Inr (Some (error_herramienta nombre)), w))"


text \<open>The catalogue shown to the model.\<close>

definition TOOLS_DEFINITION :: "'f pyval list" where
  "TOOLS_DEFINITION =
    [PDict
       [(''type'', PStr ''function''),
        (''function'', PDict
           [(''name'', PStr ''calculadora''),
            (''description'', PStr (''Realiza operaciones matem'' @ a_acento @ ''ticas b'' @ a_acento
                   @ ''sicas. Usa esta herramienta cuando el usuario pida calcular algo.'')),
            (''parameters'', PDict
               [(''type'', PStr ''object''),
                (''properties'', PDict
                   [(''operacion'', PDict
                       [(''type'', PStr ''string''),
                        (''enum'', PList
                           [PStr ''sumar'',
                            PStr ''restar'',
                            PStr ''multiplicar'',
                            PStr ''dividir'']),
                        (''description'', PStr (''La operaci'' @ o_acento @ ''n matem'' @ a_acento
                               @ ''tica a realizar''))]),
                    (''a'', PDict
                       [(''type'', PStr ''number''),
                        (''description'', PStr (''Primer n'' @ u_acento @ ''mero''))]),
                    (''b'', PDict
                       [(''type'', PStr ''number''),
                        (''description'', PStr (''Segundo n'' @ u_acento @ ''mero''))])]),
                (''required'', PList
                   [PStr ''operacion'',
                    PStr ''a'',
                    PStr ''b''])])])],
     PDict
       [(''type'', PStr ''function''),
        (''function'', PDict
           [(''name'', PStr ''obtener_hora''),
            (''description'', PStr (''Obtiene la fecha y hora actual. Usa esta herramienta cuando pregunten qu''
                   @ e_acento @ '' hora es o qu'' @ e_acento @ '' d'' @ i_acento @ ''a es.'')),
            (''parameters'', PDict
               [(''type'', PStr ''object''),
                (''properties'', PDict []),
                (''required'', PList [])])])],
     PDict
       [(''type'', PStr ''function''),
        (''function'', PDict
           [(''name'', PStr ''consultar_agente_experto''),
            (''description'', PStr (''Consulta a un agente especializado para tareas complejas. '' @ U_acento
                   @ ''salo cuando necesites ayuda experta en un tema espec'' @ i_acento
                   @ ''fico.'')),
            (''parameters'', PDict
               [(''type'', PStr ''object''),
                (''properties'', PDict
                   [(''tipo_experto'', PDict
                       [(''type'', PStr ''string''),
                        (''enum'', PList
                           [PStr ''matematicas'',
                            PStr ''escritura'',
                            PStr ''codigo'',
                            PStr ''cocina'']),
                        (''description'', PStr ''Tipo de experto a consultar: matematicas, escritura, codigo, cocina'')]),
                    (''consulta'', PDict
                       [(''type'', PStr ''string''),
                        (''description'', PStr ''La pregunta o tarea para el experto'')])]),
                (''required'', PList
                   [PStr ''tipo_experto'',
                    PStr ''consulta''])])])],
     PDict
       [(''type'', PStr ''function''),
        (''function'', PDict
           [(''name'', PStr ''calcular_calorias''),
            (''description'', PStr (''Calcula las calor'' @ i_acento
                   @ ''as aproximadas de una receta o lista de ingredientes. Usa esta herramienta para dar informaci''
                   @ o_acento @ ''n nutricional.'')),
            (''parameters'', PDict
               [(''type'', PStr ''object''),
                (''properties'', PDict
                   [(''ingredientes'', PDict
                       [(''type'', PStr ''array''),
                        (''items'', PDict
                           [(''type'', PStr ''object''),
                            (''properties'', PDict
                               [(''nombre'', PDict
                                   [(''type'', PStr ''string''),
                                    (''description'', PStr ''Nombre del ingrediente'')]),
                                (''cantidad_gramos'', PDict
                                   [(''type'', PStr ''number''),
                                    (''description'', PStr ''Cantidad en gramos'')])]),
                            (''required'', PList
                               [PStr ''nombre'',
                                PStr ''cantidad_gramos''])]),
                        (''description'', PStr ''Lista de ingredientes con sus cantidades en gramos'')]),
                    (''num_porciones'', PDict
                       [(''type'', PStr ''number''),
                        (''description'', PStr (''N'' @ u_acento
                               @ ''mero de porciones en las que se divide la receta''))])]),
                (''required'', PList
                   [PStr ''ingredientes'',
                    PStr ''num_porciones''])])])]]"


section \<open>llm_client.py\<close>

record 'f ToolCall =
  tc_id :: string
  tc_name :: string
  tc_arguments :: "'f dict"

record 'f LLMResponse =
  content :: "string option"
  tool_calls :: "'f ToolCall list"
  raw_message :: "'f pyval"

text \<open>
  The abstract class \<^verbatim>\<open>LLMClient\<close>: its four methods, over a world \<open>'w\<close> that
  holds whatever the provider keeps between calls. A call returns the world after it,
  together with its result or the exception it raised. The two message encoders do not
  touch the world. The client reads the history it is given and does not change it.
\<close>

record ('w, 'f) LLMClient =
  chat :: "'f pyval list \<Rightarrow> string option \<Rightarrow> 'w \<Rightarrow> (py_error + string option) \<times> 'w"
  chat_with_tools ::
    "'f pyval list \<Rightarrow> 'f pyval list \<Rightarrow> string option \<Rightarrow> 'w \<Rightarrow> (py_error + 'f LLMResponse) \<times> 'w"
  create_tool_result_message :: "string \<Rightarrow> string option \<Rightarrow> string \<Rightarrow> 'f pyval"
  create_assistant_message_with_tools :: "'f LLMResponse \<Rightarrow> 'f pyval"

definition opcional :: "string option \<Rightarrow> 'f pyval" where
  "opcional x = (case x of None \<Rightarrow> PNone | Some s \<Rightarrow> PStr s)"

text \<open>The encoders of \<^verbatim>\<open>OpenAIClient\<close>.\<close>

definition openai_create_tool_result_message ::
  "string \<Rightarrow> string option \<Rightarrow> string \<Rightarrow> 'f pyval" where
  "openai_create_tool_result_message tool_call_id result tool_name =
     PDict [(''role'', PStr ''tool''), (''tool_call_id'', PStr tool_call_id),
            (''content'', opcional result)]"

definition openai_create_assistant_message_with_tools :: "'f LLMResponse \<Rightarrow> 'f pyval" where
  "openai_create_assistant_message_with_tools response = raw_message response"

text \<open>The encoders of \<^verbatim>\<open>GeminiClient\<close>.\<close>

definition gemini_create_tool_result_message ::
  "string \<Rightarrow> string option \<Rightarrow> string \<Rightarrow> 'f pyval" where
  "gemini_create_tool_result_message tool_call_id result tool_name =
     PDict [(''role'', PStr ''tool''), (''tool_call_id'', PStr tool_call_id),
            (''content'', opcional result),
            (''name'', PStr (if tool_name = [] then ''tool'' else tool_name))]"

definition gemini_create_assistant_message_with_tools :: "'f LLMResponse \<Rightarrow> 'f pyval" where
  "gemini_create_assistant_message_with_tools response =
     PDict [(''role'', PStr ''model_function_call''),
            (''function_calls'',
             PList (map (\<lambda>tc. PDict [(''name'', PStr (tc_name tc)),
                                      (''args'', PDict (tc_arguments tc))])
                        (tool_calls response)))]"

section \<open>agents.py\<close>

subsection \<open>The literal texts\<close>

definition TOOLS_COCINERO :: "'f pyval list" where
  "TOOLS_COCINERO =
    [PDict
       [(''type'', PStr ''function''),
        (''function'', PDict
           [(''name'', PStr ''calcular_calorias''),
            (''description'', PStr (''Calcula las calor'' @ i_acento
                   @ ''as de una receta. SIEMPRE usa esta herramienta despu'' @ e_acento
                   @ ''s de presentar una receta.'')),
            (''parameters'', PDict
               [(''type'', PStr ''object''),
                (''properties'', PDict
                   [(''ingredientes'', PDict
                       [(''type'', PStr ''array''),
                        (''items'', PDict
                           [(''type'', PStr ''object''),
                            (''properties'', PDict
                               [(''nombre'', PDict
                                   [(''type'', PStr ''string'')]),
                                (''cantidad_gramos'', PDict
                                   [(''type'', PStr ''number'')])]),
                            (''required'', PList
                               [PStr ''nombre'',
                                PStr ''cantidad_gramos''])]),
                        (''description'', PStr ''Lista de ingredientes con cantidades en gramos'')]),
                    (''num_porciones'', PDict
                       [(''type'', PStr ''number''),
                        (''description'', PStr (''N'' @ u_acento @ ''mero de porciones''))])]),
                (''required'', PList
                   [PStr ''ingredientes'',
                    PStr ''num_porciones''])])])]]"


definition prompt_matematicas :: string where
  "prompt_matematicas =
     ''Eres un experto en matem'' @ a_acento @ ''ticas. Tu trabajo es:'' @ nl
     @ ''- Resolver problemas matem'' @ a_acento @ ''ticos paso a paso'' @ nl
     @ ''- Explicar conceptos de forma clara'' @ nl @ ''- Mostrar el razonamiento detr''
     @ a_acento @ ''s de cada paso'' @ nl @ nl @ ''Responde de forma concisa pero completa.''"

definition prompt_escritura :: string where
  "prompt_escritura =
     ''Eres un experto en escritura y redacci'' @ o_acento @ ''n. Tu trabajo es:'' @ nl
     @ ''- Ayudar a redactar textos claros y efectivos'' @ nl
     @ ''- Corregir y mejorar la gram'' @ a_acento @ ''tica'' @ nl
     @ ''- Sugerir mejores formas de expresar ideas'' @ nl @ nl
     @ ''Responde de forma concisa pero completa.''"

definition prompt_codigo :: string where
  "prompt_codigo =
     ''Eres un experto en programaci'' @ o_acento @ ''n. Tu trabajo es:'' @ nl
     @ ''- Escribir c'' @ o_acento @ ''digo limpio y bien documentado'' @ nl
     @ ''- Explicar conceptos de programaci'' @ o_acento @ ''n'' @ nl
     @ ''- Ayudar a debuggear problemas'' @ nl @ nl
     @ ''Responde de forma concisa. Usa ejemplos de c'' @ o_acento @ ''digo cuando sea ''
     @ u_acento @ ''til.''"

definition prompt_cocinero :: string where
  "prompt_cocinero =
     ''Eres un chef experto y amigable. Tu trabajo es ayudar a crear recetas personalizadas.''
     @ nl @ nl @ ''FLUJO DE CONVERSACI'' @ [CHR 0xC3, CHR 0x93]
     @ ''N - Sigue estos pasos EN ORDEN:'' @ nl @ nl
     @ ''PASO 1: Cuando el usuario pida una receta, PRIMERO pregunta:'' @ nl @ ''   ''
     @ [CHR 0x22, CHR 0xF0, CHR 0x9F, CHR 0x8D, CHR 0xBD, CHR 0xEF, CHR 0xB8, CHR 0x8F]
     @ '' '' @ [CHR 0xC2, CHR 0xA1]
     @ ''Genial! Para preparar la mejor receta, necesito saber:'' @ nl @ ''    - ''
     @ [CHR 0xC2, CHR 0xBF] @ ''Para cu'' @ a_acento @ ''ntas personas ser'' @ a_acento
     @ ''?'' @ [CHR 0x22] @ nl @ nl @ ''PASO 2: Despu'' @ e_acento
     @ ''s de saber las porciones, pregunta:'' @ nl @ ''   '' @ [CHR 0x22, CHR 0xC2, CHR 0xBF]
     @ ''Qu'' @ e_acento @ '' tipo de cocina prefieres? (italiana, mexicana, asi'' @ a_acento
     @ ''tica, casera, etc.)'' @ [CHR 0x22] @ nl @ nl @ ''PASO 3: Con esa informaci''
     @ o_acento @ ''n, presenta la receta completa con:'' @ nl @ ''   - Nombre del plato''
     @ nl
     @ ''   - Ingredientes con cantidades en gramos (esto es IMPORTANTE para calcular calor''
     @ i_acento @ ''as)'' @ nl @ ''   - Pasos de preparaci'' @ o_acento @ ''n numerados'' @ nl
     @ ''   - Tiempo estimado de preparaci'' @ o_acento @ ''n'' @ nl @ nl
     @ ''   Luego indica: '' @ [CHR 0x22, CHR 0xF0, CHR 0x9F, CHR 0x93, CHR 0x8A]
     @ '' Voy a calcular las calor'' @ i_acento @ ''as de esta receta...'' @ [CHR 0x22] @ nl
     @ ''   Y usa la herramienta calcular_calorias con los ingredientes.'' @ nl @ nl
     @ ''PASO 4: Despu'' @ e_acento @ ''s de mostrar las calor'' @ i_acento
     @ ''as, pregunta:'' @ nl @ ''   ''
     @ [CHR 0x22, CHR 0xE2, CHR 0x9A, CHR 0xA0, CHR 0xEF, CHR 0xB8, CHR 0x8F] @ '' ''
     @ [CHR 0xC2, CHR 0xBF] @ ''Alg'' @ u_acento
     @ ''n comensal tiene alergias alimentarias o restricciones diet'' @ e_acento @ ''ticas?''
     @ nl @ ''    (gluten, lactosa, frutos secos, mariscos, vegetariano, vegano, etc.)''
     @ [CHR 0x22] @ nl @ nl @ ''PASO 5: Si hay alergias/restricciones:'' @ nl
     @ ''   - Modifica la receta sustituyendo ingredientes problem'' @ a_acento @ ''ticos''
     @ nl @ ''   - Presenta la nueva versi'' @ o_acento @ ''n adaptada'' @ nl
     @ ''   - Recalcula las calor'' @ i_acento @ ''as con calcular_calorias'' @ nl @ nl
     @ ''Si NO hay alergias, responde: '' @ [CHR 0x22, CHR 0xC2, CHR 0xA1]
     @ ''Perfecto! Tu receta est'' @ a_acento @ '' lista. '' @ [CHR 0xC2, CHR 0xA1]
     @ ''Buen provecho! ''
     @ [CHR 0xF0, CHR 0x9F, CHR 0x91, CHR 0xA8, CHR 0xE2, CHR 0x80, CHR 0x8D, CHR 0xF0, CHR 0x9F, CHR 0x8D, CHR 0xB3, CHR 0x22]
     @ nl @ nl @ ''REGLAS IMPORTANTES:'' @ nl @ ''- S'' @ e_acento @ '' c'' @ a_acento
     @ ''lido y entusiasta, usa emojis relacionados con comida'' @ nl
     @ ''- Siempre especifica cantidades en GRAMOS para poder calcular calor'' @ i_acento
     @ ''as'' @ nl @ ''- No saltes pasos, sigue el flujo en orden'' @ nl
     @ ''- Si el usuario da toda la informaci'' @ o_acento @ ''n de una vez, adapta el flujo''
     @ nl @ ''- Para las calor'' @ i_acento
     @ ''as, SIEMPRE usa la herramienta calcular_calorias''"

definition prompt_orquestador :: string where
  "prompt_orquestador =
     ''Eres un asistente inteligente que orquesta tareas.'' @ nl @ nl @ ''Tu trabajo es:''
     @ nl @ ''1. Analizar lo que el usuario necesita'' @ nl
     @ ''2. Decidir si puedes responder directamente o necesitas usar herramientas'' @ nl
     @ ''3. Para c'' @ a_acento @ ''lculos simples, usa la calculadora'' @ nl
     @ ''4. Para preguntas sobre fecha/hora, usa obtener_hora'' @ nl
     @ ''5. Para calcular calor'' @ i_acento @ ''as de recetas, usa calcular_calorias'' @ nl
     @ ''6. Para tareas complejas que requieren expertise, consulta a un agente experto:''
     @ nl @ ''   - matematicas: problemas matem'' @ a_acento @ ''ticos y l'' @ o_acento
     @ ''gica'' @ nl @ ''   - escritura: redacci'' @ o_acento @ ''n y gram'' @ a_acento
     @ ''tica'' @ nl @ ''   - codigo: programaci'' @ o_acento @ ''n y debugging'' @ nl
     @ ''   - cocina: recetas, nutrici'' @ o_acento @ ''n y consejos culinarios'' @ nl @ nl
     @ ''IMPORTANTE:'' @ nl @ ''- Usa las herramientas disponibles cuando sea apropiado'' @ nl
     @ ''- No inventes informaci'' @ o_acento @ ''n, usa las herramientas para obtenerla''
     @ nl @ ''- Para recetas y comida, SIEMPRE delega al experto de cocina'' @ nl @ ''- S''
     @ e_acento @ '' conciso en tus respuestas''"

subsection \<open>AgenteBase and AgenteConHerramientas\<close>

text \<open>
  One record for both classes; \<open>clase\<close> says which \<^verbatim>\<open>pensar\<close> the object has.
  The client is not a field: it is the same object for every agent of a run and is
  passed to each operation with the world.
\<close>

datatype clase_agente = AgenteBase | AgenteConHerramientas

record 'f agente =
  clase :: clase_agente
  system_prompt :: string
  model :: "string option"
  messages :: "'f pyval list"
  tools :: "'f pyval list"

definition mensaje_de :: "string \<Rightarrow> 'f pyval \<Rightarrow> 'f pyval" where
  "mensaje_de role texto = PDict [(''role'', PStr role), (''content'', texto)]"

definition AgenteBase_init :: "string \<Rightarrow> string option \<Rightarrow> 'f agente" where
  "AgenteBase_init prompt modelo =
     \<lparr>clase = AgenteBase, system_prompt = prompt, model = modelo,
      messages = [mensaje_de ''system'' (PStr prompt)], tools = []\<rparr>"

definition AgenteConHerramientas_init ::
  "string \<Rightarrow> 'f pyval list option \<Rightarrow> string option \<Rightarrow> 'f agente" where
  "AgenteConHerramientas_init prompt herramientas modelo =
     (AgenteBase_init prompt modelo)
       \<lparr>clase := AgenteConHerramientas,
        tools := (case herramientas of None \<Rightarrow> [] | Some ts \<Rightarrow> ts)\<rparr>"

definition nueva_conversacion :: "'f agente \<Rightarrow> 'f agente" where
  "nueva_conversacion ag = ag\<lparr>messages := [mensaje_de ''system'' (PStr (system_prompt ag))]\<rparr>"

definition agregar :: "'f pyval \<Rightarrow> 'f agente \<Rightarrow> 'f agente" where
  "agregar m ag = ag\<lparr>messages := messages ag @ [m]\<rparr>"

text \<open>
  An operation on an agent returns what Python leaves behind: the value returned or the
  exception raised, the agent with every message appended so far, and the world.
\<close>

type_synonym ('a, 's, 'w) salida = "(py_error + 'a) \<times> 's \<times> 'w"

text \<open>The text-only turn: \<^verbatim>\<open>AgenteBase.pensar\<close>, and the branch without tools.\<close>

definition turno_chat ::
  "('w, 'f) LLMClient \<Rightarrow> 'f agente \<Rightarrow> 'w \<Rightarrow> (string option, 'f agente, 'w) salida" where
  "turno_chat C ag w =
     (case chat C (messages ag) (model ag) w of
        (Inl e, w') \<Rightarrow> (Inl e, ag, w')
      | (Inr respuesta, w') \<Rightarrow>
          (Inr respuesta, agregar (mensaje_de ''assistant'' (opcional respuesta)) ag, w'))"

definition pensar_base ::
  "('w, 'f) LLMClient \<Rightarrow> 'f agente \<Rightarrow> 'f pyval \<Rightarrow> 'w \<Rightarrow> (string option, 'f agente, 'w) salida" where
  "pensar_base C ag mensaje w = turno_chat C (agregar (mensaje_de ''user'' mensaje) ag) w"

text \<open>
  The \<^verbatim>\<open>for\<close> loop over the tool calls of one response. With \<open>verbose\<close> the
  preview \<^verbatim>\<open>resultado[:80]\<close> is evaluated, and None cannot be sliced.
\<close>

fun ejecutar_tool_calls ::
  "'f pyrt \<Rightarrow> 'w reloj \<Rightarrow> ('w, 'f) LLMClient \<Rightarrow> bool \<Rightarrow> 'f ToolCall list \<Rightarrow> 'f agente \<Rightarrow> 'w
   \<Rightarrow> (unit, 'f agente, 'w) salida" where
  "ejecutar_tool_calls P R C verbose [] ag w = (Inr (), ag, w)"
| "ejecutar_tool_calls P R C verbose (tool_call # resto) ag w =
     (case ejecutar_herramienta P R (tc_name tool_call) (tc_arguments tool_call) w of
        (Inl e, w') \<Rightarrow> (Inl e, ag, w')
      | (Inr resultado, w') \<Rightarrow>
          if verbose \<and> resultado = None then (Inl TypeError, ag, w')
          else ejecutar_tool_calls P R C verbose resto
                 (agregar (create_tool_result_message C (tc_id tool_call) resultado
                             (tc_name tool_call)) ag) w')"

text \<open>
  The \<^verbatim>\<open>while True\<close> loop. It has no bound: a run that never leaves it is the
  value None.
\<close>

partial_function (option) bucle_pensar ::
  "'f pyrt \<Rightarrow> 'w reloj \<Rightarrow> ('w, 'f) LLMClient \<Rightarrow> bool \<Rightarrow> 'f agente \<Rightarrow> 'w
   \<Rightarrow> (string option, 'f agente, 'w) salida option" where
  "bucle_pensar P R C verbose ag w =
     (case chat_with_tools C (messages ag) (tools ag) (model ag) w of
        (Inl e, w') \<Rightarrow> Some (Inl e, ag, w')
      | (Inr response, w') \<Rightarrow>
          if tool_calls response \<noteq> [] then
            (case ejecutar_tool_calls P R C verbose (tool_calls response)
                    (agregar (create_assistant_message_with_tools C response) ag) w' of
               (Inl e, ag', w'') \<Rightarrow> Some (Inl e, ag', w'')
             | (Inr u, ag', w'') \<Rightarrow> bucle_pensar P R C verbose ag' w'')
          else
            Some (Inr (content response),
                  agregar (mensaje_de ''assistant'' (opcional (content response))) ag, w'))"

definition pensar_con_herramientas ::
  "'f pyrt \<Rightarrow> 'w reloj \<Rightarrow> ('w, 'f) LLMClient \<Rightarrow> 'f agente \<Rightarrow> 'f pyval \<Rightarrow> bool \<Rightarrow> 'w
   \<Rightarrow> (string option, 'f agente, 'w) salida option" where
  "pensar_con_herramientas P R C ag mensaje verbose w =
     (let ag1 = agregar (mensaje_de ''user'' mensaje) ag in
      if tools ag1 = [] then Some (turno_chat C ag1 w)
      else bucle_pensar P R C verbose ag1 w)"

text \<open>Method dispatch on the class of the object.\<close>

definition pensar ::
  "'f pyrt \<Rightarrow> 'w reloj \<Rightarrow> ('w, 'f) LLMClient \<Rightarrow> 'f agente \<Rightarrow> 'f pyval \<Rightarrow> bool \<Rightarrow> 'w
   \<Rightarrow> (string option, 'f agente, 'w) salida option" where
  "pensar P R C ag mensaje verbose w =
     (case clase ag of
        AgenteBase \<Rightarrow> Some (pensar_base C ag mensaje w)
      | AgenteConHerramientas \<Rightarrow> pensar_con_herramientas P R C ag mensaje verbose w)"


subsection \<open>The experts\<close>

definition ExpertoMatematicas_init :: "'f agente" where
  "ExpertoMatematicas_init = AgenteBase_init prompt_matematicas None"

definition ExpertoEscritura_init :: "'f agente" where
  "ExpertoEscritura_init = AgenteBase_init prompt_escritura None"

definition ExpertoCodigo_init :: "'f agente" where
  "ExpertoCodigo_init = AgenteBase_init prompt_codigo None"

definition ExpertoCocinero_init :: "'f agente" where
  "ExpertoCocinero_init = AgenteConHerramientas_init prompt_cocinero (Some TOOLS_COCINERO) None"

subsection \<open>AgenteOrquestador\<close>

record 'f orquestador =
  orq_model :: "string option"
  orq_system_prompt :: string
  expertos :: "string \<rightharpoonup> 'f agente"
  orq_messages :: "'f pyval list"

definition AgenteOrquestador_init :: "string option \<Rightarrow> 'f orquestador" where
  "AgenteOrquestador_init modelo =
     \<lparr>orq_model = modelo,
      orq_system_prompt = prompt_orquestador,
      expertos = [''matematicas'' \<mapsto> ExpertoMatematicas_init,
                  ''escritura'' \<mapsto> ExpertoEscritura_init,
                  ''codigo'' \<mapsto> ExpertoCodigo_init,
                  ''cocina'' \<mapsto> ExpertoCocinero_init],
      orq_messages = [mensaje_de ''system'' (PStr prompt_orquestador)]\<rparr>"

definition orq_nueva_conversacion :: "'f orquestador \<Rightarrow> 'f orquestador" where
  "orq_nueva_conversacion orq =
     orq\<lparr>orq_messages := [mensaje_de ''system'' (PStr (orq_system_prompt orq))]\<rparr>"

definition orq_agregar :: "'f pyval \<Rightarrow> 'f orquestador \<Rightarrow> 'f orquestador" where
  "orq_agregar m orq = orq\<lparr>orq_messages := orq_messages orq @ [m]\<rparr>"

text \<open>
  \<^verbatim>\<open>_consultar_experto\<close>. The membership test hashes \<open>tipo_experto\<close>; only a string
  can be a key of the expert map. The expert is an object of the map, so what its
  \<^verbatim>\<open>pensar\<close> appends stays in the map, also when it raises.
\<close>

definition consultar_experto ::
  "'f pyrt \<Rightarrow> 'w reloj \<Rightarrow> ('w, 'f) LLMClient \<Rightarrow> 'f orquestador \<Rightarrow> 'f pyval \<Rightarrow> 'f pyval \<Rightarrow> bool \<Rightarrow> 'w
   \<Rightarrow> (string option, 'f orquestador, 'w) salida option" where
  "consultar_experto P R C orq tipo_experto consulta verbose w =
     (if \<not> hashable tipo_experto then Some (Inl TypeError, orq, w)
      else
        (case (case tipo_experto of PStr s \<Rightarrow> map_option (Pair s) (expertos orq s) | _ \<Rightarrow> None) of
           None \<Rightarrow>
             Some (Inr (Some (''Error: no existe el experto '' @ [CHR 0x27]
                              @ py_str P tipo_experto @ [CHR 0x27])), orq, w)
         | Some (s, experto) \<Rightarrow>
             (case pensar P R C experto consulta verbose w of
                None \<Rightarrow> None
              | Some (respuesta, experto', w') \<Rightarrow>
                  Some (respuesta, orq\<lparr>expertos := (expertos orq)(s \<mapsto> experto')\<rparr>, w'))))"

text \<open>
  One tool call of \<^verbatim>\<open>procesar\<close>: the reserved name goes to the expert, every
  other name to the dispatcher.
\<close>

definition orq_ejecutar_tool_call ::
  "'f pyrt \<Rightarrow> 'w reloj \<Rightarrow> ('w, 'f) LLMClient \<Rightarrow> bool \<Rightarrow> 'f ToolCall \<Rightarrow> 'f orquestador \<Rightarrow> 'w
   \<Rightarrow> (string option, 'f orquestador, 'w) salida option" where
  "orq_ejecutar_tool_call P R C verbose tool_call orq w =
     (if tc_name tool_call = ''consultar_agente_experto'' then
        (case py_getitem (PDict (tc_arguments tool_call)) ''tipo_experto'' of
           Inl e \<Rightarrow> Some (Inl e, orq, w)
         | Inr tipo_experto \<Rightarrow>
             (case py_getitem (PDict (tc_arguments tool_call)) ''consulta'' of
                Inl e \<Rightarrow> Some (Inl e, orq, w)
              | Inr consulta \<Rightarrow> consultar_experto P R C orq tipo_experto consulta verbose w))
      else
        (case ejecutar_herramienta P R (tc_name tool_call) (tc_arguments tool_call) w of
           (r, w') \<Rightarrow> Some (r, orq, w')))"

text \<open>
  The \<^verbatim>\<open>for\<close> loop of \<^verbatim>\<open>procesar\<close>. Its preview
  \<^verbatim>\<open>resultado[:100] if resultado else ""\<close> is guarded and cannot fail.
\<close>

fun orq_ejecutar_tool_calls ::
  "'f pyrt \<Rightarrow> 'w reloj \<Rightarrow> ('w, 'f) LLMClient \<Rightarrow> bool \<Rightarrow> 'f ToolCall list \<Rightarrow> 'f orquestador \<Rightarrow> 'w
   \<Rightarrow> (unit, 'f orquestador, 'w) salida option" where
  "orq_ejecutar_tool_calls P R C verbose [] orq w = Some (Inr (), orq, w)"
| "orq_ejecutar_tool_calls P R C verbose (tool_call # resto) orq w =
     (case orq_ejecutar_tool_call P R C verbose tool_call orq w of
        None \<Rightarrow> None
      | Some (Inl e, orq', w') \<Rightarrow> Some (Inl e, orq', w')
      | Some (Inr resultado, orq', w') \<Rightarrow>
          orq_ejecutar_tool_calls P R C verbose resto
            (orq_agregar (create_tool_result_message C (tc_id tool_call) resultado
                            (tc_name tool_call)) orq') w')"

partial_function (option) bucle_procesar ::
  "'f pyrt \<Rightarrow> 'w reloj \<Rightarrow> ('w, 'f) LLMClient \<Rightarrow> bool \<Rightarrow> 'f orquestador \<Rightarrow> 'w
   \<Rightarrow> (string option, 'f orquestador, 'w) salida option" where
  "bucle_procesar P R C verbose orq w =
     (case chat_with_tools C (orq_messages orq) TOOLS_DEFINITION (orq_model orq) w of
        (Inl e, w') \<Rightarrow> Some (Inl e, orq, w')
      | (Inr response, w') \<Rightarrow>
          if tool_calls response \<noteq> [] then
            (case orq_ejecutar_tool_calls P R C verbose (tool_calls response)
                    (orq_agregar (create_assistant_message_with_tools C response) orq) w' of
               None \<Rightarrow> None
             | Some (Inl e, orq', w'') \<Rightarrow> Some (Inl e, orq', w'')
             | Some (Inr u, orq', w'') \<Rightarrow> bucle_procesar P R C verbose orq' w'')
          else
            Some (Inr (content response),
                  orq_agregar (mensaje_de ''assistant'' (opcional (content response))) orq, w'))"

definition procesar ::
  "'f pyrt \<Rightarrow> 'w reloj \<Rightarrow> ('w, 'f) LLMClient \<Rightarrow> 'f orquestador \<Rightarrow> string \<Rightarrow> bool \<Rightarrow> 'w
   \<Rightarrow> (string option, 'f orquestador, 'w) salida option" where
  "procesar P R C orq mensaje_usuario verbose w =
     bucle_procesar P R C verbose (orq_agregar (mensaje_de ''user'' (PStr mensaje_usuario)) orq) w"

section \<open>A provider stub that follows a script\<close>

text \<open>
  The test double of the abstract client: \<^verbatim>\<open>chat_with_tools\<close> returns the next
  response of a script and raises when the script is used up; \<^verbatim>\<open>chat\<close> answers
  with a fixed function of the history. Both count their invocations. The encoders are
  those of \<^verbatim>\<open>GeminiClient\<close>. The clock of the stub world shows a fixed text.
\<close>

record 'f mundo_guion =
  guion :: "'f LLMResponse list"
  llamadas :: nat
  llamadas_chat :: nat

definition cliente_guion :: "('f pyval list \<Rightarrow> string option) \<Rightarrow> ('f mundo_guion, 'f) LLMClient" where
  "cliente_guion responder =
     \<lparr>chat = (\<lambda>msgs modelo w.
         (Inr (responder msgs), w\<lparr>llamadas_chat := Suc (llamadas_chat w)\<rparr>)),
      chat_with_tools = (\<lambda>msgs herramientas modelo w.
         (case guion w of
            [] \<Rightarrow> (Inl (ProviderError ''guion agotado''), w\<lparr>llamadas := Suc (llamadas w)\<rparr>)
          | r # rs \<Rightarrow> (Inr r, w\<lparr>guion := rs, llamadas := Suc (llamadas w)\<rparr>))),
      create_tool_result_message = gemini_create_tool_result_message,
      create_assistant_message_with_tools = gemini_create_assistant_message_with_tools\<rparr>"

definition reloj_fijo :: "string \<Rightarrow> 'w reloj" where
  "reloj_fijo texto w = (texto, w)"


section \<open>A runtime for the examples\<close>

text \<open>
  The theorems below hold for every runtime \<open>P\<close>. Where an example has to be computed,
  this one is used: exact rational arithmetic in the place of floats, truncation towards
  zero, lower-casing of the ASCII letters.
\<close>

definition minuscula :: "char \<Rightarrow> char" where
  "minuscula c =
     (case map_of (zip ''ABCDEFGHIJKLMNOPQRSTUVWXYZ'' ''abcdefghijklmnopqrstuvwxyz'') c of
        Some d \<Rightarrow> d
      | None \<Rightarrow> c)"

definition pyrt_exacto :: "rat pyrt" where
  "pyrt_exacto =
     \<lparr>float_of_int = (\<lambda>i. Some (of_int i)),
      float_add = (+),
      float_sub = (-),
      float_mul = (*),
      float_div = (/),
      int_truediv = (\<lambda>i j. Some (of_int i / of_int j)),
      float_is_zero = (\<lambda>x. x = 0),
      float_gt_zero = (\<lambda>x. 0 < x),
      float_trunc = (\<lambda>x. Entero (if x < 0 then - \<lfloor>- x\<rfloor> else \<lfloor>x\<rfloor>)),
      float_repr = (\<lambda>x. str_int (fst (quotient_of x)) @ ''/'' @ str_int (snd (quotient_of x))),
      str_lower = map minuscula,
      str_repr = (\<lambda>s. [CHR 0x27] @ s @ [CHR 0x27])\<rparr>"

text \<open>
  What the theorems on division ask of a runtime: converting an int gives the float zero
  only for the int 0.
\<close>

definition runtime_coherente :: "'f pyrt \<Rightarrow> bool" where
  "runtime_coherente P = (\<forall>i x. float_of_int P i = Some x \<longrightarrow> float_is_zero P x = (i = 0))"

definition mundo_inicial :: "'f LLMResponse list \<Rightarrow> 'f mundo_guion" where
  "mundo_inicial rs = \<lparr>guion = rs, llamadas = 0, llamadas_chat = 0\<rparr>"


section \<open>Example inputs\<close>

definition reloj_ejemplo :: "'w reloj" where
  "reloj_ejemplo = reloj_fijo ''2026-01-01 12:00:00''"

definition cliente_ejemplo :: "(rat mundo_guion, rat) LLMClient" where
  "cliente_ejemplo = cliente_guion (\<lambda>msgs. Some ''respuesta del experto'')"

definition respuesta_final :: "string \<Rightarrow> rat LLMResponse" where
  "respuesta_final texto = \<lparr>content = Some texto, tool_calls = [], raw_message = PNone\<rparr>"

definition respuesta_llamadas :: "rat ToolCall list \<Rightarrow> rat LLMResponse" where
  "respuesta_llamadas tcs = \<lparr>content = None, tool_calls = tcs, raw_message = PNone\<rparr>"

definition mundo_vacio :: "rat mundo_guion" where
  "mundo_vacio = mundo_inicial []"

definition receta_ejemplo :: "rat pyval" where
  "receta_ejemplo =
     PList [PDict [(''nombre'', PStr ''Pollo''), (''cantidad_gramos'', PInt 200)],
            PDict [(''nombre'', PStr ''kiwi''), (''cantidad_gramos'', PInt 50)]]"

definition llamada_sin_b :: "rat ToolCall" where
  "llamada_sin_b =
     \<lparr>tc_id = ''c2'', tc_name = ''calculadora'',
      tc_arguments = [(''operacion'', PStr ''sumar''), (''a'', PInt 2)]\<rparr>"

definition llamada_suma :: "rat ToolCall" where
  "llamada_suma =
     \<lparr>tc_id = ''c3'', tc_name = ''calculadora'',
      tc_arguments = [(''operacion'', PStr ''sumar''), (''a'', PInt 2), (''b'', PInt 3)]\<rparr>"

definition llamada_cocina :: "rat ToolCall" where
  "llamada_cocina =
     \<lparr>tc_id = ''c4'', tc_name = ''consultar_agente_experto'',
      tc_arguments = [(''tipo_experto'', PStr ''cocina''), (''consulta'', PStr ''una receta'')]\<rparr>"

definition llamada_matematicas :: "rat ToolCall" where
  "llamada_matematicas =
     \<lparr>tc_id = ''c5'', tc_name = ''consultar_agente_experto'',
      tc_arguments = [(''tipo_experto'', PStr ''matematicas''), (''consulta'', PStr ''2+2'')]\<rparr>"

definition llamada_fisica :: "rat ToolCall" where
  "llamada_fisica =
     \<lparr>tc_id = ''c6'', tc_name = ''consultar_agente_experto'',
      tc_arguments = [(''tipo_experto'', PStr ''fisica''), (''consulta'', PStr ''e=mc2'')]\<rparr>"

definition llamada_volar :: "rat ToolCall" where
  "llamada_volar = \<lparr>tc_id = ''c1'', tc_name = ''volar'', tc_arguments = []\<rparr>"

definition respuesta_con_texto :: "rat LLMResponse" where
  "respuesta_con_texto = (respuesta_llamadas [llamada_suma])\<lparr>content := Some ''ignorado''\<rparr>"

definition agente_ejemplo :: "rat agente" where
  "agente_ejemplo = agregar (mensaje_de ''user'' (PStr ''suma'')) ExpertoCocinero_init"

definition llamada_sin_consulta :: "rat ToolCall" where
  "llamada_sin_consulta =
     \<lparr>tc_id = ''c7'', tc_name = ''consultar_agente_experto'',
      tc_arguments = [(''tipo_experto'', PStr ''matematicas'')]\<rparr>"

definition receta_sin_gramos :: "rat pyval" where
  "receta_sin_gramos = PList [PDict [(''nombre'', PStr ''pollo'')]]"

section \<open>What the claims speak of\<close>




text \<open>
  An agent after some operation on it: the same object with messages appended. For the
  orchestrator the same holds of its own history and of each of its experts.
\<close>

definition extiende :: "'f agente \<Rightarrow> 'f agente \<Rightarrow> bool" where
  "extiende ag ag' \<longleftrightarrow>
     prefix (messages ag) (messages ag') \<and> ag' = ag\<lparr>messages := messages ag'\<rparr>"

definition orq_extiende :: "'f orquestador \<Rightarrow> 'f orquestador \<Rightarrow> bool" where
  "orq_extiende orq orq' \<longleftrightarrow>
     prefix (orq_messages orq) (orq_messages orq')
     \<and> orq_system_prompt orq' = orq_system_prompt orq \<and> orq_model orq' = orq_model orq
     \<and> (\<forall>n. rel_option extiende (expertos orq n) (expertos orq' n))"

text \<open>
  The states an agent can be in after any sequence of \<^verbatim>\<open>pensar\<close> calls that
  came back (with a value or an exception) and \<^verbatim>\<open>nueva_conversacion\<close> calls,
  starting from \<open>ag0\<close>; likewise for the orchestrator and \<^verbatim>\<open>procesar\<close>.
\<close>

inductive alcanzable ::
  "'f pyrt \<Rightarrow> 'w reloj \<Rightarrow> ('w, 'f) LLMClient \<Rightarrow> 'f agente \<Rightarrow> 'f agente \<Rightarrow> bool"
  for P R C ag0 where
  al_inicio: "alcanzable P R C ag0 ag0"
| al_pensar:
    "alcanzable P R C ag0 ag \<Longrightarrow> pensar P R C ag mensaje verbose w = Some (r, ag', w')
     \<Longrightarrow> alcanzable P R C ag0 ag'"
| al_nueva: "alcanzable P R C ag0 ag \<Longrightarrow> alcanzable P R C ag0 (nueva_conversacion ag)"

inductive orq_alcanzable ::
  "'f pyrt \<Rightarrow> 'w reloj \<Rightarrow> ('w, 'f) LLMClient \<Rightarrow> 'f orquestador \<Rightarrow> 'f orquestador \<Rightarrow> bool"
  for P R C orq0 where
  oa_inicio: "orq_alcanzable P R C orq0 orq0"
| oa_procesar:
    "orq_alcanzable P R C orq0 orq
     \<Longrightarrow> procesar P R C orq mensaje_usuario verbose w = Some (r, orq', w')
     \<Longrightarrow> orq_alcanzable P R C orq0 orq'"
| oa_nueva:
    "orq_alcanzable P R C orq0 orq \<Longrightarrow> orq_alcanzable P R C orq0 (orq_nueva_conversacion orq)"

text \<open>The tool-result messages of some calls and their results, call by call.\<close>

definition mensajes_resultado ::
  "('w, 'f) LLMClient \<Rightarrow> 'f ToolCall list \<Rightarrow> string option list \<Rightarrow> 'f pyval list" where
  "mensajes_resultado C tcs resultados =
     map (\<lambda>(tc, resultado). create_tool_result_message C (tc_id tc) resultado (tc_name tc))
         (zip tcs resultados)"

text \<open>
  Under a clock that shows a fixed text a tool does not touch the world, so whether a
  call succeeds can be read off in the one-point world. A call is fine for the loop of
  \<^verbatim>\<open>pensar\<close> when the dispatcher returns for it (and, with \<open>verbose\<close>, returns a
  text, which the preview slices). A call is fine for the loop of \<^verbatim>\<open>procesar\<close>
  when it is a delegation with both arguments to an expert named by a string other than
  cocina, or another call for which the dispatcher returns.
\<close>

definition llamada_ok :: "'f pyrt \<Rightarrow> string \<Rightarrow> bool \<Rightarrow> 'f ToolCall \<Rightarrow> bool" where
  "llamada_ok P t verbose tc =
     (case fst (ejecutar_herramienta P (reloj_fijo t) (tc_name tc) (tc_arguments tc) ()) of
        Inl e \<Rightarrow> False
      | Inr resultado \<Rightarrow> \<not> (verbose \<and> resultado = None))"

definition orq_llamada_ok :: "'f pyrt \<Rightarrow> string \<Rightarrow> 'f ToolCall \<Rightarrow> bool" where
  "orq_llamada_ok P t tc =
     (if tc_name tc = ''consultar_agente_experto'' then
        (case (map_of (tc_arguments tc) ''tipo_experto'', map_of (tc_arguments tc) ''consulta'') of
           (Some (PStr s), Some consulta) \<Rightarrow> s \<noteq> ''cocina''
         | _ \<Rightarrow> False)
      else
        (case fst (ejecutar_herramienta P (reloj_fijo t) (tc_name tc) (tc_arguments tc) ()) of
           Inl e \<Rightarrow> False
         | Inr resultado \<Rightarrow> True))"

text \<open>
  The calls of a turn dispatched one after another from the world \<open>w\<close>: the results
  in the order of the calls and the world after the last one, when every call returns;
  nothing when one of them raises. For \<^verbatim>\<open>procesar\<close> a call is the delegation
  or the dispatcher, whichever the name asks for, and the orchestrator is carried along
  with its experts as the calls left them, its own history untouched.
\<close>

fun resultados_de ::
  "'f pyrt \<Rightarrow> 'w reloj \<Rightarrow> 'f ToolCall list \<Rightarrow> 'w \<Rightarrow> (string option list \<times> 'w) option" where
  "resultados_de P R [] w = Some ([], w)"
| "resultados_de P R (tc # resto) w =
     (case ejecutar_herramienta P R (tc_name tc) (tc_arguments tc) w of
        (Inl e, w') \<Rightarrow> None
      | (Inr resultado, w') \<Rightarrow>
          (case resultados_de P R resto w' of
             None \<Rightarrow> None
           | Some (rs, w'') \<Rightarrow> Some (resultado # rs, w'')))"

fun orq_resultados_de ::
  "'f pyrt \<Rightarrow> 'w reloj \<Rightarrow> ('w, 'f) LLMClient \<Rightarrow> bool \<Rightarrow> 'f ToolCall list \<Rightarrow> 'f orquestador \<Rightarrow> 'w
   \<Rightarrow> (string option list \<times> 'f orquestador \<times> 'w) option" where
  "orq_resultados_de P R C verbose [] orq w = Some ([], orq, w)"
| "orq_resultados_de P R C verbose (tc # resto) orq w =
     (case orq_ejecutar_tool_call P R C verbose tc orq w of
        None \<Rightarrow> None
      | Some (Inl e, orq', w') \<Rightarrow> None
      | Some (Inr resultado, orq', w') \<Rightarrow>
          (case orq_resultados_de P R C verbose resto orq' w' of
             None \<Rightarrow> None
           | Some (rs, orq'', w'') \<Rightarrow> Some (resultado # rs, orq'', w'')))"





text \<open>
  An ingredient as the catalogue describes it: a dictionary with a text under
  \<^verbatim>\<open>nombre\<close> and a number under \<^verbatim>\<open>cantidad_gramos\<close>. A runtime in which
  no conversion between ints and floats overflows.
\<close>

definition ingrediente_bien_formado :: "'f pyval \<Rightarrow> bool" where
  "ingrediente_bien_formado ing =
     (case ing of
        PDict kvs \<Rightarrow>
          (case (map_of kvs ''nombre'', map_of kvs ''cantidad_gramos'') of
             (Some (PStr s), Some gramos) \<Rightarrow> como_numero gramos \<noteq> None
           | _ \<Rightarrow> False)
      | _ \<Rightarrow> False)"

definition sin_desbordes :: "'f pyrt \<Rightarrow> bool" where
  "sin_desbordes P \<longleftrightarrow>
     (\<forall>i. float_of_int P i \<noteq> None) \<and> (\<forall>i j. j \<noteq> 0 \<longrightarrow> int_truediv P i j \<noteq> None)
     \<and> (\<forall>x. \<exists>k. float_trunc P x = Entero k)"

section \<open>Basic facts\<close>

lemma ligar_Inl [simp]: "ligar (Inl e) f = Inl e"
  by (simp add: ligar_def)

lemma ligar_Inr [simp]: "ligar (Inr a) f = f a"
  by (simp add: ligar_def)

subsection \<open>One round of each loop\<close>

lemma bucle_pensar_final:
  assumes "chat_with_tools C (messages ag) (tools ag) (model ag) w = (Inr response, w')"
    and "tool_calls response = []"
  shows "bucle_pensar P R C verbose ag w =
           Some (Inr (content response),
                 agregar (mensaje_de ''assistant'' (opcional (content response))) ag, w')"
  using assms by (subst bucle_pensar.simps) simp

lemma bucle_pensar_falla:
  assumes "chat_with_tools C (messages ag) (tools ag) (model ag) w = (Inl e, w')"
  shows "bucle_pensar P R C verbose ag w = Some (Inl e, ag, w')"
  using assms by (subst bucle_pensar.simps) simp

lemma bucle_pensar_paso:
  assumes "chat_with_tools C (messages ag) (tools ag) (model ag) w = (Inr response, w')"
    and "tool_calls response \<noteq> []"
  shows "bucle_pensar P R C verbose ag w =
           (case ejecutar_tool_calls P R C verbose (tool_calls response)
                   (agregar (create_assistant_message_with_tools C response) ag) w' of
              (Inl e, ag', w'') \<Rightarrow> Some (Inl e, ag', w'')
            | (Inr u, ag', w'') \<Rightarrow> bucle_pensar P R C verbose ag' w'')"
  using assms by (subst bucle_pensar.simps) simp

lemma bucle_procesar_final:
  assumes "chat_with_tools C (orq_messages orq) TOOLS_DEFINITION (orq_model orq) w = (Inr response, w')"
    and "tool_calls response = []"
  shows "bucle_procesar P R C verbose orq w =
           Some (Inr (content response),
                 orq_agregar (mensaje_de ''assistant'' (opcional (content response))) orq, w')"
  using assms by (subst bucle_procesar.simps) simp

lemma bucle_procesar_falla:
  assumes "chat_with_tools C (orq_messages orq) TOOLS_DEFINITION (orq_model orq) w = (Inl e, w')"
  shows "bucle_procesar P R C verbose orq w = Some (Inl e, orq, w')"
  using assms by (subst bucle_procesar.simps) simp

lemma bucle_procesar_paso:
  assumes "chat_with_tools C (orq_messages orq) TOOLS_DEFINITION (orq_model orq) w = (Inr response, w')"
    and "tool_calls response \<noteq> []"
  shows "bucle_procesar P R C verbose orq w =
           (case orq_ejecutar_tool_calls P R C verbose (tool_calls response)
                   (orq_agregar (create_assistant_message_with_tools C response) orq) w' of
              None \<Rightarrow> None
            | Some (Inl e, orq', w'') \<Rightarrow> Some (Inl e, orq', w'')
            | Some (Inr u, orq', w'') \<Rightarrow> bucle_procesar P R C verbose orq' w'')"
  using assms by (subst bucle_procesar.simps) simp

section \<open>Unknown tool names\<close>

lemma ejecutar_desconocida:
  assumes "nombre \<notin> {''calculadora'', ''obtener_hora'', ''calcular_calorias'', ''consultar_agente_experto''}"
  shows "ejecutar_herramienta P R nombre argumentos w = (Inr (Some (error_herramienta nombre)), w)"
  using assms by (simp add: ejecutar_herramienta_def)

lemma sublist_Error: "sublist ''Error'' (error_herramienta nombre)"
proof -
  have "error_herramienta nombre
          = [] @ ''Error'' @ ('': herramienta '' @ [CHR 0x27] @ nombre @ [CHR 0x27] @ '' no encontrada'')"
    by (simp add: error_herramienta_def)
  then show ?thesis unfolding sublist_def by blast
qed

lemma sublist_nombre: "sublist nombre (error_herramienta nombre)"
proof -
  have "error_herramienta nombre
          = (''Error: herramienta '' @ [CHR 0x27]) @ nombre @ ([CHR 0x27] @ '' no encontrada'')"
    by (simp add: error_herramienta_def)
  then show ?thesis unfolding sublist_def by blast
qed

text \<open>
  C5. A tool name outside the four names known to the dispatcher never raises: the
  dispatcher returns a text that contains the word Error and the name, in the same
  world. Both \<^verbatim>\<open>for\<close> loops append that text as the result of the call and go
  on with the remaining calls, and when the call is the only one of a response, both
  \<^verbatim>\<open>while\<close> loops ask the model again with the history so extended.
\<close>

theorem herramienta_desconocida_sigue:
  assumes "tc_name tc \<notin> {''calculadora'', ''obtener_hora'', ''calcular_calorias'', ''consultar_agente_experto''}"
  shows "sublist ''Error'' (error_herramienta (tc_name tc))
         \<and> sublist (tc_name tc) (error_herramienta (tc_name tc))
         \<and> ejecutar_herramienta P R (tc_name tc) (tc_arguments tc) w
             = (Inr (Some (error_herramienta (tc_name tc))), w)
         \<and> ejecutar_tool_calls P R C verbose (tc # resto) ag w =
             ejecutar_tool_calls P R C verbose resto
               (agregar (create_tool_result_message C (tc_id tc)
                           (Some (error_herramienta (tc_name tc))) (tc_name tc)) ag) w
         \<and> orq_ejecutar_tool_calls P R C verbose (tc # resto) orq w =
             orq_ejecutar_tool_calls P R C verbose resto
               (orq_agregar (create_tool_result_message C (tc_id tc)
                               (Some (error_herramienta (tc_name tc))) (tc_name tc)) orq) w
         \<and> (chat_with_tools C (messages ag) (tools ag) (model ag) w0 = (Inr response, w)
              \<and> tool_calls response = [tc] \<longrightarrow>
            bucle_pensar P R C verbose ag w0 =
              bucle_pensar P R C verbose
                (agregar (create_tool_result_message C (tc_id tc)
                            (Some (error_herramienta (tc_name tc))) (tc_name tc))
                   (agregar (create_assistant_message_with_tools C response) ag)) w)
         \<and> (chat_with_tools C (orq_messages orq) TOOLS_DEFINITION (orq_model orq) w0
                = (Inr response, w)
              \<and> tool_calls response = [tc] \<longrightarrow>
            bucle_procesar P R C verbose orq w0 =
              bucle_procesar P R C verbose
                (orq_agregar (create_tool_result_message C (tc_id tc)
                                (Some (error_herramienta (tc_name tc))) (tc_name tc))
                   (orq_agregar (create_assistant_message_with_tools C response) orq)) w)"
proof -
  let ?t = "error_herramienta (tc_name tc)"
  have e: "ejecutar_herramienta P R (tc_name tc) (tc_arguments tc) w = (Inr (Some ?t), w)"
    using assms by (rule ejecutar_desconocida)
  have n: "tc_name tc \<noteq> ''consultar_agente_experto''" using assms by simp
  have pa: "ejecutar_tool_calls P R C verbose (tc # resto) ag w =
             ejecutar_tool_calls P R C verbose resto
               (agregar (create_tool_result_message C (tc_id tc) (Some ?t) (tc_name tc)) ag) w"
    by (simp add: e)
  have po: "orq_ejecutar_tool_calls P R C verbose (tc # resto) orq w =
             orq_ejecutar_tool_calls P R C verbose resto
               (orq_agregar (create_tool_result_message C (tc_id tc) (Some ?t) (tc_name tc)) orq) w"
    by (simp add: orq_ejecutar_tool_call_def n e)
  have bp: "bucle_pensar P R C verbose ag w0 =
              bucle_pensar P R C verbose
                (agregar (create_tool_result_message C (tc_id tc) (Some ?t) (tc_name tc))
                   (agregar (create_assistant_message_with_tools C response) ag)) w"
    if "chat_with_tools C (messages ag) (tools ag) (model ag) w0 = (Inr response, w)"
      and "tool_calls response = [tc]"
    using that by (simp add: bucle_pensar_paso [OF that(1)] e)
  have bo: "bucle_procesar P R C verbose orq w0 =
              bucle_procesar P R C verbose
                (orq_agregar (create_tool_result_message C (tc_id tc) (Some ?t) (tc_name tc))
                   (orq_agregar (create_assistant_message_with_tools C response) orq)) w"
    if "chat_with_tools C (orq_messages orq) TOOLS_DEFINITION (orq_model orq) w0 = (Inr response, w)"
      and "tool_calls response = [tc]"
    using that by (simp add: bucle_procesar_paso [OF that(1)] orq_ejecutar_tool_call_def n e)
  show ?thesis
    using sublist_Error [of "tc_name tc"] sublist_nombre [of "tc_name tc"] e pa po bp bo
    by (intro conjI impI) (elim conjE | assumption)+
qed

theorem herramienta_desconocida_sigue_witness:
  "tc_name llamada_volar
     \<notin> {''calculadora'', ''obtener_hora'', ''calcular_calorias'', ''consultar_agente_experto''}
   \<and> sublist ''Error'' (error_herramienta ''volar'')
   \<and> sublist ''volar'' (error_herramienta ''volar'')
   \<and> ejecutar_herramienta pyrt_exacto reloj_ejemplo ''volar'' [] mundo_vacio
        = (Inr (Some ''Error: herramienta 'volar' no encontrada''), mundo_vacio)"
proof -
  have h: "tc_name llamada_volar
     \<notin> {''calculadora'', ''obtener_hora'', ''calcular_calorias'', ''consultar_agente_experto''}"
    by (simp add: llamada_volar_def)
  note t = herramienta_desconocida_sigue [OF h, where P = pyrt_exacto and R = reloj_ejemplo
      and w = mundo_vacio and C = cliente_ejemplo and verbose = False and resto = "[]"
      and ag = ExpertoCocinero_init and orq = "AgenteOrquestador_init None"
      and ?w0.0 = mundo_vacio and response = "respuesta_llamadas [llamada_volar]"]
  have "sublist ''Error'' (error_herramienta ''volar'')"
    using t [THEN conjunct1] by (simp add: llamada_volar_def)
  moreover have "sublist ''volar'' (error_herramienta ''volar'')"
    using t [THEN conjunct2, THEN conjunct1] by (simp add: llamada_volar_def)
  moreover have "ejecutar_herramienta pyrt_exacto reloj_ejemplo ''volar'' [] mundo_vacio
        = (Inr (Some ''Error: herramienta 'volar' no encontrada''), mundo_vacio)"
    using t [THEN conjunct2, THEN conjunct2, THEN conjunct1]
    by (simp add: llamada_volar_def error_herramienta_def)
  ultimately show ?thesis using h by (intro conjI)
qed

section \<open>Division in the tools\<close>

lemma ligar_no_division:
  assumes "x \<noteq> Inl ZeroDivisionError" and "\<And>a. x = Inr a \<Longrightarrow> f a \<noteq> Inl ZeroDivisionError"
  shows "ligar x f \<noteq> Inl ZeroDivisionError"
  using assms by (cases x) simp_all

lemma ligar_eq_Inl_iff:
  "ligar x f = Inl e \<longleftrightarrow> x = Inl e \<or> (\<exists>a. x = Inr a \<and> f a = Inl e)"
  by (cases x) simp_all

lemma a_float_no_division: "a_float P n \<noteq> Inl ZeroDivisionError"
  by (simp add: a_float_def split: numero.splits option.splits)

lemma num_binop_no_division: "num_binop P fi ff a b \<noteq> Inl ZeroDivisionError"
  unfolding num_binop_def
  by (cases a; cases b) (simp_all add: ligar_no_division a_float_no_division)

lemma py_mul_no_division: "py_mul P a b \<noteq> Inl ZeroDivisionError"
proof (cases "\<exists>x y. como_numero a = Some x \<and> como_numero b = Some y")
  case True
  then show ?thesis
    by (auto simp: py_mul_def ligar_eq_Inl_iff num_binop_no_division)
next
  case False
  then have "py_mul P a b = Inl TypeError \<or> (\<exists>v. py_mul P a b = Inr v)"
    by (auto simp: py_mul_def split: option.splits pyval.splits)
  then show ?thesis by auto
qed

lemma py_truediv_100_no_division:
  assumes "runtime_coherente P"
  shows "py_truediv P m (PInt 100) \<noteq> Inl ZeroDivisionError"
proof (cases "como_numero m")
  case None
  then show ?thesis by (simp add: py_truediv_def como_numero_def)
next
  case (Some x)
  show ?thesis
  proof (cases x)
    case (NInt i)
    with Some show ?thesis
      by (simp add: py_truediv_def como_numero_def split: option.splits)
  next
    case (NFloat u)
    have "a_float P (NInt 100) = Inr v \<Longrightarrow> \<not> float_is_zero P v" for v
      using assms by (auto simp: a_float_def runtime_coherente_def split: option.splits)
    moreover have "a_float P (NInt 100) \<noteq> Inl ZeroDivisionError" by (rule a_float_no_division)
    ultimately show ?thesis
      using Some NFloat
      by (cases "a_float P (NInt 100)") (simp_all add: py_truediv_def como_numero_def a_float_def)
  qed
qed

lemma kcal_no_division:
  assumes "runtime_coherente P"
  shows "kcal P gramos c \<noteq> Inl ZeroDivisionError"
  unfolding kcal_def
  by (intro ligar_no_division py_mul_no_division py_truediv_100_no_division assms)

lemma float_to_int_no_division: "float_to_int P x \<noteq> Inl ZeroDivisionError"
  by (simp add: float_to_int_def split: truncado.splits)

lemma num_int_no_division: "num_int P n \<noteq> Inl ZeroDivisionError"
  by (simp add: num_int_def float_to_int_no_division split: numero.splits)

lemma py_getitem_no_division: "py_getitem v k \<noteq> Inl ZeroDivisionError"
  by (simp add: py_getitem_def split: pyval.splits option.splits)

lemma py_lower_no_division: "py_lower P v \<noteq> Inl ZeroDivisionError"
  by (simp add: py_lower_def split: pyval.splits)

lemma py_iter_no_division: "py_iter v \<noteq> Inl ZeroDivisionError"
  by (simp add: py_iter_def split: pyval.splits)

lemma bucle_ingredientes_no_division:
  assumes "runtime_coherente P"
  shows "bucle_ingredientes P ings t d \<noteq> Inl ZeroDivisionError"
proof (induction ings arbitrary: t d)
  case Nil
  show ?case by simp
next
  case (Cons ing resto)
  show ?case
    by (auto simp: ligar_eq_Inl_iff py_getitem_no_division py_lower_no_division
                   kcal_no_division [OF assms] float_to_int_no_division num_add_def
                   num_binop_no_division Cons.IH
             split: option.splits)
qed

lemma calcular_calorias_sin_porciones_no_division:
  assumes "runtime_coherente P" and "py_gt_zero P num_porciones = Inr False"
  shows "calcular_calorias P ingredientes num_porciones \<noteq> Inl ZeroDivisionError"
  by (auto simp: calcular_calorias_def ligar_eq_Inl_iff py_iter_no_division
                 bucle_ingredientes_no_division [OF assms(1)] assms(2) num_int_no_division)

lemma calcular_calorias_sin_porciones:
  assumes "py_gt_zero P num_porciones = Inr False"
    and "py_iter ingredientes = Inr ings"
    and "bucle_ingredientes P ings (NInt 0) [] = Inr (total_calorias, detalles)"
    and "num_int P total_calorias = Inr t"
  shows "calcular_calorias P ingredientes num_porciones
           = Inr (texto_analisis detalles t (py_str P num_porciones) t)"
  using assms by (simp add: calcular_calorias_def)

lemma calculadora_dividir_cero:
  assumes "\<not> py_ne_zero P b"
  shows "calculadora P (PStr ''dividir'') a b
           = Inr (''El resultado de '' @ py_str P a @ '' dividir '' @ py_str P b @ '' = ''
                  @ error_division)"
  using assms by (simp add: calculadora_def hashable_def operaciones_def py_str_def)

lemma sublist_final: "sublist xs (a @ xs)"
  unfolding sublist_def by (metis append_Nil2)

section \<open>The reserved name and malformed arguments\<close>




lemma vincular_mal:
  assumes "set (map fst argumentos) \<noteq> set params"
  shows "vincular params argumentos = Inl TypeError"
  using assms by (auto simp: vincular_def)

lemma ejecutar_tool_calls_propaga:
  assumes "ejecutar_herramienta P R (tc_name tc) (tc_arguments tc) w = (Inl e, w')"
  shows "ejecutar_tool_calls P R C verbose (tc # resto) ag w = (Inl e, ag, w')"
  using assms by simp

lemma orq_ejecutar_tool_calls_propaga:
  assumes "ejecutar_herramienta P R (tc_name tc) (tc_arguments tc) w = (Inl e, w')"
    and "tc_name tc \<noteq> ''consultar_agente_experto''"
  shows "orq_ejecutar_tool_calls P R C verbose (tc # resto) orq w = Some (Inl e, orq, w')"
  using assms by (simp add: orq_ejecutar_tool_call_def)



section \<open>Operands and operation names\<close>

lemma calculadora_no_reconocida:
  assumes "operaciones P s = None"
  shows "calculadora P (PStr s) a b
           = Inr (''Error: operaci'' @ o_acento @ ''n '' @ [CHR 0x27] @ s @ [CHR 0x27]
                  @ '' no reconocida'')"
  using assms by (simp add: calculadora_def hashable_def py_str_def)

lemma calculadora_restar_no_numero:
  assumes "como_numero a = None \<or> como_numero b = None"
  shows "calculadora P (PStr ''restar'') a b = Inl TypeError"
  using assms
  by (auto simp: calculadora_def hashable_def operaciones_def py_sub_def split: option.splits)

lemma cliente_guion_siguiente:
  assumes "guion w = r # rs"
  shows "chat_with_tools (cliente_guion f) msgs ts m w
           = (Inr r, w\<lparr>guion := rs, llamadas := Suc (llamadas w)\<rparr>)"
  using assms by (simp add: cliente_guion_def)

section \<open>The calorie total\<close>








section \<open>The history only grows\<close>

lemma extiende_refl [simp]: "extiende ag ag"
  by (simp add: extiende_def)

lemma extiende_trans: "extiende a b \<Longrightarrow> extiende b c \<Longrightarrow> extiende a c"
  unfolding extiende_def
  by (metis (no_types, lifting) agente.surjective agente.update_convs(4) prefix_order.order_trans)

lemma extiende_agregar [simp]: "extiende ag (agregar m ag)"
  by (simp add: extiende_def agregar_def)

lemma extiende_agregar_trans: "extiende (agregar m a) b \<Longrightarrow> extiende a b"
  using extiende_trans extiende_agregar by blast

lemma rel_option_extiende_refl [simp]: "rel_option extiende x x"
  by (cases x) simp_all

lemma rel_option_extiende_trans:
  "rel_option extiende x y \<Longrightarrow> rel_option extiende y z \<Longrightarrow> rel_option extiende x z"
  by (cases x; cases y; cases z) (auto intro: extiende_trans)

lemma orq_extiende_refl [simp]: "orq_extiende orq orq"
  by (simp add: orq_extiende_def)

lemma orq_extiende_trans: "orq_extiende a b \<Longrightarrow> orq_extiende b c \<Longrightarrow> orq_extiende a c"
  unfolding orq_extiende_def by (auto intro: rel_option_extiende_trans)

lemma orq_extiende_agregar [simp]: "orq_extiende orq (orq_agregar m orq)"
  by (simp add: orq_extiende_def orq_agregar_def)

lemma orq_extiende_agregar_trans: "orq_extiende (orq_agregar m a) b \<Longrightarrow> orq_extiende a b"
  using orq_extiende_trans orq_extiende_agregar by blast

lemma turno_chat_extiende:
  assumes "turno_chat C ag w = (r, ag', w')"
  shows "extiende ag ag'"
  using assms by (auto simp: turno_chat_def split: prod.splits sum.splits)

lemma ejecutar_tool_calls_extiende:
  assumes "ejecutar_tool_calls P R C verbose tcs ag w = (r, ag', w')"
  shows "extiende ag ag'"
  using assms
proof (induction tcs arbitrary: ag w)
  case Nil
  then show ?case by simp
next
  case (Cons tc tcs)
  then show ?case
    by (auto split: prod.splits sum.splits if_splits dest!: Cons.IH extiende_agregar_trans)
qed

lemma bucle_pensar_extiende:
  assumes "bucle_pensar P R C verbose ag w = Some (r, ag', w')"
  shows "extiende ag ag'"
proof -
  have "(\<lambda>x y. extiende (snd (fst x)) (fst (snd y)))
          (((((P, R), C), verbose), ag), w) (r, ag', w')"
    by (rule bucle_pensar.raw_induct
          [where Pa = "\<lambda>x y. extiende (snd (fst x)) (fst (snd y))", OF _ assms])
       (auto split: prod.splits sum.splits if_splits
             dest!: ejecutar_tool_calls_extiende extiende_agregar_trans
             intro: extiende_trans)
  then show ?thesis by simp
qed

lemma pensar_extiende:
  assumes "pensar P R C ag mensaje verbose w = Some (r, ag', w')"
  shows "extiende ag ag'"
  using assms
  by (auto simp: pensar_def pensar_base_def pensar_con_herramientas_def Let_def
           split: clase_agente.splits if_splits
           dest!: turno_chat_extiende bucle_pensar_extiende extiende_agregar_trans)

lemma consultar_experto_extiende:
  assumes "consultar_experto P R C orq tipo_experto consulta verbose w = Some (r, orq', w')"
  shows "orq_extiende orq orq'"
  using assms
  by (auto simp: consultar_experto_def orq_extiende_def
           split: if_splits option.splits pyval.splits prod.splits
           dest: pensar_extiende)

lemma orq_ejecutar_tool_call_extiende:
  assumes "orq_ejecutar_tool_call P R C verbose tc orq w = Some (r, orq', w')"
  shows "orq_extiende orq orq'"
  using assms
  by (auto simp: orq_ejecutar_tool_call_def
           split: if_splits sum.splits prod.splits dest: consultar_experto_extiende)

lemma orq_ejecutar_tool_calls_extiende:
  assumes "orq_ejecutar_tool_calls P R C verbose tcs orq w = Some (r, orq', w')"
  shows "orq_extiende orq orq'"
  using assms
proof (induction tcs arbitrary: orq w)
  case Nil
  then show ?case by simp
next
  case (Cons tc tcs)
  then show ?case
    by (auto split: option.splits prod.splits sum.splits
             dest!: Cons.IH orq_ejecutar_tool_call_extiende orq_extiende_agregar_trans
             intro: orq_extiende_trans)
qed

lemma bucle_procesar_extiende:
  assumes "bucle_procesar P R C verbose orq w = Some (r, orq', w')"
  shows "orq_extiende orq orq'"
proof -
  have "(\<lambda>x y. orq_extiende (snd (fst x)) (fst (snd y)))
          (((((P, R), C), verbose), orq), w) (r, orq', w')"
    by (rule bucle_procesar.raw_induct
          [where Pa = "\<lambda>x y. orq_extiende (snd (fst x)) (fst (snd y))", OF _ assms])
       (auto split: option.splits prod.splits sum.splits if_splits
             dest!: orq_ejecutar_tool_calls_extiende orq_extiende_agregar_trans
             intro: orq_extiende_trans)
  then show ?thesis by simp
qed

lemma procesar_extiende:
  assumes "procesar P R C orq mensaje_usuario verbose w = Some (r, orq', w')"
  shows "orq_extiende orq orq'"
  using assms
  by (auto simp: procesar_def dest!: bucle_procesar_extiende orq_extiende_agregar_trans)

section \<open>The first message\<close>

lemma alcanzable_historial:
  assumes "alcanzable P R C ag0 ag"
    and "messages ag0 = [mensaje_de ''system'' (PStr (system_prompt ag0))]"
  shows "ag = ag0\<lparr>messages := messages ag\<rparr>
         \<and> (\<exists>resto. messages ag = mensaje_de ''system'' (PStr (system_prompt ag0)) # resto)"
  using assms
proof (induction rule: alcanzable.induct)
  case al_inicio
  then show ?case by simp
next
  case (al_pensar ag mensaje verbose w r ag' w')
  from pensar_extiende [OF al_pensar.hyps(2)]
  have p: "prefix (messages ag) (messages ag')" and e: "ag' = ag\<lparr>messages := messages ag'\<rparr>"
    by (simp_all add: extiende_def)
  from al_pensar.IH [OF al_pensar.prems] obtain resto where
    a: "ag = ag0\<lparr>messages := messages ag\<rparr>"
    and m: "messages ag = mensaje_de ''system'' (PStr (system_prompt ag0)) # resto"
    by blast
  from p m obtain resto' where "messages ag' = mensaje_de ''system'' (PStr (system_prompt ag0)) # resto'"
    by (auto simp: prefix_def)
  moreover have "ag' = ag0\<lparr>messages := messages ag'\<rparr>"
    by (subst e, subst a) simp
  ultimately show ?case by blast
next
  case (al_nueva ag)
  from al_nueva.IH [OF al_nueva.prems] have a: "ag = ag0\<lparr>messages := messages ag\<rparr>" by blast
  then have s: "system_prompt ag = system_prompt ag0"
    by (metis agente.select_convs(2) agente.surjective agente.update_convs(4))
  have "nueva_conversacion ag = ag0\<lparr>messages := messages (nueva_conversacion ag)\<rparr>"
    unfolding nueva_conversacion_def by (subst a) simp
  then show ?case by (simp add: nueva_conversacion_def s)
qed

lemma orq_alcanzable_expertos:
  assumes "orq_alcanzable P R C orq0 orq"
  shows "rel_option extiende (expertos orq0 n) (expertos orq n)"
  using assms
proof (induction rule: orq_alcanzable.induct)
  case oa_inicio
  show ?case by simp
next
  case (oa_procesar orq mensaje_usuario verbose w r orq' w')
  from procesar_extiende [OF oa_procesar.hyps(2)]
  have "rel_option extiende (expertos orq n) (expertos orq' n)"
    by (simp add: orq_extiende_def)
  with oa_procesar.IH show ?case by (rule rel_option_extiende_trans)
next
  case (oa_nueva orq)
  then show ?case by (simp add: orq_nueva_conversacion_def)
qed

lemma orq_alcanzable_historial:
  assumes "orq_alcanzable P R C orq0 orq"
    and "orq_messages orq0 = [mensaje_de ''system'' (PStr (orq_system_prompt orq0))]"
  shows "orq_system_prompt orq = orq_system_prompt orq0
         \<and> (\<exists>resto. orq_messages orq = mensaje_de ''system'' (PStr (orq_system_prompt orq0)) # resto)"
  using assms
proof (induction rule: orq_alcanzable.induct)
  case oa_inicio
  then show ?case by simp
next
  case (oa_procesar orq mensaje_usuario verbose w r orq' w')
  from procesar_extiende [OF oa_procesar.hyps(2)] oa_procesar.IH [OF oa_procesar.prems]
  show ?case by (auto simp: orq_extiende_def prefix_def)
next
  case (oa_nueva orq)
  from oa_nueva.IH [OF oa_nueva.prems] show ?case by (simp add: orq_nueva_conversacion_def)
qed

text \<open>
  C3. Whatever calls of \<^verbatim>\<open>pensar\<close> and \<^verbatim>\<open>nueva_conversacion\<close>
  an agent of either class has gone through since its construction, its history starts
  with the system message of the prompt it was built with, and
  \<^verbatim>\<open>nueva_conversacion\<close> gives back the agent as it was built, with that one
  message; doing it twice changes nothing more. The same holds for the history of the
  orchestrator under \<^verbatim>\<open>procesar\<close> and its own \<^verbatim>\<open>nueva_conversacion\<close>.
\<close>

theorem historial_empieza_por_sistema:
  "((ag0 = AgenteBase_init prompt modelo
       \<or> ag0 = AgenteConHerramientas_init prompt herramientas modelo)
      \<and> alcanzable P R C ag0 ag \<longrightarrow>
        (\<exists>resto. messages ag = mensaje_de ''system'' (PStr prompt) # resto)
      \<and> nueva_conversacion ag = ag0
      \<and> messages (nueva_conversacion ag) = [mensaje_de ''system'' (PStr prompt)]
      \<and> nueva_conversacion (nueva_conversacion ag) = nueva_conversacion ag)
   \<and> (orq_alcanzable P R C (AgenteOrquestador_init modelo) orq \<longrightarrow>
        (\<exists>resto. orq_messages orq = mensaje_de ''system'' (PStr prompt_orquestador) # resto)
      \<and> orq_messages (orq_nueva_conversacion orq)
          = [mensaje_de ''system'' (PStr prompt_orquestador)]
      \<and> orq_nueva_conversacion (orq_nueva_conversacion orq) = orq_nueva_conversacion orq)"
proof (intro conjI impI)
  assume h: "(ag0 = AgenteBase_init prompt modelo
               \<or> ag0 = AgenteConHerramientas_init prompt herramientas modelo)
             \<and> alcanzable P R C ag0 ag"
  then have s: "system_prompt ag0 = prompt"
    and m: "messages ag0 = [mensaje_de ''system'' (PStr (system_prompt ag0))]"
    by (auto simp: AgenteBase_init_def AgenteConHerramientas_init_def)
  from alcanzable_historial [OF conjunct2 [OF h] m] obtain resto where
    a: "ag = ag0\<lparr>messages := messages ag\<rparr>"
    and r: "messages ag = mensaje_de ''system'' (PStr prompt) # resto"
    by (auto simp: s)
  have sp: "system_prompt ag = prompt"
    by (subst a) (simp add: s)
  have n: "nueva_conversacion ag = ag0"
    unfolding nueva_conversacion_def sp by (subst a) (simp add: m s)
  show "\<exists>resto. messages ag = mensaje_de ''system'' (PStr prompt) # resto"
    using r by blast
  show "nueva_conversacion ag = ag0" by (rule n)
  show "messages (nueva_conversacion ag) = [mensaje_de ''system'' (PStr prompt)]"
    by (simp add: nueva_conversacion_def sp)
  show "nueva_conversacion (nueva_conversacion ag) = nueva_conversacion ag"
    by (simp add: nueva_conversacion_def)
next
  assume h: "orq_alcanzable P R C (AgenteOrquestador_init modelo) orq"
  have m: "orq_messages (AgenteOrquestador_init modelo)
             = [mensaje_de ''system'' (PStr (orq_system_prompt (AgenteOrquestador_init modelo)))]"
    by (simp add: AgenteOrquestador_init_def)
  have s: "orq_system_prompt (AgenteOrquestador_init modelo :: 'a orquestador) = prompt_orquestador"
    by (simp add: AgenteOrquestador_init_def)
  from orq_alcanzable_historial [OF h m] obtain resto where
    p: "orq_system_prompt orq = prompt_orquestador"
    and r: "orq_messages orq = mensaje_de ''system'' (PStr prompt_orquestador) # resto"
    by (auto simp: s)
  show "\<exists>resto. orq_messages orq = mensaje_de ''system'' (PStr prompt_orquestador) # resto"
    using r by blast
  show "orq_messages (orq_nueva_conversacion orq)
          = [mensaje_de ''system'' (PStr prompt_orquestador)]"
    by (simp add: orq_nueva_conversacion_def p)
  show "orq_nueva_conversacion (orq_nueva_conversacion orq) = orq_nueva_conversacion orq"
    by (simp add: orq_nueva_conversacion_def)
qed

lemma pensar_ejemplo:
  "pensar pyrt_exacto reloj_ejemplo cliente_ejemplo ExpertoMatematicas_init (PStr ''hola'') False
     mundo_vacio
   = Some (Inr (Some ''respuesta del experto''),
           agregar (mensaje_de ''assistant'' (PStr ''respuesta del experto''))
             (agregar (mensaje_de ''user'' (PStr ''hola'')) ExpertoMatematicas_init),
           mundo_vacio\<lparr>llamadas_chat := 1\<rparr>)"
  by (simp add: pensar_def ExpertoMatematicas_init_def AgenteBase_init_def pensar_base_def
                turno_chat_def agregar_def cliente_ejemplo_def cliente_guion_def opcional_def
                mundo_vacio_def mundo_inicial_def)

lemma procesar_ejemplo:
  "procesar pyrt_exacto reloj_ejemplo cliente_ejemplo (AgenteOrquestador_init None) ''hola'' False
     (mundo_inicial [respuesta_final ''listo''])
   = Some (Inr (Some ''listo''),
           orq_agregar (mensaje_de ''assistant'' (PStr ''listo''))
             (orq_agregar (mensaje_de ''user'' (PStr ''hola'')) (AgenteOrquestador_init None)),
           \<lparr>guion = [], llamadas = 1, llamadas_chat = 0\<rparr>)"
proof -
  let ?o = "orq_agregar (mensaje_de ''user'' (PStr ''hola'')) (AgenteOrquestador_init None)"
  have c: "chat_with_tools cliente_ejemplo (orq_messages ?o) TOOLS_DEFINITION (orq_model ?o)
             (mundo_inicial [respuesta_final ''listo''])
           = (Inr (respuesta_final ''listo''), \<lparr>guion = [], llamadas = 1, llamadas_chat = 0\<rparr>)"
    by (simp add: cliente_ejemplo_def cliente_guion_def mundo_inicial_def)
  have t: "tool_calls (respuesta_final ''listo'') = []"
    by (simp add: respuesta_final_def)
  show ?thesis
    unfolding procesar_def bucle_procesar_final [OF c t]
    by (simp add: respuesta_final_def opcional_def)
qed

theorem historial_empieza_por_sistema_witness:
  "(ExpertoMatematicas_init :: rat agente) = AgenteBase_init prompt_matematicas None
   \<and> alcanzable pyrt_exacto reloj_ejemplo cliente_ejemplo ExpertoMatematicas_init
        (agregar (mensaje_de ''assistant'' (PStr ''respuesta del experto''))
           (agregar (mensaje_de ''user'' (PStr ''hola'')) ExpertoMatematicas_init))
   \<and> nueva_conversacion
        (agregar (mensaje_de ''assistant'' (PStr ''respuesta del experto''))
           (agregar (mensaje_de ''user'' (PStr ''hola'')) (ExpertoMatematicas_init :: rat agente)))
       = ExpertoMatematicas_init
   \<and> orq_alcanzable pyrt_exacto reloj_ejemplo cliente_ejemplo (AgenteOrquestador_init None)
        (orq_agregar (mensaje_de ''assistant'' (PStr ''listo''))
           (orq_agregar (mensaje_de ''user'' (PStr ''hola'')) (AgenteOrquestador_init None)))
   \<and> orq_messages (orq_nueva_conversacion
        (orq_agregar (mensaje_de ''assistant'' (PStr ''listo''))
           (orq_agregar (mensaje_de ''user'' (PStr ''hola''))
              (AgenteOrquestador_init None :: rat orquestador))))
       = [mensaje_de ''system'' (PStr prompt_orquestador)]"
proof -
  let ?ag = "agregar (mensaje_de ''assistant'' (PStr ''respuesta del experto''))
           (agregar (mensaje_de ''user'' (PStr ''hola'')) (ExpertoMatematicas_init :: rat agente))"
  let ?orq = "orq_agregar (mensaje_de ''assistant'' (PStr ''listo''))
           (orq_agregar (mensaje_de ''user'' (PStr ''hola''))
              (AgenteOrquestador_init None :: rat orquestador))"
  have i: "(ExpertoMatematicas_init :: rat agente) = AgenteBase_init prompt_matematicas None"
    by (simp add: ExpertoMatematicas_init_def)
  have a: "alcanzable pyrt_exacto reloj_ejemplo cliente_ejemplo ExpertoMatematicas_init ?ag"
    by (rule al_pensar [OF al_inicio pensar_ejemplo])
  have o: "orq_alcanzable pyrt_exacto reloj_ejemplo cliente_ejemplo (AgenteOrquestador_init None) ?orq"
    by (rule oa_procesar [OF oa_inicio procesar_ejemplo])
  note t = historial_empieza_por_sistema [where P = pyrt_exacto and R = reloj_ejemplo
      and C = cliente_ejemplo and ?ag0.0 = ExpertoMatematicas_init and prompt = prompt_matematicas
      and modelo = None and herramientas = None and ag = ?ag and orq = ?orq]
  have "nueva_conversacion ?ag = ExpertoMatematicas_init"
    using t [THEN conjunct1, rule_format, OF conjI [OF disjI1 [OF i] a], THEN conjunct2, THEN conjunct1] .
  moreover have "orq_messages (orq_nueva_conversacion ?orq)
       = [mensaje_de ''system'' (PStr prompt_orquestador)]"
    using t [THEN conjunct2, rule_format, OF o, THEN conjunct2, THEN conjunct1] .
  ultimately show ?thesis using i a o by (intro conjI)
qed

section \<open>Tool-result messages and example calls\<close>

lemma mensajes_resultado_Nil [simp]: "mensajes_resultado C tcs [] = []"
  by (simp add: mensajes_resultado_def)

lemma mensajes_resultado_Cons [simp]:
  "mensajes_resultado C (tc # tcs) (r # rs)
     = create_tool_result_message C (tc_id tc) r (tc_name tc) # mensajes_resultado C tcs rs"
  by (simp add: mensajes_resultado_def)

lemma messages_agregar [simp]: "messages (agregar m ag) = messages ag @ [m]"
  by (simp add: agregar_def)

lemma orq_messages_agregar [simp]: "orq_messages (orq_agregar m orq) = orq_messages orq @ [m]"
  by (simp add: orq_agregar_def)

lemma ejecutar_suma_ejemplo:
  "ejecutar_herramienta pyrt_exacto reloj_ejemplo ''calculadora''
     (tc_arguments llamada_suma) w = (Inr (Some ''El resultado de 2 sumar 3 = 5''), w)"
proof -
  have "calculadora pyrt_exacto (PStr ''sumar'') (PInt 2) (PInt 3)
          = Inr ''El resultado de 2 sumar 3 = 5''"
    by code_simp
  then show ?thesis
    by (simp add: llamada_suma_def ejecutar_herramienta_def vincular_def)
qed

lemma ejecutar_volar_ejemplo:
  "ejecutar_herramienta pyrt_exacto reloj_ejemplo ''volar''
     (tc_arguments llamada_volar) w = (Inr (Some (error_herramienta ''volar'')), w)"
  by (simp add: llamada_volar_def ejecutar_herramienta_def)

section \<open>Final and acting responses\<close>

lemma gemini_assistant_ignora_content:
  "gemini_create_assistant_message_with_tools (response\<lparr>content := c\<rparr>)
     = gemini_create_assistant_message_with_tools response"
  by (simp add: gemini_create_assistant_message_with_tools_def)

lemma bucle_pensar_prefijo:
  assumes "chat_with_tools C (messages ag) (tools ag) (model ag) w = (Inr response, w')"
    and "tool_calls response \<noteq> []"
    and "bucle_pensar P R C verbose ag w = Some (r, ag', w'')"
  shows "prefix (messages ag @ [create_assistant_message_with_tools C response]) (messages ag')"
proof -
  let ?a1 = "agregar (create_assistant_message_with_tools C response) ag"
  obtain x a2 w2 where
    e: "ejecutar_tool_calls P R C verbose (tool_calls response) ?a1 w' = (x, a2, w2)"
    by (cases "ejecutar_tool_calls P R C verbose (tool_calls response) ?a1 w'") auto
  have 1: "extiende ?a1 a2" using e by (rule ejecutar_tool_calls_extiende)
  have "extiende a2 ag'"
  proof (cases x)
    case (Inl err)
    with assms e show ?thesis by (simp add: bucle_pensar_paso [OF assms(1,2)])
  next
    case (Inr u)
    with assms e have "bucle_pensar P R C verbose a2 w2 = Some (r, ag', w'')"
      by (simp add: bucle_pensar_paso [OF assms(1,2)])
    then show ?thesis by (rule bucle_pensar_extiende)
  qed
  with 1 have "extiende ?a1 ag'" by (rule extiende_trans)
  then show ?thesis by (simp add: extiende_def)
qed

lemma bucle_procesar_prefijo:
  assumes "chat_with_tools C (orq_messages orq) TOOLS_DEFINITION (orq_model orq) w = (Inr response, w')"
    and "tool_calls response \<noteq> []"
    and "bucle_procesar P R C verbose orq w = Some (r, orq', w'')"
  shows "prefix (orq_messages orq @ [create_assistant_message_with_tools C response])
           (orq_messages orq')"
proof -
  let ?o1 = "orq_agregar (create_assistant_message_with_tools C response) orq"
  from assms obtain x o2 w2 where
    e: "orq_ejecutar_tool_calls P R C verbose (tool_calls response) ?o1 w' = Some (x, o2, w2)"
    by (auto simp: bucle_procesar_paso [OF assms(1,2)] split: option.splits)
  have 1: "orq_extiende ?o1 o2" using e by (rule orq_ejecutar_tool_calls_extiende)
  have "orq_extiende o2 orq'"
  proof (cases x)
    case (Inl err)
    with assms e show ?thesis by (simp add: bucle_procesar_paso [OF assms(1,2)])
  next
    case (Inr u)
    with assms e have "bucle_procesar P R C verbose o2 w2 = Some (r, orq', w'')"
      by (simp add: bucle_procesar_paso [OF assms(1,2)])
    then show ?thesis by (rule bucle_procesar_extiende)
  qed
  with 1 have "orq_extiende ?o1 orq'" by (rule orq_extiende_trans)
  then show ?thesis by (simp add: orq_extiende_def)
qed

section \<open>Delegation\<close>

lemma expertos_init:
  "expertos (AgenteOrquestador_init modelo) n =
     (if n = ''cocina'' then Some ExpertoCocinero_init
      else if n = ''codigo'' then Some ExpertoCodigo_init
      else if n = ''escritura'' then Some ExpertoEscritura_init
      else if n = ''matematicas'' then Some ExpertoMatematicas_init
      else None)"
  by (simp add: AgenteOrquestador_init_def)

lemma extiende_clase: "extiende a b \<Longrightarrow> clase b = clase a \<and> tools b = tools a"
  unfolding extiende_def
  by (metis agente.select_convs(1,5) agente.surjective agente.update_convs(4))

lemma alcanzable_matematicas:
  assumes "orq_alcanzable P R C (AgenteOrquestador_init modelo) orq"
  shows "\<exists>experto. expertos orq ''matematicas'' = Some experto \<and> clase experto = AgenteBase"
proof -
  from orq_alcanzable_expertos [OF assms, of "''matematicas''"]
  obtain experto where "expertos orq ''matematicas'' = Some experto"
    and "extiende ExpertoMatematicas_init experto"
    by (cases "expertos orq ''matematicas''") (auto simp: expertos_init)
  then show ?thesis
    using extiende_clase [of ExpertoMatematicas_init experto]
    by (simp add: ExpertoMatematicas_init_def AgenteBase_init_def)
qed

lemma alcanzable_desconocido:
  assumes "orq_alcanzable P R C (AgenteOrquestador_init modelo) orq"
    and "s \<notin> {''matematicas'', ''escritura'', ''codigo'', ''cocina''}"
  shows "expertos orq s = None"
  using orq_alcanzable_expertos [OF assms(1), of s] assms(2)
  by (cases "expertos orq s") (auto simp: expertos_init)

lemma consultar_experto_existe:
  assumes "expertos orq s = Some experto"
    and "pensar P R C experto consulta verbose w = Some (r, experto', w')"
  shows "consultar_experto P R C orq (PStr s) consulta verbose w
           = Some (r, orq\<lparr>expertos := (expertos orq)(s \<mapsto> experto')\<rparr>, w')"
  using assms by (simp add: consultar_experto_def hashable_def)

lemma consultar_experto_no_existe:
  assumes "expertos orq s = None"
  shows "consultar_experto P R C orq (PStr s) consulta verbose w
           = Some (Inr (Some (''Error: no existe el experto '' @ [CHR 0x27] @ s @ [CHR 0x27])),
                   orq, w)"
  using assms by (simp add: consultar_experto_def hashable_def py_str_def)

lemma orq_ejecutar_tool_call_delegar:
  assumes "tc_name tc = ''consultar_agente_experto''"
    and "map_of (tc_arguments tc) ''tipo_experto'' = Some tipo_experto"
    and "map_of (tc_arguments tc) ''consulta'' = Some consulta"
  shows "orq_ejecutar_tool_call P R C verbose tc orq w
           = consultar_experto P R C orq tipo_experto consulta verbose w"
  using assms by (simp add: orq_ejecutar_tool_call_def py_getitem_def)

text \<open>
  C6. In an orchestrator as constructed, after any calls of \<^verbatim>\<open>procesar\<close>, the
  name matematicas is bound to an expert of class \<^verbatim>\<open>AgenteBase\<close>. A delegation
  to it runs the text-only \<^verbatim>\<open>pensar\<close> of that expert on the query; what the
  expert returns is the result of the tool call and the content of the tool-result
  message appended to the history of the orchestrator; the expert map changes at
  matematicas only, and the history of the orchestrator is untouched by the delegation
  itself. A name outside the four of the map gives an error text and changes nothing.
\<close>

theorem delegacion_a_matematicas:
  assumes "orq_alcanzable P R C (AgenteOrquestador_init modelo) orq"
    and "tc_name tc = ''consultar_agente_experto''"
    and "map_of (tc_arguments tc) ''consulta'' = Some consulta"
  shows "\<exists>experto.
           expertos orq ''matematicas'' = Some experto \<and> clase experto = AgenteBase
         \<and> pensar P R C experto consulta verbose w = Some (pensar_base C experto consulta w)
         \<and> (\<forall>respuesta experto' w'.
               map_of (tc_arguments tc) ''tipo_experto'' = Some (PStr ''matematicas'')
               \<and> pensar P R C experto consulta verbose w = Some (Inr respuesta, experto', w') \<longrightarrow>
               (\<exists>orq1.
                   orq_ejecutar_tool_call P R C verbose tc orq w = Some (Inr respuesta, orq1, w')
                 \<and> expertos orq1 ''matematicas'' = Some experto'
                 \<and> (\<forall>n. n \<noteq> ''matematicas'' \<longrightarrow> expertos orq1 n = expertos orq n)
                 \<and> orq_messages orq1 = orq_messages orq
                 \<and> orq_ejecutar_tool_calls P R C verbose (tc # resto) orq w
                     = orq_ejecutar_tool_calls P R C verbose resto
                         (orq_agregar (create_tool_result_message C (tc_id tc) respuesta
                                         ''consultar_agente_experto'') orq1) w'))
         \<and> (\<forall>s. s \<notin> {''matematicas'', ''escritura'', ''codigo'', ''cocina''}
                 \<and> map_of (tc_arguments tc) ''tipo_experto'' = Some (PStr s) \<longrightarrow>
               orq_ejecutar_tool_call P R C verbose tc orq w
                 = Some (Inr (Some (''Error: no existe el experto '' @ [CHR 0x27] @ s
                                    @ [CHR 0x27])), orq, w))"
proof -
  from alcanzable_matematicas [OF assms(1)] obtain experto where
    e: "expertos orq ''matematicas'' = Some experto" and c: "clase experto = AgenteBase"
    by blast
  have p: "pensar P R C experto consulta verbose w = Some (pensar_base C experto consulta w)"
    by (simp add: pensar_def c)
  have d: "\<exists>orq1.
             orq_ejecutar_tool_call P R C verbose tc orq w = Some (Inr respuesta, orq1, w')
           \<and> expertos orq1 ''matematicas'' = Some experto'
           \<and> (\<forall>n. n \<noteq> ''matematicas'' \<longrightarrow> expertos orq1 n = expertos orq n)
           \<and> orq_messages orq1 = orq_messages orq
           \<and> orq_ejecutar_tool_calls P R C verbose (tc # resto) orq w
               = orq_ejecutar_tool_calls P R C verbose resto
                   (orq_agregar (create_tool_result_message C (tc_id tc) respuesta
                                   ''consultar_agente_experto'') orq1) w'"
    if t: "map_of (tc_arguments tc) ''tipo_experto'' = Some (PStr ''matematicas'')"
      and r: "pensar P R C experto consulta verbose w = Some (Inr respuesta, experto', w')"
    for respuesta experto' w'
  proof -
    let ?o1 = "orq\<lparr>expertos := (expertos orq)(''matematicas'' \<mapsto> experto')\<rparr>"
    have 1: "orq_ejecutar_tool_call P R C verbose tc orq w = Some (Inr respuesta, ?o1, w')"
      by (simp add: orq_ejecutar_tool_call_delegar [OF assms(2) t assms(3)]
                    consultar_experto_existe [OF e r])
    have "orq_ejecutar_tool_calls P R C verbose (tc # resto) orq w
               = orq_ejecutar_tool_calls P R C verbose resto
                   (orq_agregar (create_tool_result_message C (tc_id tc) respuesta
                                   (tc_name tc)) ?o1) w'"
      by (simp add: 1)
    then have 2: "orq_ejecutar_tool_calls P R C verbose (tc # resto) orq w
               = orq_ejecutar_tool_calls P R C verbose resto
                   (orq_agregar (create_tool_result_message C (tc_id tc) respuesta
                                   ''consultar_agente_experto'') ?o1) w'"
      unfolding assms(2) .
    show ?thesis
      by (rule exI [of _ ?o1]) (simp add: 1 2 del: orq_ejecutar_tool_calls.simps)
  qed
  have u: "orq_ejecutar_tool_call P R C verbose tc orq w
             = Some (Inr (Some (''Error: no existe el experto '' @ [CHR 0x27] @ s @ [CHR 0x27])),
                     orq, w)"
    if "s \<notin> {''matematicas'', ''escritura'', ''codigo'', ''cocina''}"
      and "map_of (tc_arguments tc) ''tipo_experto'' = Some (PStr s)" for s
    by (simp add: orq_ejecutar_tool_call_delegar [OF assms(2) that(2) assms(3)]
                  consultar_experto_no_existe [OF alcanzable_desconocido [OF assms(1) that(1)]])
  show ?thesis
    using e c p d u by blast
qed


lemma pensar_matematicas_ejemplo:
  "pensar pyrt_exacto reloj_ejemplo cliente_ejemplo ExpertoMatematicas_init consulta False
     mundo_vacio
   = Some (Inr (Some ''respuesta del experto''),
           agregar (mensaje_de ''assistant'' (PStr ''respuesta del experto''))
             (agregar (mensaje_de ''user'' consulta) ExpertoMatematicas_init),
           mundo_vacio\<lparr>llamadas_chat := 1\<rparr>)"
  by (simp add: pensar_def ExpertoMatematicas_init_def AgenteBase_init_def pensar_base_def
                turno_chat_def agregar_def cliente_ejemplo_def cliente_guion_def opcional_def
                mundo_vacio_def mundo_inicial_def)

theorem delegacion_a_matematicas_witness:
  "orq_alcanzable pyrt_exacto reloj_ejemplo cliente_ejemplo (AgenteOrquestador_init None)
     (AgenteOrquestador_init None)
   \<and> tc_name llamada_matematicas = ''consultar_agente_experto''
   \<and> map_of (tc_arguments llamada_matematicas) ''consulta'' = Some (PStr ''2+2'')
   \<and> map_of (tc_arguments llamada_matematicas) ''tipo_experto'' = Some (PStr ''matematicas'')
   \<and> (\<exists>orq1.
         orq_ejecutar_tool_call pyrt_exacto reloj_ejemplo cliente_ejemplo False llamada_matematicas
           (AgenteOrquestador_init None) mundo_vacio
           = Some (Inr (Some ''respuesta del experto''), orq1, mundo_vacio\<lparr>llamadas_chat := 1\<rparr>)
       \<and> expertos orq1 ''escritura'' = Some ExpertoEscritura_init
       \<and> expertos orq1 ''codigo'' = Some ExpertoCodigo_init
       \<and> expertos orq1 ''cocina'' = Some ExpertoCocinero_init
       \<and> orq_messages orq1 = orq_messages (AgenteOrquestador_init None))
   \<and> ''fisica'' \<notin> {''matematicas'', ''escritura'', ''codigo'', ''cocina''}
   \<and> orq_ejecutar_tool_call pyrt_exacto reloj_ejemplo cliente_ejemplo False llamada_fisica
        (AgenteOrquestador_init None) mundo_vacio
       = Some (Inr (Some (''Error: no existe el experto '' @ [CHR 0x27] @ ''fisica'' @ [CHR 0x27])),
               AgenteOrquestador_init None, mundo_vacio)"
proof -
  let ?o = "AgenteOrquestador_init None :: rat orquestador"
  have a: "orq_alcanzable pyrt_exacto reloj_ejemplo cliente_ejemplo ?o ?o"
    by (rule oa_inicio)
  have n: "tc_name llamada_matematicas = ''consultar_agente_experto''"
    and q: "map_of (tc_arguments llamada_matematicas) ''consulta'' = Some (PStr ''2+2'')"
    and t: "map_of (tc_arguments llamada_matematicas) ''tipo_experto'' = Some (PStr ''matematicas'')"
    by (simp_all add: llamada_matematicas_def)
  have nf: "tc_name llamada_fisica = ''consultar_agente_experto''"
    and qf: "map_of (tc_arguments llamada_fisica) ''consulta'' = Some (PStr ''e=mc2'')"
    and tf: "map_of (tc_arguments llamada_fisica) ''tipo_experto'' = Some (PStr ''fisica'')"
    by (simp_all add: llamada_fisica_def)
  have f: "''fisica'' \<notin> {''matematicas'', ''escritura'', ''codigo'', ''cocina''}" by simp
  from delegacion_a_matematicas [OF a n q, where verbose = False and w = mundo_vacio]
  obtain experto where
    e: "expertos ?o ''matematicas'' = Some experto"
    and d: "\<And>respuesta experto' w'.
              map_of (tc_arguments llamada_matematicas) ''tipo_experto'' = Some (PStr ''matematicas'')
              \<and> pensar pyrt_exacto reloj_ejemplo cliente_ejemplo experto (PStr ''2+2'') False mundo_vacio
                  = Some (Inr respuesta, experto', w') \<Longrightarrow>
              \<exists>orq1.
                 orq_ejecutar_tool_call pyrt_exacto reloj_ejemplo cliente_ejemplo False
                   llamada_matematicas ?o mundo_vacio = Some (Inr respuesta, orq1, w')
               \<and> expertos orq1 ''matematicas'' = Some experto'
               \<and> (\<forall>n. n \<noteq> ''matematicas'' \<longrightarrow> expertos orq1 n = expertos ?o n)
               \<and> orq_messages orq1 = orq_messages ?o
               \<and> orq_ejecutar_tool_calls pyrt_exacto reloj_ejemplo cliente_ejemplo False
                    (llamada_matematicas # resto0) ?o mundo_vacio
                   = orq_ejecutar_tool_calls pyrt_exacto reloj_ejemplo cliente_ejemplo False resto0
                       (orq_agregar (create_tool_result_message cliente_ejemplo
                                       (tc_id llamada_matematicas) respuesta
                                       ''consultar_agente_experto'') orq1) w'"
    by blast
  from e have x: "experto = ExpertoMatematicas_init" by (simp add: expertos_init)
  from d [OF conjI [OF t pensar_matematicas_ejemplo [of "PStr ''2+2''", folded x]]]
  obtain orq1 where
    1: "orq_ejecutar_tool_call pyrt_exacto reloj_ejemplo cliente_ejemplo False
          llamada_matematicas ?o mundo_vacio
        = Some (Inr (Some ''respuesta del experto''), orq1, mundo_vacio\<lparr>llamadas_chat := 1\<rparr>)"
    and 2: "\<forall>n. n \<noteq> ''matematicas'' \<longrightarrow> expertos orq1 n = expertos ?o n"
    and 3: "orq_messages orq1 = orq_messages ?o"
    by blast
  from 2 have 4: "expertos orq1 ''escritura'' = Some ExpertoEscritura_init"
    "expertos orq1 ''codigo'' = Some ExpertoCodigo_init"
    "expertos orq1 ''cocina'' = Some ExpertoCocinero_init"
    by (simp_all add: expertos_init)
  from 1 3 4 have m: "\<exists>orq1.
         orq_ejecutar_tool_call pyrt_exacto reloj_ejemplo cliente_ejemplo False llamada_matematicas
           ?o mundo_vacio
           = Some (Inr (Some ''respuesta del experto''), orq1, mundo_vacio\<lparr>llamadas_chat := 1\<rparr>)
       \<and> expertos orq1 ''escritura'' = Some ExpertoEscritura_init
       \<and> expertos orq1 ''codigo'' = Some ExpertoCodigo_init
       \<and> expertos orq1 ''cocina'' = Some ExpertoCocinero_init
       \<and> orq_messages orq1 = orq_messages ?o"
    by (intro exI [of _ orq1] conjI)
  from delegacion_a_matematicas [OF a nf qf, where verbose = False and w = mundo_vacio]
  have "\<forall>s. s \<notin> {''matematicas'', ''escritura'', ''codigo'', ''cocina''}
                 \<and> map_of (tc_arguments llamada_fisica) ''tipo_experto'' = Some (PStr s) \<longrightarrow>
               orq_ejecutar_tool_call pyrt_exacto reloj_ejemplo cliente_ejemplo False
                 llamada_fisica ?o mundo_vacio
                 = Some (Inr (Some (''Error: no existe el experto '' @ [CHR 0x27] @ s
                                    @ [CHR 0x27])), ?o, mundo_vacio)"
    by blast
  from this [rule_format, OF conjI [OF f tf]]
  have u: "orq_ejecutar_tool_call pyrt_exacto reloj_ejemplo cliente_ejemplo False llamada_fisica
        ?o mundo_vacio
       = Some (Inr (Some (''Error: no existe el experto '' @ [CHR 0x27] @ ''fisica'' @ [CHR 0x27])),
               ?o, mundo_vacio)" .
  from a n q t m f u show ?thesis by (intro conjI)
qed

section \<open>Runs against the scripted stub\<close>

lemma ejecutar_reloj_fijo:
  "ejecutar_herramienta P (reloj_fijo t) n a w
     = (fst (ejecutar_herramienta P (reloj_fijo t) n a ()), w)"
  by (simp add: ejecutar_herramienta_def obtener_hora_def reloj_fijo_def)

lemma ejecutar_tool_calls_guion:
  assumes "\<forall>tc \<in> set tcs. llamada_ok P t verbose tc"
  shows "\<exists>ag'. ejecutar_tool_calls P (reloj_fijo t) C verbose tcs ag w = (Inr (), ag', w)"
  using assms
proof (induction tcs arbitrary: ag)
  case Nil
  show ?case by simp
next
  case (Cons tc tcs)
  from Cons.prems obtain res where
    r: "fst (ejecutar_herramienta P (reloj_fijo t) (tc_name tc) (tc_arguments tc) ()) = Inr res"
    and v: "\<not> (verbose \<and> res = None)"
    by (auto simp: llamada_ok_def split: sum.splits)
  have e: "ejecutar_herramienta P (reloj_fijo t) (tc_name tc) (tc_arguments tc) w = (Inr res, w)"
    by (subst ejecutar_reloj_fijo) (simp add: r)
  from Cons.prems have "\<forall>tc \<in> set tcs. llamada_ok P t verbose tc" by simp
  from Cons.IH [OF this] show ?case using v by (simp add: e)
qed

lemma bucle_pensar_guion:
  assumes "guion w = rs @ final # resto"
    and "\<forall>r \<in> set rs. tool_calls r \<noteq> []"
    and "tool_calls final = []"
    and "\<forall>r \<in> set rs. \<forall>tc \<in> set (tool_calls r). llamada_ok P t verbose tc"
  shows "\<exists>ag' w'. bucle_pensar P (reloj_fijo t) (cliente_guion f) verbose ag w
                     = Some (Inr (content final), ag', w')
                 \<and> llamadas w' = llamadas w + length rs + 1 \<and> guion w' = resto"
  using assms(1,2,4)
proof (induction rs arbitrary: ag w)
  case Nil
  have c: "chat_with_tools (cliente_guion f) (messages ag) (tools ag) (model ag) w
             = (Inr final, w\<lparr>guion := resto, llamadas := Suc (llamadas w)\<rparr>)"
    using Nil.prems(1) by (simp add: cliente_guion_siguiente)
  show ?case
    by (simp add: bucle_pensar_final [OF c assms(3)])
next
  case (Cons r rs)
  let ?w1 = "w\<lparr>guion := rs @ final # resto, llamadas := Suc (llamadas w)\<rparr>"
  have c: "chat_with_tools (cliente_guion f) (messages ag) (tools ag) (model ag) w = (Inr r, ?w1)"
    using Cons.prems(1) by (simp add: cliente_guion_siguiente)
  have t: "tool_calls r \<noteq> []" using Cons.prems(2) by simp
  from Cons.prems(3) have "\<forall>tc \<in> set (tool_calls r). llamada_ok P t verbose tc" by simp
  from ejecutar_tool_calls_guion [OF this, of "cliente_guion f"
      "agregar (create_assistant_message_with_tools (cliente_guion f) r) ag" ?w1]
  obtain ag1 where
    e: "ejecutar_tool_calls P (reloj_fijo t) (cliente_guion f) verbose (tool_calls r)
          (agregar (create_assistant_message_with_tools (cliente_guion f) r) ag) ?w1
        = (Inr (), ag1, ?w1)"
    by blast
  have s: "bucle_pensar P (reloj_fijo t) (cliente_guion f) verbose ag w
             = bucle_pensar P (reloj_fijo t) (cliente_guion f) verbose ag1 ?w1"
    by (simp add: bucle_pensar_paso [OF c t] e)
  have "guion ?w1 = rs @ final # resto" by simp
  moreover have "\<forall>r \<in> set rs. tool_calls r \<noteq> []" using Cons.prems(2) by simp
  moreover have "\<forall>r \<in> set rs. \<forall>tc \<in> set (tool_calls r). llamada_ok P t verbose tc"
    using Cons.prems(3) by simp
  ultimately obtain ag' w' where
    "bucle_pensar P (reloj_fijo t) (cliente_guion f) verbose ag1 ?w1
       = Some (Inr (content final), ag', w')"
    "llamadas w' = llamadas ?w1 + length rs + 1" "guion w' = resto"
    using Cons.IH [of ?w1 ag1] by blast
  then show ?case by (auto simp: s)
qed


text \<open>The experts of an orchestrator are those it was built with, their histories apart.\<close>

lemma expertos_de_fabrica_base:
  assumes "\<forall>n. rel_option extiende (expertos (AgenteOrquestador_init modelo) n) (expertos orq n)"
    and "expertos orq s = Some experto" and "s \<noteq> ''cocina''"
  shows "clase experto = AgenteBase"
proof -
  from assms(1) have "rel_option extiende (expertos (AgenteOrquestador_init modelo) s) (expertos orq s)"
    by blast
  with assms(2,3) obtain e0 where "extiende e0 experto"
    and "e0 \<in> {ExpertoCodigo_init, ExpertoEscritura_init, ExpertoMatematicas_init}"
    by (cases "expertos (AgenteOrquestador_init modelo) s")
       (auto simp: expertos_init split: if_splits)
  then show ?thesis
    using extiende_clase [of e0 experto]
    by (auto simp: ExpertoCodigo_init_def ExpertoEscritura_init_def ExpertoMatematicas_init_def
                   AgenteBase_init_def)
qed

lemma expertos_de_fabrica_extiende:
  assumes "\<forall>n. rel_option extiende (expertos orq0 n) (expertos orq n)"
    and "orq_extiende orq orq'"
  shows "\<forall>n. rel_option extiende (expertos orq0 n) (expertos orq' n)"
  using assms by (auto simp: orq_extiende_def intro: rel_option_extiende_trans)

lemma pensar_base_guion:
  "\<exists>respuesta experto'. pensar_base (cliente_guion f) experto consulta w
      = (Inr respuesta, experto', w\<lparr>llamadas_chat := Suc (llamadas_chat w)\<rparr>)"
  by (simp add: pensar_base_def turno_chat_def cliente_guion_def)

lemma orq_ejecutar_tool_call_guion:
  assumes "\<forall>n. rel_option extiende (expertos (AgenteOrquestador_init modelo) n) (expertos orq n)"
    and "orq_llamada_ok P t tc"
  shows "\<exists>res orq' w'.
           orq_ejecutar_tool_call P (reloj_fijo t) (cliente_guion f) verbose tc orq w
             = Some (Inr res, orq', w')
         \<and> guion w' = guion w \<and> llamadas w' = llamadas w"
proof (cases "tc_name tc = ''consultar_agente_experto''")
  case False
  with assms(2) obtain res where
    "fst (ejecutar_herramienta P (reloj_fijo t) (tc_name tc) (tc_arguments tc) ()) = Inr res"
    by (auto simp: orq_llamada_ok_def split: sum.splits)
  then have "ejecutar_herramienta P (reloj_fijo t) (tc_name tc) (tc_arguments tc) w = (Inr res, w)"
    by (subst ejecutar_reloj_fijo) simp
  with False show ?thesis by (simp add: orq_ejecutar_tool_call_def)
next
  case True
  with assms(2) obtain s consulta where
    a: "map_of (tc_arguments tc) ''tipo_experto'' = Some (PStr s)"
       "map_of (tc_arguments tc) ''consulta'' = Some consulta" and c: "s \<noteq> ''cocina''"
    by (auto simp: orq_llamada_ok_def split: option.splits pyval.splits)
  note d = orq_ejecutar_tool_call_delegar [OF True a]
  show ?thesis
  proof (cases "expertos orq s")
    case None
    then show ?thesis by (simp add: d consultar_experto_no_existe)
  next
    case (Some experto)
    from expertos_de_fabrica_base [OF assms(1) Some c] have b: "clase experto = AgenteBase" .
    from pensar_base_guion [of f experto consulta w] obtain respuesta experto' where
      "pensar_base (cliente_guion f) experto consulta w
         = (Inr respuesta, experto', w\<lparr>llamadas_chat := Suc (llamadas_chat w)\<rparr>)"
      by blast
    then have "pensar P (reloj_fijo t) (cliente_guion f) experto consulta verbose w
         = Some (Inr respuesta, experto', w\<lparr>llamadas_chat := Suc (llamadas_chat w)\<rparr>)"
      by (simp add: pensar_def b)
    from consultar_experto_existe [OF Some this] show ?thesis by (simp add: d)
  qed
qed

lemma orq_ejecutar_tool_calls_guion:
  assumes "\<forall>n. rel_option extiende (expertos (AgenteOrquestador_init modelo) n) (expertos orq n)"
    and "\<forall>tc \<in> set tcs. orq_llamada_ok P t tc"
  shows "\<exists>orq' w'.
           orq_ejecutar_tool_calls P (reloj_fijo t) (cliente_guion f) verbose tcs orq w
             = Some (Inr (), orq', w')
         \<and> guion w' = guion w \<and> llamadas w' = llamadas w
         \<and> (\<forall>n. rel_option extiende (expertos (AgenteOrquestador_init modelo) n) (expertos orq' n))"
  using assms
proof (induction tcs arbitrary: orq w)
  case Nil
  then show ?case by simp
next
  case (Cons tc tcs)
  from Cons.prems(2) have k: "orq_llamada_ok P t tc" by simp
  from orq_ejecutar_tool_call_guion [OF Cons.prems(1) k, of f verbose w] obtain res orq1 w1 where
    e: "orq_ejecutar_tool_call P (reloj_fijo t) (cliente_guion f) verbose tc orq w
          = Some (Inr res, orq1, w1)"
    and g: "guion w1 = guion w" "llamadas w1 = llamadas w"
    by blast
  let ?o2 = "orq_agregar (create_tool_result_message (cliente_guion f) (tc_id tc) res (tc_name tc)) orq1"
  have "orq_extiende orq ?o2"
    using orq_ejecutar_tool_call_extiende [OF e] orq_extiende_agregar orq_extiende_trans by blast
  with Cons.prems(1)
  have j: "\<forall>n. rel_option extiende (expertos (AgenteOrquestador_init modelo) n) (expertos ?o2 n)"
    by (rule expertos_de_fabrica_extiende)
  from Cons.prems(2) have "\<forall>tc \<in> set tcs. orq_llamada_ok P t tc" by simp
  from Cons.IH [OF j this, of w1] obtain orq' w' where
    "orq_ejecutar_tool_calls P (reloj_fijo t) (cliente_guion f) verbose tcs ?o2 w1
       = Some (Inr (), orq', w')"
    "guion w' = guion w1" "llamadas w' = llamadas w1"
    "\<forall>n. rel_option extiende (expertos (AgenteOrquestador_init modelo) n) (expertos orq' n)"
    by blast
  then show ?case using g by (simp add: e)
qed

lemma bucle_procesar_guion:
  assumes "guion w = rs @ final # resto"
    and "\<forall>r \<in> set rs. tool_calls r \<noteq> []"
    and "tool_calls final = []"
    and "\<forall>r \<in> set rs. \<forall>tc \<in> set (tool_calls r). orq_llamada_ok P t tc"
    and "\<forall>n. rel_option extiende (expertos (AgenteOrquestador_init modelo) n) (expertos orq n)"
  shows "\<exists>orq' w'. bucle_procesar P (reloj_fijo t) (cliente_guion f) verbose orq w
                     = Some (Inr (content final), orq', w')
                 \<and> llamadas w' = llamadas w + length rs + 1 \<and> guion w' = resto"
  using assms(1,2,4,5)
proof (induction rs arbitrary: orq w)
  case Nil
  have c: "chat_with_tools (cliente_guion f) (orq_messages orq) TOOLS_DEFINITION (orq_model orq) w
             = (Inr final, w\<lparr>guion := resto, llamadas := Suc (llamadas w)\<rparr>)"
    using Nil.prems(1) by (simp add: cliente_guion_siguiente)
  show ?case
    by (simp add: bucle_procesar_final [OF c assms(3)])
next
  case (Cons r rs)
  let ?w1 = "w\<lparr>guion := rs @ final # resto, llamadas := Suc (llamadas w)\<rparr>"
  let ?o1 = "orq_agregar (create_assistant_message_with_tools (cliente_guion f) r) orq"
  have c: "chat_with_tools (cliente_guion f) (orq_messages orq) TOOLS_DEFINITION (orq_model orq) w
             = (Inr r, ?w1)"
    using Cons.prems(1) by (simp add: cliente_guion_siguiente)
  have t: "tool_calls r \<noteq> []" using Cons.prems(2) by simp
  have j: "\<forall>n. rel_option extiende (expertos (AgenteOrquestador_init modelo) n) (expertos ?o1 n)"
    using Cons.prems(4) by (simp add: orq_agregar_def)
  from Cons.prems(3) have "\<forall>tc \<in> set (tool_calls r). orq_llamada_ok P t tc" by simp
  from orq_ejecutar_tool_calls_guion [OF j this, of f verbose ?w1] obtain orq2 w2 where
    e: "orq_ejecutar_tool_calls P (reloj_fijo t) (cliente_guion f) verbose (tool_calls r) ?o1 ?w1
          = Some (Inr (), orq2, w2)"
    and g: "guion w2 = guion ?w1" "llamadas w2 = llamadas ?w1"
    and j2: "\<forall>n. rel_option extiende (expertos (AgenteOrquestador_init modelo) n) (expertos orq2 n)"
    by blast
  have s: "bucle_procesar P (reloj_fijo t) (cliente_guion f) verbose orq w
             = bucle_procesar P (reloj_fijo t) (cliente_guion f) verbose orq2 w2"
    by (simp add: bucle_procesar_paso [OF c t] e)
  have "guion w2 = rs @ final # resto" using g by simp
  moreover have "\<forall>r \<in> set rs. tool_calls r \<noteq> []" using Cons.prems(2) by simp
  moreover have "\<forall>r \<in> set rs. \<forall>tc \<in> set (tool_calls r). orq_llamada_ok P t tc"
    using Cons.prems(3) by simp
  ultimately obtain orq' w' where
    "bucle_procesar P (reloj_fijo t) (cliente_guion f) verbose orq2 w2
       = Some (Inr (content final), orq', w')"
    "llamadas w' = llamadas w2 + length rs + 1" "guion w' = resto"
    using Cons.IH [of w2 orq2] j2 by blast
  then show ?case using g by (auto simp: s)
qed

text \<open>
  C1, as the code has it, against a stub that follows a script and a clock that shows a
  fixed text. Let the first k-1 responses of the remaining script carry tool calls and
  the k-th none. If every tool call of those k-1 responses is fine for the loop (none
  raises; in \<^verbatim>\<open>procesar\<close>, none delegates to the expert cocina, whose own loop
  calls \<^verbatim>\<open>chat_with_tools\<close> of the same provider), then
  \<^verbatim>\<open>pensar\<close> of an agent with tools, and \<^verbatim>\<open>procesar\<close> of an
  orchestrator in any state reachable from its construction, return the content of the
  k-th response after exactly k invocations of \<^verbatim>\<open>chat_with_tools\<close>, the rest
  of the script untouched.
\<close>

theorem termina_en_la_respuesta_k:
  assumes "guion w = rs @ final # resto"
    and "\<forall>r \<in> set rs. tool_calls r \<noteq> []"
    and "tool_calls final = []"
  shows "(tools ag \<noteq> [] \<and> (\<forall>r \<in> set rs. \<forall>tc \<in> set (tool_calls r). llamada_ok P t verbose tc) \<longrightarrow>
            (\<exists>ag' w'.
                pensar_con_herramientas P (reloj_fijo t) (cliente_guion f) ag mensaje verbose w
                  = Some (Inr (content final), ag', w')
              \<and> llamadas w' = llamadas w + length rs + 1 \<and> guion w' = resto))
       \<and> (orq_alcanzable P0 R0 C0 (AgenteOrquestador_init modelo) orq
            \<and> (\<forall>r \<in> set rs. \<forall>tc \<in> set (tool_calls r). orq_llamada_ok P t tc) \<longrightarrow>
            (\<exists>orq' w'.
                procesar P (reloj_fijo t) (cliente_guion f) orq mensaje_usuario verbose w
                  = Some (Inr (content final), orq', w')
              \<and> llamadas w' = llamadas w + length rs + 1 \<and> guion w' = resto))"
proof (intro conjI impI)
  assume h: "tools ag \<noteq> [] \<and> (\<forall>r \<in> set rs. \<forall>tc \<in> set (tool_calls r). llamada_ok P t verbose tc)"
  let ?ag1 = "agregar (mensaje_de ''user'' mensaje) ag"
  have "tools ?ag1 \<noteq> []" using h by (simp add: agregar_def)
  then have "pensar_con_herramientas P (reloj_fijo t) (cliente_guion f) ag mensaje verbose w
               = bucle_pensar P (reloj_fijo t) (cliente_guion f) verbose ?ag1 w"
    by (simp add: pensar_con_herramientas_def Let_def)
  with bucle_pensar_guion [OF assms conjunct2 [OF h], of f ?ag1]
  show "\<exists>ag' w'.
                pensar_con_herramientas P (reloj_fijo t) (cliente_guion f) ag mensaje verbose w
                  = Some (Inr (content final), ag', w')
              \<and> llamadas w' = llamadas w + length rs + 1 \<and> guion w' = resto"
    by simp
next
  assume h: "orq_alcanzable P0 R0 C0 (AgenteOrquestador_init modelo) orq
            \<and> (\<forall>r \<in> set rs. \<forall>tc \<in> set (tool_calls r). orq_llamada_ok P t tc)"
  let ?o1 = "orq_agregar (mensaje_de ''user'' (PStr mensaje_usuario)) orq"
  have "\<forall>n. rel_option extiende (expertos (AgenteOrquestador_init modelo) n) (expertos orq n)"
    using orq_alcanzable_expertos [OF conjunct1 [OF h]] by blast
  then have j: "\<forall>n. rel_option extiende (expertos (AgenteOrquestador_init modelo) n) (expertos ?o1 n)"
    by (simp add: orq_agregar_def)
  from bucle_procesar_guion [OF assms conjunct2 [OF h] j, of f verbose]
  show "\<exists>orq' w'.
                procesar P (reloj_fijo t) (cliente_guion f) orq mensaje_usuario verbose w
                  = Some (Inr (content final), orq', w')
              \<and> llamadas w' = llamadas w + length rs + 1 \<and> guion w' = resto"
    by (simp add: procesar_def)
qed


theorem termina_en_la_respuesta_k_witness:
  "guion (mundo_inicial [respuesta_llamadas [llamada_suma, llamada_matematicas],
                         respuesta_final ''listo''])
     = [respuesta_llamadas [llamada_suma, llamada_matematicas]] @ respuesta_final ''listo'' # []
   \<and> tool_calls (respuesta_llamadas [llamada_suma, llamada_matematicas]) \<noteq> []
   \<and> tool_calls (respuesta_final ''listo'') = []
   \<and> tools (ExpertoCocinero_init :: rat agente) \<noteq> []
   \<and> llamada_ok pyrt_exacto ''2026-01-01 12:00:00'' False llamada_suma
   \<and> llamada_ok pyrt_exacto ''2026-01-01 12:00:00'' False llamada_matematicas
   \<and> (\<exists>ag' w'.
         pensar_con_herramientas pyrt_exacto reloj_ejemplo cliente_ejemplo ExpertoCocinero_init
           (PStr ''hola'') False
           (mundo_inicial [respuesta_llamadas [llamada_suma, llamada_matematicas],
                           respuesta_final ''listo''])
           = Some (Inr (Some ''listo''), ag', w')
       \<and> llamadas w' = 2 \<and> guion w' = [])
   \<and> orq_alcanzable pyrt_exacto reloj_ejemplo cliente_ejemplo (AgenteOrquestador_init None)
        (AgenteOrquestador_init None)
   \<and> orq_llamada_ok pyrt_exacto ''2026-01-01 12:00:00'' llamada_suma
   \<and> orq_llamada_ok pyrt_exacto ''2026-01-01 12:00:00'' llamada_matematicas
   \<and> (\<exists>orq' w'.
         procesar pyrt_exacto reloj_ejemplo cliente_ejemplo (AgenteOrquestador_init None)
           ''hola'' False
           (mundo_inicial [respuesta_llamadas [llamada_suma, llamada_matematicas],
                           respuesta_final ''listo''])
           = Some (Inr (Some ''listo''), orq', w')
       \<and> llamadas w' = 2 \<and> guion w' = [])"
proof -
  let ?r = "respuesta_llamadas [llamada_suma, llamada_matematicas]"
  let ?f = "respuesta_final ''listo''"
  let ?w = "mundo_inicial [?r, ?f] :: rat mundo_guion"
  let ?t = "''2026-01-01 12:00:00''"
  have g: "guion ?w = [?r] @ ?f # []" by (simp add: mundo_inicial_def)
  have t1: "tool_calls ?r \<noteq> []" by (simp add: respuesta_llamadas_def)
  have t2: "tool_calls ?f = []" by (simp add: respuesta_final_def)
  have b: "\<forall>r \<in> set [?r]. tool_calls r \<noteq> []" using t1 by simp
  have h: "tools (ExpertoCocinero_init :: rat agente) \<noteq> []"
    by (simp add: ExpertoCocinero_init_def AgenteConHerramientas_init_def AgenteBase_init_def
                  TOOLS_COCINERO_def)
  have k1: "llamada_ok pyrt_exacto ?t False llamada_suma" by code_simp
  have k2: "llamada_ok pyrt_exacto ?t False llamada_matematicas" by code_simp
  have k3: "orq_llamada_ok pyrt_exacto ?t llamada_suma" by code_simp
  have k4: "orq_llamada_ok pyrt_exacto ?t llamada_matematicas" by code_simp
  have a: "orq_alcanzable pyrt_exacto reloj_ejemplo cliente_ejemplo (AgenteOrquestador_init None)
        (AgenteOrquestador_init None :: rat orquestador)"
    by (rule oa_inicio)
  have p: "\<forall>r \<in> set [?r]. \<forall>tc \<in> set (tool_calls r). llamada_ok pyrt_exacto ?t False tc"
    using k1 k2 by (simp add: respuesta_llamadas_def)
  have q: "\<forall>r \<in> set [?r]. \<forall>tc \<in> set (tool_calls r). orq_llamada_ok pyrt_exacto ?t tc"
    using k3 k4 by (simp add: respuesta_llamadas_def)
  have c: "content ?f = Some ''listo''" by (simp add: respuesta_final_def)
  have l: "llamadas ?w + length [?r] + 1 = 2" by (simp add: mundo_inicial_def)
  note th = termina_en_la_respuesta_k [OF g b t2, where P = pyrt_exacto and t = ?t
      and f = "\<lambda>msgs. Some ''respuesta del experto''" and verbose = False
      and ag = ExpertoCocinero_init and mensaje = "PStr ''hola''"
      and ?P0.0 = pyrt_exacto and ?R0.0 = reloj_ejemplo and ?C0.0 = cliente_ejemplo
      and modelo = None and orq = "AgenteOrquestador_init None" and mensaje_usuario = "''hola''",
      folded cliente_ejemplo_def reloj_ejemplo_def, unfolded c l]
  from th [THEN conjunct1, rule_format, OF conjI [OF h p]]
  have 1: "\<exists>ag' w'.
         pensar_con_herramientas pyrt_exacto reloj_ejemplo cliente_ejemplo ExpertoCocinero_init
           (PStr ''hola'') False ?w = Some (Inr (Some ''listo''), ag', w')
       \<and> llamadas w' = 2 \<and> guion w' = []" .
  from th [THEN conjunct2, rule_format, OF conjI [OF a q]]
  have 2: "\<exists>orq' w'.
         procesar pyrt_exacto reloj_ejemplo cliente_ejemplo (AgenteOrquestador_init None)
           ''hola'' False ?w = Some (Inr (Some ''listo''), orq', w')
       \<and> llamadas w' = 2 \<and> guion w' = []" .
  from g t1 t2 h k1 k2 1 a k3 k4 2 show ?thesis by (intro conjI)
qed


text \<open>
  C1 as it is written fails for \<^verbatim>\<open>procesar\<close>. The script asks for a delegation
  to the expert cocina and then holds two final answers. The second invocation of
  \<^verbatim>\<open>chat_with_tools\<close> returns a response without tool calls, but it is the
  expert that made it: \<^verbatim>\<open>procesar\<close> returns after three invocations, with the
  content of the third response.
\<close>

theorem termina_en_la_respuesta_k_counterexample:
  "tool_calls (respuesta_llamadas [llamada_cocina]) \<noteq> []
   \<and> tool_calls (respuesta_final ''del experto'') = []
   \<and> content (respuesta_final ''del experto'') = Some ''del experto''
   \<and> map_option (\<lambda>(r, orq, w). (r, llamadas w))
        (procesar pyrt_exacto reloj_ejemplo cliente_ejemplo (AgenteOrquestador_init None)
           ''una receta'' False
           (mundo_inicial [respuesta_llamadas [llamada_cocina], respuesta_final ''del experto'',
                           respuesta_final ''del orquestador'']))
       = Some (Inr (Some ''del orquestador''), 3)"
proof -
  let ?r1 = "respuesta_llamadas [llamada_cocina]"
  let ?r2 = "respuesta_final ''del experto''"
  let ?r3 = "respuesta_final ''del orquestador''"
  let ?w0 = "mundo_inicial [?r1, ?r2, ?r3] :: rat mundo_guion"
  let ?w1 = "\<lparr>guion = [?r2, ?r3], llamadas = 1, llamadas_chat = 0\<rparr> :: rat mundo_guion"
  let ?w2 = "\<lparr>guion = [?r3], llamadas = 2, llamadas_chat = 0\<rparr> :: rat mundo_guion"
  let ?w3 = "\<lparr>guion = [], llamadas = 3, llamadas_chat = 0\<rparr> :: rat mundo_guion"
  let ?o0 = "orq_agregar (mensaje_de ''user'' (PStr ''una receta'')) (AgenteOrquestador_init None)"
  let ?o1 = "orq_agregar (create_assistant_message_with_tools cliente_ejemplo ?r1) ?o0"
  let ?e1 = "agregar (mensaje_de ''user'' (PStr ''una receta'')) (ExpertoCocinero_init :: rat agente)"
  let ?e2 = "agregar (mensaje_de ''assistant'' (opcional (content ?r2))) ?e1"
  let ?o2 = "?o1\<lparr>expertos := (expertos ?o1)(''cocina'' \<mapsto> ?e2)\<rparr>"
  let ?o3 = "orq_agregar (create_tool_result_message cliente_ejemplo (tc_id llamada_cocina)
                            (content ?r2) (tc_name llamada_cocina)) ?o2"
  have t1: "tool_calls ?r1 \<noteq> []" and l1: "tool_calls ?r1 = [llamada_cocina]"
    by (simp_all add: respuesta_llamadas_def)
  have t2: "tool_calls ?r2 = []" and t3: "tool_calls ?r3 = []"
    and c2: "content ?r2 = Some ''del experto''" and c3: "content ?r3 = Some ''del orquestador''"
    by (simp_all add: respuesta_final_def)
  have n: "tc_name llamada_cocina = ''consultar_agente_experto''"
    and a1: "map_of (tc_arguments llamada_cocina) ''tipo_experto'' = Some (PStr ''cocina'')"
    and a2: "map_of (tc_arguments llamada_cocina) ''consulta'' = Some (PStr ''una receta'')"
    by (simp_all add: llamada_cocina_def)
  have g1: "chat_with_tools cliente_ejemplo (orq_messages ?o0) TOOLS_DEFINITION (orq_model ?o0) ?w0
              = (Inr ?r1, ?w1)"
    by (simp add: cliente_ejemplo_def cliente_guion_def mundo_inicial_def)
  have g2: "chat_with_tools cliente_ejemplo (messages ?e1) (tools ?e1) (model ?e1) ?w1
              = (Inr ?r2, ?w2)"
    by (simp add: cliente_ejemplo_def cliente_guion_def)
  have g3: "chat_with_tools cliente_ejemplo (orq_messages ?o3) TOOLS_DEFINITION (orq_model ?o3) ?w2
              = (Inr ?r3, ?w3)"
    by (simp add: cliente_ejemplo_def cliente_guion_def)
  have h: "tools ?e1 \<noteq> []" and k: "clase (ExpertoCocinero_init :: rat agente) = AgenteConHerramientas"
    by (simp_all add: ExpertoCocinero_init_def AgenteConHerramientas_init_def AgenteBase_init_def
                      TOOLS_COCINERO_def agregar_def)
  have p: "pensar pyrt_exacto reloj_ejemplo cliente_ejemplo ExpertoCocinero_init
             (PStr ''una receta'') False ?w1 = Some (Inr (content ?r2), ?e2, ?w2)"
    unfolding pensar_def k pensar_con_herramientas_def Let_def
    by (simp only: clase_agente.case h if_False bucle_pensar_final [OF g2 t2])
  have x: "expertos ?o1 ''cocina'' = Some ExpertoCocinero_init"
    by (simp add: orq_agregar_def expertos_init)
  have d: "orq_ejecutar_tool_call pyrt_exacto reloj_ejemplo cliente_ejemplo False llamada_cocina
             ?o1 ?w1 = Some (Inr (content ?r2), ?o2, ?w2)"
    by (simp only: orq_ejecutar_tool_call_delegar [OF n a1 a2] consultar_experto_existe [OF x p])
  have e: "orq_ejecutar_tool_calls pyrt_exacto reloj_ejemplo cliente_ejemplo False
             (tool_calls ?r1) ?o1 ?w1 = Some (Inr (), ?o3, ?w2)"
    unfolding l1 by (simp only: orq_ejecutar_tool_calls.simps d option.case prod.case sum.case)
  have "bucle_procesar pyrt_exacto reloj_ejemplo cliente_ejemplo False ?o0 ?w0
          = bucle_procesar pyrt_exacto reloj_ejemplo cliente_ejemplo False ?o3 ?w2"
    by (simp only: bucle_procesar_paso [OF g1 t1] e option.case prod.case sum.case)
  also have "\<dots> = Some (Inr (content ?r3),
                        orq_agregar (mensaje_de ''assistant'' (opcional (content ?r3))) ?o3, ?w3)"
    by (rule bucle_procesar_final [OF g3 t3])
  finally have "map_option (\<lambda>(r, orq, w). (r, llamadas w))
        (procesar pyrt_exacto reloj_ejemplo cliente_ejemplo (AgenteOrquestador_init None)
           ''una receta'' False ?w0)
       = Some (Inr (Some ''del orquestador''), 3)"
    by (simp add: procesar_def c3)
  with t1 t2 c2 show ?thesis by (intro conjI)
qed

section \<open>The calls of a turn, one after another\<close>

lemma mensajes_resultado_prefijo:
  assumes "length rs = length antes"
  shows "mensajes_resultado C (antes @ resto) rs = mensajes_resultado C antes rs"
  using assms by (simp add: mensajes_resultado_def zip_append1)

lemma resultados_de_length:
  assumes "resultados_de P R tcs w = Some (rs, w')"
  shows "length rs = length tcs"
  using assms
  by (induction tcs arbitrary: w rs) (auto split: prod.splits sum.splits option.splits)

lemma ejecutar_tool_calls_todas:
  assumes "resultados_de P R tcs w = Some (rs, w')" and "\<not> (verbose \<and> None \<in> set rs)"
  shows "ejecutar_tool_calls P R C verbose tcs ag w
           = (Inr (), ag\<lparr>messages := messages ag @ mensajes_resultado C tcs rs\<rparr>, w')"
  using assms
proof (induction tcs arbitrary: ag w rs)
  case Nil
  then show ?case by simp
next
  case (Cons tc tcs)
  from Cons.prems(1) obtain res v rs' where
    e: "ejecutar_herramienta P R (tc_name tc) (tc_arguments tc) w = (Inr res, v)"
    and r: "resultados_de P R tcs v = Some (rs', w')" and rs: "rs = res # rs'"
    by (auto split: prod.splits sum.splits option.splits)
  from Cons.prems(2) rs have n: "\<not> (verbose \<and> res = None)" "\<not> (verbose \<and> None \<in> set rs')"
    by (cases res; simp)+
  show ?case
    using e n(1) Cons.IH [OF r n(2)] by (simp add: rs agregar_def)
qed

lemma ejecutar_tool_calls_append:
  "ejecutar_tool_calls P R C verbose (xs @ ys) ag w =
     (case ejecutar_tool_calls P R C verbose xs ag w of
        (Inl e, ag', w') \<Rightarrow> (Inl e, ag', w')
      | (Inr u, ag', w') \<Rightarrow> ejecutar_tool_calls P R C verbose ys ag' w')"
  by (induction xs arbitrary: ag w) (auto split: prod.splits sum.splits)

lemma ejecutar_tool_calls_falla_en:
  assumes "resultados_de P R antes w = Some (rs, w1)" and "\<not> (verbose \<and> None \<in> set rs)"
    and "ejecutar_herramienta P R (tc_name tc) (tc_arguments tc) w1 = (Inl e, w2)"
  shows "ejecutar_tool_calls P R C verbose (antes @ tc # resto) ag w
           = (Inl e, ag\<lparr>messages := messages ag @ mensajes_resultado C antes rs\<rparr>, w2)"
  by (simp add: ejecutar_tool_calls_append ejecutar_tool_calls_todas [OF assms(1,2)] assms(3))

lemma orq_ejecutar_tool_call_mensajes:
  "orq_ejecutar_tool_call P R C verbose tc (orq\<lparr>orq_messages := m\<rparr>) w
     = map_option (\<lambda>(r, o', w'). (r, o'\<lparr>orq_messages := m\<rparr>, w'))
         (orq_ejecutar_tool_call P R C verbose tc orq w)"
  by (auto simp: orq_ejecutar_tool_call_def consultar_experto_def
           split: sum.splits prod.splits option.splits pyval.splits)

lemma orq_ejecutar_tool_call_conserva:
  assumes "orq_ejecutar_tool_call P R C verbose tc orq w = Some (r, o', w')"
  shows "orq_messages o' = orq_messages orq"
  using assms
  by (auto simp: orq_ejecutar_tool_call_def consultar_experto_def
           split: if_splits sum.splits prod.splits option.splits pyval.splits)

lemma orq_resultados_de_mensajes:
  "orq_resultados_de P R C verbose tcs (orq\<lparr>orq_messages := m\<rparr>) w
     = map_option (\<lambda>(rs, o', w'). (rs, o'\<lparr>orq_messages := m\<rparr>, w'))
         (orq_resultados_de P R C verbose tcs orq w)"
proof (induction tcs arbitrary: orq w)
  case Nil
  show ?case by simp
next
  case (Cons tc tcs)
  show ?case
    by (cases "orq_ejecutar_tool_call P R C verbose tc orq w")
       (auto simp: orq_ejecutar_tool_call_mensajes Cons.IH split: sum.splits option.splits)
qed

lemma orq_resultados_de_conserva:
  assumes "orq_resultados_de P R C verbose tcs orq w = Some (rs, o', w')"
  shows "orq_messages o' = orq_messages orq \<and> length rs = length tcs"
  using assms
proof (induction tcs arbitrary: orq w rs)
  case Nil
  then show ?case by simp
next
  case (Cons tc tcs)
  from Cons.prems obtain res o1 v rs' where
    e: "orq_ejecutar_tool_call P R C verbose tc orq w = Some (Inr res, o1, v)"
    and r: "orq_resultados_de P R C verbose tcs o1 v = Some (rs', o', w')" and rs: "rs = res # rs'"
    by (auto split: prod.splits sum.splits option.splits)
  from Cons.IH [OF r] orq_ejecutar_tool_call_conserva [OF e] rs show ?case by simp
qed

lemma orq_ejecutar_tool_calls_todas:
  assumes "orq_resultados_de P R C verbose tcs orq w = Some (rs, orq', w')"
  shows "orq_ejecutar_tool_calls P R C verbose tcs orq w
           = Some (Inr (), orq'\<lparr>orq_messages := orq_messages orq @ mensajes_resultado C tcs rs\<rparr>, w')"
  using assms
proof (induction tcs arbitrary: orq w rs orq')
  case Nil
  then show ?case by simp
next
  case (Cons tc tcs)
  from Cons.prems obtain res o1 v rs' where
    e: "orq_ejecutar_tool_call P R C verbose tc orq w = Some (Inr res, o1, v)"
    and r: "orq_resultados_de P R C verbose tcs o1 v = Some (rs', orq', w')" and rs: "rs = res # rs'"
    by (auto split: prod.splits sum.splits option.splits)
  let ?m = "create_tool_result_message C (tc_id tc) res (tc_name tc)"
  have m: "orq_messages o1 = orq_messages orq" using e by (rule orq_ejecutar_tool_call_conserva)
  have a: "orq_agregar ?m o1 = o1\<lparr>orq_messages := orq_messages orq @ [?m]\<rparr>"
    by (simp add: orq_agregar_def m)
  have "orq_resultados_de P R C verbose tcs (orq_agregar ?m o1) v
          = Some (rs', orq'\<lparr>orq_messages := orq_messages orq @ [?m]\<rparr>, w')"
    unfolding a orq_resultados_de_mensajes by (simp add: r)
  from Cons.IH [OF this] show ?case
    using e by (simp add: rs a)
qed

lemma orq_ejecutar_tool_calls_append:
  "orq_ejecutar_tool_calls P R C verbose (xs @ ys) orq w =
     (case orq_ejecutar_tool_calls P R C verbose xs orq w of
        None \<Rightarrow> None
      | Some (Inl e, orq', w') \<Rightarrow> Some (Inl e, orq', w')
      | Some (Inr u, orq', w') \<Rightarrow> orq_ejecutar_tool_calls P R C verbose ys orq' w')"
  by (induction xs arbitrary: orq w) (auto split: prod.splits sum.splits option.splits)

lemma orq_ejecutar_tool_calls_falla_en:
  assumes "orq_resultados_de P R C verbose antes orq w = Some (rs, orq1, w1)"
    and "orq_ejecutar_tool_call P R C verbose tc orq1 w1 = Some (Inl e, orq2, w2)"
  shows "orq_ejecutar_tool_calls P R C verbose (antes @ tc # resto) orq w
           = Some (Inl e, orq2\<lparr>orq_messages := orq_messages orq @ mensajes_resultado C antes rs\<rparr>, w2)"
  by (simp add: orq_ejecutar_tool_calls_append orq_ejecutar_tool_calls_todas [OF assms(1)]
                orq_ejecutar_tool_call_mensajes assms(2))

section \<open>The tool results of a turn\<close>

lemma ejecutar_tool_calls_traza:
  assumes "ejecutar_tool_calls P R C verbose tcs ag w = (r, ag', w')"
  shows "\<exists>resultados w1.
           resultados_de P R (take (length resultados) tcs) w = Some (resultados, w1)
         \<and> length resultados \<le> length tcs
         \<and> (r = Inr () \<longleftrightarrow> length resultados = length tcs)
         \<and> ag' = ag\<lparr>messages := messages ag @ mensajes_resultado C tcs resultados\<rparr>
         \<and> (r = Inr () \<longrightarrow> w' = w1)
         \<and> (\<forall>e. r = Inl e \<longrightarrow>
               ejecutar_herramienta P R (tc_name (tcs ! length resultados))
                 (tc_arguments (tcs ! length resultados)) w1 = (Inl e, w')
             \<or> (verbose \<and> e = TypeError
                 \<and> ejecutar_herramienta P R (tc_name (tcs ! length resultados))
                     (tc_arguments (tcs ! length resultados)) w1 = (Inr None, w')))"
  using assms
proof (induction tcs arbitrary: ag w)
  case Nil
  then show ?case by (intro exI [of _ "[]"] exI [of _ w]) auto
next
  case (Cons tc tcs)
  obtain x v where e: "ejecutar_herramienta P R (tc_name tc) (tc_arguments tc) w = (x, v)"
    by (cases "ejecutar_herramienta P R (tc_name tc) (tc_arguments tc) w")
  show ?case
  proof (cases "\<exists>res. x = Inr res \<and> \<not> (verbose \<and> res = None)")
    case False
    with Cons.prems e have
      "ag' = ag" "w' = v" "r \<noteq> Inr ()"
      "\<forall>err. r = Inl err \<longrightarrow> x = Inl err \<or> (verbose \<and> err = TypeError \<and> x = Inr None)"
      by (cases x; auto split: if_splits)+
    with e show ?thesis by (intro exI [of _ "[]"] exI [of _ w]) auto
  next
    case True
    then obtain res where x: "x = Inr res" and nv: "\<not> (verbose \<and> res = None)" by blast
    let ?ag1 = "agregar (create_tool_result_message C (tc_id tc) res (tc_name tc)) ag"
    from Cons.prems e x nv have "ejecutar_tool_calls P R C verbose tcs ?ag1 v = (r, ag', w')"
      by auto
    from Cons.IH [OF this] obtain rs w1 where rs:
      "resultados_de P R (take (length rs) tcs) v = Some (rs, w1)"
      "length rs \<le> length tcs" "r = Inr () \<longleftrightarrow> length rs = length tcs"
      "ag' = ?ag1\<lparr>messages := messages ?ag1 @ mensajes_resultado C tcs rs\<rparr>"
      "r = Inr () \<longrightarrow> w' = w1"
      "\<forall>e. r = Inl e \<longrightarrow>
               ejecutar_herramienta P R (tc_name (tcs ! length rs))
                 (tc_arguments (tcs ! length rs)) w1 = (Inl e, w')
             \<or> (verbose \<and> e = TypeError
                 \<and> ejecutar_herramienta P R (tc_name (tcs ! length rs))
                     (tc_arguments (tcs ! length rs)) w1 = (Inr None, w'))"
      by blast
    show ?thesis
      using rs e x by (intro exI [of _ "res # rs"] exI [of _ w1]) (simp add: agregar_def)
  qed
qed

lemma orq_ejecutar_tool_calls_traza:
  assumes "orq_ejecutar_tool_calls P R C verbose tcs orq w = Some (r, orq', w')"
  shows "\<exists>resultados orq1 w1.
           orq_resultados_de P R C verbose (take (length resultados) tcs) orq w
             = Some (resultados, orq1, w1)
         \<and> length resultados \<le> length tcs
         \<and> (r = Inr () \<longleftrightarrow> length resultados = length tcs)
         \<and> orq_messages orq' = orq_messages orq @ mensajes_resultado C tcs resultados
         \<and> (r = Inr () \<longrightarrow> w' = w1 \<and> orq' = orq1\<lparr>orq_messages := orq_messages orq'\<rparr>)
         \<and> (\<forall>e. r = Inl e \<longrightarrow>
               (\<exists>orq2. orq_ejecutar_tool_call P R C verbose (tcs ! length resultados) orq1 w1
                          = Some (Inl e, orq2, w')
                      \<and> orq' = orq2\<lparr>orq_messages := orq_messages orq'\<rparr>))"
  using assms
proof (induction tcs arbitrary: orq w)
  case Nil
  then show ?case by (intro exI [of _ "[]"] exI [of _ orq] exI [of _ w]) auto
next
  case (Cons tc tcs)
  from Cons.prems obtain x o1 v where
    e: "orq_ejecutar_tool_call P R C verbose tc orq w = Some (x, o1, v)"
    by (auto split: option.splits)
  have m: "orq_messages o1 = orq_messages orq" using e by (rule orq_ejecutar_tool_call_conserva)
  show ?case
  proof (cases x)
    case (Inl err)
    with Cons.prems e have "orq' = o1" "w' = v" "r = Inl err" by auto
    with e m Inl show ?thesis
      by (intro exI [of _ "[]"] exI [of _ orq] exI [of _ w]) auto
  next
    case (Inr res)
    let ?m = "create_tool_result_message C (tc_id tc) res (tc_name tc)"
    let ?M = "orq_messages orq @ [?m]"
    have a: "orq_agregar ?m o1 = o1\<lparr>orq_messages := ?M\<rparr>"
      by (simp add: orq_agregar_def m)
    from Cons.prems e Inr have
      "orq_ejecutar_tool_calls P R C verbose tcs (o1\<lparr>orq_messages := ?M\<rparr>) v = Some (r, orq', w')"
      by (simp add: a)
    from Cons.IH [OF this] obtain rs p1 w1 where rs:
      "orq_resultados_de P R C verbose (take (length rs) tcs) (o1\<lparr>orq_messages := ?M\<rparr>) v
         = Some (rs, p1, w1)"
      "length rs \<le> length tcs" "r = Inr () \<longleftrightarrow> length rs = length tcs"
      "orq_messages orq' = ?M @ mensajes_resultado C tcs rs"
      "r = Inr () \<longrightarrow> w' = w1 \<and> orq' = p1\<lparr>orq_messages := orq_messages orq'\<rparr>"
      "\<forall>e. r = Inl e \<longrightarrow>
               (\<exists>orq2. orq_ejecutar_tool_call P R C verbose (tcs ! length rs) p1 w1
                          = Some (Inl e, orq2, w')
                      \<and> orq' = orq2\<lparr>orq_messages := orq_messages orq'\<rparr>)"
      by auto
    from rs(1) obtain q1 where q1:
      "orq_resultados_de P R C verbose (take (length rs) tcs) o1 v = Some (rs, q1, w1)"
      "p1 = q1\<lparr>orq_messages := ?M\<rparr>"
      unfolding orq_resultados_de_mensajes by auto
    have f: "\<forall>e. r = Inl e \<longrightarrow>
               (\<exists>orq2. orq_ejecutar_tool_call P R C verbose (tcs ! length rs) q1 w1
                          = Some (Inl e, orq2, w')
                      \<and> orq' = orq2\<lparr>orq_messages := orq_messages orq'\<rparr>)"
    proof (intro allI impI)
      fix err assume "r = Inl err"
      with rs(6) obtain orq2 where
        o2: "orq_ejecutar_tool_call P R C verbose (tcs ! length rs) p1 w1 = Some (Inl err, orq2, w')"
        "orq' = orq2\<lparr>orq_messages := orq_messages orq'\<rparr>" by blast
      from o2(1) obtain q2 where
        "orq_ejecutar_tool_call P R C verbose (tcs ! length rs) q1 w1 = Some (Inl err, q2, w')"
        "orq2 = q2\<lparr>orq_messages := ?M\<rparr>"
        unfolding q1(2) orq_ejecutar_tool_call_mensajes by auto
      with o2(2) show "\<exists>orq2. orq_ejecutar_tool_call P R C verbose (tcs ! length rs) q1 w1
                          = Some (Inl err, orq2, w')
                      \<and> orq' = orq2\<lparr>orq_messages := orq_messages orq'\<rparr>"
        by (intro exI [of _ q2]) (metis orquestador.update_convs(4) orquestador.surjective)
    qed
    have g: "r = Inr () \<longrightarrow> w' = w1 \<and> orq' = q1\<lparr>orq_messages := orq_messages orq'\<rparr>"
      using rs(5) q1(2) by (metis orquestador.update_convs(4) orquestador.surjective)
    show ?thesis
      using rs(2-4) q1(1) e Inr f g
      by (intro exI [of _ "res # rs"] exI [of _ q1] exI [of _ w1]) simp
  qed
qed


lemma ejecutar_sin_b_ejemplo:
  "ejecutar_herramienta pyrt_exacto reloj_ejemplo ''calculadora''
     (tc_arguments llamada_sin_b) w = (Inl TypeError, w)"
  by (simp add: llamada_sin_b_def ejecutar_herramienta_def vincular_def)

text \<open>
  C2, as the code has it. In a turn whose response carries N tool calls, each loop
  appends the assistant message of the response and then, call by call in the order of
  the response, the tool-result message of each call that returned, built from the id
  and the name of that call and its result; nothing else is appended. Whatever the
  outcome of the \<^verbatim>\<open>for\<close> loop, the results in the history are those of the
  first calls dispatched one after another, and there are N of them exactly when no call
  raised. When every call returns there are exactly N results and the next model call
  sees exactly that history. When a call raises after j calls that returned, exactly j
  results are in the history and the loop ends with the exception. In
  \<^verbatim>\<open>pensar\<close> with \<open>verbose\<close> a call that returns None counts as one that
  raises: the preview of its result fails before the result is appended.
\<close>

theorem resultados_en_orden:
  "(ejecutar_tool_calls P R C verbose (tool_calls response)
        (agregar (create_assistant_message_with_tools C response) ag) w = (r, ag', w') \<longrightarrow>
      (\<exists>resultados w1.
          resultados_de P R (take (length resultados) (tool_calls response)) w
            = Some (resultados, w1)
        \<and> length resultados \<le> length (tool_calls response)
        \<and> (r = Inr () \<longleftrightarrow> length resultados = length (tool_calls response))
        \<and> ag' = ag\<lparr>messages := messages ag @ create_assistant_message_with_tools C response
                                  # mensajes_resultado C (tool_calls response) resultados\<rparr>
        \<and> (r = Inr () \<longrightarrow> w' = w1)
        \<and> (\<forall>e. r = Inl e \<longrightarrow>
              ejecutar_herramienta P R (tc_name (tool_calls response ! length resultados))
                (tc_arguments (tool_calls response ! length resultados)) w1 = (Inl e, w')
            \<or> (verbose \<and> e = TypeError
                \<and> ejecutar_herramienta P R (tc_name (tool_calls response ! length resultados))
                    (tc_arguments (tool_calls response ! length resultados)) w1
                    = (Inr None, w')))))
   \<and> (resultados_de P R (tool_calls response) w = Some (rs, w2)
        \<and> \<not> (verbose \<and> None \<in> set rs) \<longrightarrow>
        length rs = length (tool_calls response)
      \<and> ejecutar_tool_calls P R C verbose (tool_calls response)
          (agregar (create_assistant_message_with_tools C response) ag) w
          = (Inr (),
             ag\<lparr>messages := messages ag @ create_assistant_message_with_tools C response
                               # mensajes_resultado C (tool_calls response) rs\<rparr>, w2)
      \<and> (chat_with_tools C (messages ag) (tools ag) (model ag) w0 = (Inr response, w)
           \<and> tool_calls response \<noteq> [] \<longrightarrow>
         bucle_pensar P R C verbose ag w0
           = bucle_pensar P R C verbose
               (ag\<lparr>messages := messages ag @ create_assistant_message_with_tools C response
                                 # mensajes_resultado C (tool_calls response) rs\<rparr>) w2))
   \<and> (tool_calls response = antes @ tc # resto
        \<and> resultados_de P R antes w = Some (rj, wj) \<and> \<not> (verbose \<and> None \<in> set rj)
        \<and> ejecutar_herramienta P R (tc_name tc) (tc_arguments tc) wj = (Inl e, wx) \<longrightarrow>
        length rj = length antes
      \<and> ejecutar_tool_calls P R C verbose (tool_calls response)
          (agregar (create_assistant_message_with_tools C response) ag) w
          = (Inl e,
             ag\<lparr>messages := messages ag @ create_assistant_message_with_tools C response
                               # mensajes_resultado C antes rj\<rparr>, wx))
   \<and> (orq_ejecutar_tool_calls P R C verbose (tool_calls response)
        (orq_agregar (create_assistant_message_with_tools C response) orq) w
        = Some (r, orq', w') \<longrightarrow>
      (\<exists>resultados orq1 w1.
          orq_resultados_de P R C verbose (take (length resultados) (tool_calls response))
            (orq_agregar (create_assistant_message_with_tools C response) orq) w
            = Some (resultados, orq1, w1)
        \<and> length resultados \<le> length (tool_calls response)
        \<and> (r = Inr () \<longleftrightarrow> length resultados = length (tool_calls response))
        \<and> orq_messages orq' = orq_messages orq @ create_assistant_message_with_tools C response
                                  # mensajes_resultado C (tool_calls response) resultados
        \<and> (r = Inr () \<longrightarrow> w' = w1 \<and> orq' = orq1\<lparr>orq_messages := orq_messages orq'\<rparr>)
        \<and> (\<forall>e. r = Inl e \<longrightarrow>
              (\<exists>orq2. orq_ejecutar_tool_call P R C verbose
                         (tool_calls response ! length resultados) orq1 w1
                         = Some (Inl e, orq2, w')
                     \<and> orq' = orq2\<lparr>orq_messages := orq_messages orq'\<rparr>))))
   \<and> (orq_resultados_de P R C verbose (tool_calls response) orq w = Some (rs, orq2, w2) \<longrightarrow>
        length rs = length (tool_calls response)
      \<and> orq_ejecutar_tool_calls P R C verbose (tool_calls response)
          (orq_agregar (create_assistant_message_with_tools C response) orq) w
          = Some (Inr (),
                  orq2\<lparr>orq_messages := orq_messages orq @ create_assistant_message_with_tools C response
                                           # mensajes_resultado C (tool_calls response) rs\<rparr>, w2)
      \<and> (chat_with_tools C (orq_messages orq) TOOLS_DEFINITION (orq_model orq) w0
            = (Inr response, w)
           \<and> tool_calls response \<noteq> [] \<longrightarrow>
         bucle_procesar P R C verbose orq w0
           = bucle_procesar P R C verbose
               (orq2\<lparr>orq_messages := orq_messages orq @ create_assistant_message_with_tools C response
                                        # mensajes_resultado C (tool_calls response) rs\<rparr>) w2))
   \<and> (tool_calls response = antes @ tc # resto
        \<and> orq_resultados_de P R C verbose antes orq w = Some (rj, orqj, wj)
        \<and> orq_ejecutar_tool_call P R C verbose tc orqj wj = Some (Inl e, orqx, wx) \<longrightarrow>
        length rj = length antes
      \<and> orq_ejecutar_tool_calls P R C verbose (tool_calls response)
          (orq_agregar (create_assistant_message_with_tools C response) orq) w
          = Some (Inl e,
                  orqx\<lparr>orq_messages := orq_messages orq @ create_assistant_message_with_tools C response
                                           # mensajes_resultado C antes rj\<rparr>, wx))"
proof -
  let ?m = "create_assistant_message_with_tools C response"
  let ?a1 = "agregar ?m ag"
  let ?o1 = "orq_agregar ?m orq"
  have a1: "?a1\<lparr>messages := messages ?a1 @ xs\<rparr> = ag\<lparr>messages := messages ag @ ?m # xs\<rparr>" for xs
    by (simp add: agregar_def)
  have o1: "?o1 = orq\<lparr>orq_messages := orq_messages orq @ [?m]\<rparr>"
    by (simp add: orq_agregar_def)
  have c1: "\<exists>resultados w1.
          resultados_de P R (take (length resultados) (tool_calls response)) w
            = Some (resultados, w1)
        \<and> length resultados \<le> length (tool_calls response)
        \<and> (r = Inr () \<longleftrightarrow> length resultados = length (tool_calls response))
        \<and> ag' = ag\<lparr>messages := messages ag @ ?m
                                  # mensajes_resultado C (tool_calls response) resultados\<rparr>
        \<and> (r = Inr () \<longrightarrow> w' = w1)
        \<and> (\<forall>e. r = Inl e \<longrightarrow>
              ejecutar_herramienta P R (tc_name (tool_calls response ! length resultados))
                (tc_arguments (tool_calls response ! length resultados)) w1 = (Inl e, w')
            \<or> (verbose \<and> e = TypeError
                \<and> ejecutar_herramienta P R (tc_name (tool_calls response ! length resultados))
                    (tc_arguments (tool_calls response ! length resultados)) w1
                    = (Inr None, w')))"
    if "ejecutar_tool_calls P R C verbose (tool_calls response) ?a1 w = (r, ag', w')"
    using ejecutar_tool_calls_traza [OF that] unfolding a1 .
  have c2: "length rs = length (tool_calls response)
      \<and> ejecutar_tool_calls P R C verbose (tool_calls response) ?a1 w
          = (Inr (), ag\<lparr>messages := messages ag @ ?m
                               # mensajes_resultado C (tool_calls response) rs\<rparr>, w2)
      \<and> (chat_with_tools C (messages ag) (tools ag) (model ag) w0 = (Inr response, w)
           \<and> tool_calls response \<noteq> [] \<longrightarrow>
         bucle_pensar P R C verbose ag w0
           = bucle_pensar P R C verbose
               (ag\<lparr>messages := messages ag @ ?m
                                 # mensajes_resultado C (tool_calls response) rs\<rparr>) w2)"
    if h: "resultados_de P R (tool_calls response) w = Some (rs, w2)
        \<and> \<not> (verbose \<and> None \<in> set rs)"
  proof -
    note t = ejecutar_tool_calls_todas [OF conjunct1 [OF h] conjunct2 [OF h], of C ?a1, unfolded a1]
    have "bucle_pensar P R C verbose ag w0
           = bucle_pensar P R C verbose
               (ag\<lparr>messages := messages ag @ ?m
                                 # mensajes_resultado C (tool_calls response) rs\<rparr>) w2"
      if "chat_with_tools C (messages ag) (tools ag) (model ag) w0 = (Inr response, w)"
        and "tool_calls response \<noteq> []"
      unfolding bucle_pensar_paso [OF that] t by simp
    with t resultados_de_length [OF conjunct1 [OF h]] show ?thesis by blast
  qed
  have c3: "length rj = length antes
      \<and> ejecutar_tool_calls P R C verbose (tool_calls response) ?a1 w
          = (Inl e, ag\<lparr>messages := messages ag @ ?m # mensajes_resultado C antes rj\<rparr>, wx)"
    if h: "tool_calls response = antes @ tc # resto
        \<and> resultados_de P R antes w = Some (rj, wj) \<and> \<not> (verbose \<and> None \<in> set rj)
        \<and> ejecutar_herramienta P R (tc_name tc) (tc_arguments tc) wj = (Inl e, wx)"
  proof -
    from h have h1: "tool_calls response = antes @ tc # resto"
      and h2: "resultados_de P R antes w = Some (rj, wj)"
      and h3: "\<not> (verbose \<and> None \<in> set rj)"
      and h4: "ejecutar_herramienta P R (tc_name tc) (tc_arguments tc) wj = (Inl e, wx)"
      by blast+
    show ?thesis
      unfolding h1
      using ejecutar_tool_calls_falla_en [OF h2 h3 h4, of C resto ?a1, unfolded a1]
        resultados_de_length [OF h2]
      by simp
  qed
  have c4: "\<exists>resultados orq1 w1.
          orq_resultados_de P R C verbose (take (length resultados) (tool_calls response)) ?o1 w
            = Some (resultados, orq1, w1)
        \<and> length resultados \<le> length (tool_calls response)
        \<and> (r = Inr () \<longleftrightarrow> length resultados = length (tool_calls response))
        \<and> orq_messages orq' = orq_messages orq @ ?m
                                  # mensajes_resultado C (tool_calls response) resultados
        \<and> (r = Inr () \<longrightarrow> w' = w1 \<and> orq' = orq1\<lparr>orq_messages := orq_messages orq'\<rparr>)
        \<and> (\<forall>e. r = Inl e \<longrightarrow>
              (\<exists>orq2. orq_ejecutar_tool_call P R C verbose
                         (tool_calls response ! length resultados) orq1 w1
                         = Some (Inl e, orq2, w')
                     \<and> orq' = orq2\<lparr>orq_messages := orq_messages orq'\<rparr>))"
    if "orq_ejecutar_tool_calls P R C verbose (tool_calls response) ?o1 w = Some (r, orq', w')"
    using orq_ejecutar_tool_calls_traza [OF that] by simp
  have c5: "length rs = length (tool_calls response)
      \<and> orq_ejecutar_tool_calls P R C verbose (tool_calls response) ?o1 w
          = Some (Inr (),
                  orq2\<lparr>orq_messages := orq_messages orq @ ?m
                                           # mensajes_resultado C (tool_calls response) rs\<rparr>, w2)
      \<and> (chat_with_tools C (orq_messages orq) TOOLS_DEFINITION (orq_model orq) w0
            = (Inr response, w)
           \<and> tool_calls response \<noteq> [] \<longrightarrow>
         bucle_procesar P R C verbose orq w0
           = bucle_procesar P R C verbose
               (orq2\<lparr>orq_messages := orq_messages orq @ ?m
                                        # mensajes_resultado C (tool_calls response) rs\<rparr>) w2)"
    if h: "orq_resultados_de P R C verbose (tool_calls response) orq w = Some (rs, orq2, w2)"
  proof -
    have "orq_resultados_de P R C verbose (tool_calls response) ?o1 w
            = Some (rs, orq2\<lparr>orq_messages := orq_messages orq @ [?m]\<rparr>, w2)"
      unfolding o1 orq_resultados_de_mensajes by (simp add: h)
    from orq_ejecutar_tool_calls_todas [OF this]
    have t: "orq_ejecutar_tool_calls P R C verbose (tool_calls response) ?o1 w
          = Some (Inr (),
                  orq2\<lparr>orq_messages := orq_messages orq @ ?m
                                           # mensajes_resultado C (tool_calls response) rs\<rparr>, w2)"
      by simp
    have "bucle_procesar P R C verbose orq w0
           = bucle_procesar P R C verbose
               (orq2\<lparr>orq_messages := orq_messages orq @ ?m
                                        # mensajes_resultado C (tool_calls response) rs\<rparr>) w2"
      if "chat_with_tools C (orq_messages orq) TOOLS_DEFINITION (orq_model orq) w0 = (Inr response, w)"
        and "tool_calls response \<noteq> []"
      unfolding bucle_procesar_paso [OF that] t by simp
    with t orq_resultados_de_conserva [OF h] show ?thesis by blast
  qed
  have c6: "length rj = length antes
      \<and> orq_ejecutar_tool_calls P R C verbose (tool_calls response) ?o1 w
          = Some (Inl e,
                  orqx\<lparr>orq_messages := orq_messages orq @ ?m # mensajes_resultado C antes rj\<rparr>, wx)"
    if h: "tool_calls response = antes @ tc # resto
        \<and> orq_resultados_de P R C verbose antes orq w = Some (rj, orqj, wj)
        \<and> orq_ejecutar_tool_call P R C verbose tc orqj wj = Some (Inl e, orqx, wx)"
  proof -
    from h have h1: "tool_calls response = antes @ tc # resto"
      and h2: "orq_resultados_de P R C verbose antes orq w = Some (rj, orqj, wj)"
      and h3: "orq_ejecutar_tool_call P R C verbose tc orqj wj = Some (Inl e, orqx, wx)"
      by blast+
    have a: "orq_resultados_de P R C verbose antes ?o1 w
            = Some (rj, orqj\<lparr>orq_messages := orq_messages orq @ [?m]\<rparr>, wj)"
      unfolding o1 orq_resultados_de_mensajes by (simp add: h2)
    have b: "orq_ejecutar_tool_call P R C verbose tc
               (orqj\<lparr>orq_messages := orq_messages orq @ [?m]\<rparr>) wj
             = Some (Inl e, orqx\<lparr>orq_messages := orq_messages orq @ [?m]\<rparr>, wx)"
      unfolding orq_ejecutar_tool_call_mensajes by (simp add: h3)
    show ?thesis
      unfolding h1
      using orq_ejecutar_tool_calls_falla_en [OF a b, of resto] orq_resultados_de_conserva [OF h2]
      by simp
  qed
  show ?thesis
    by (intro conjI; rule impI; (erule c1 | erule c2 | erule c3 | erule c4 | erule c5 | erule c6))
qed

theorem resultados_en_orden_witness:
  "resultados_de pyrt_exacto reloj_ejemplo
       (tool_calls (respuesta_llamadas [llamada_suma, llamada_volar])) mundo_vacio
     = Some ([Some ''El resultado de 2 sumar 3 = 5'', Some (error_herramienta ''volar'')],
             mundo_vacio)
   \<and> ejecutar_tool_calls pyrt_exacto reloj_ejemplo cliente_ejemplo False
        (tool_calls (respuesta_llamadas [llamada_suma, llamada_volar]))
        (agregar (create_assistant_message_with_tools cliente_ejemplo
                    (respuesta_llamadas [llamada_suma, llamada_volar])) ExpertoCocinero_init)
        mundo_vacio
     = (Inr (),
        ExpertoCocinero_init
          \<lparr>messages := messages (ExpertoCocinero_init :: rat agente)
             @ [gemini_create_assistant_message_with_tools
                  (respuesta_llamadas [llamada_suma, llamada_volar]),
                gemini_create_tool_result_message ''c3''
                  (Some ''El resultado de 2 sumar 3 = 5'') ''calculadora'',
                gemini_create_tool_result_message ''c1''
                  (Some (error_herramienta ''volar'')) ''volar'']\<rparr>,
        mundo_vacio)
   \<and> tool_calls (respuesta_llamadas [llamada_suma, llamada_sin_b, llamada_volar])
       = [llamada_suma] @ llamada_sin_b # [llamada_volar]
   \<and> ejecutar_herramienta pyrt_exacto reloj_ejemplo (tc_name llamada_sin_b)
        (tc_arguments llamada_sin_b) mundo_vacio = (Inl TypeError, mundo_vacio)
   \<and> ejecutar_tool_calls pyrt_exacto reloj_ejemplo cliente_ejemplo False
        (tool_calls (respuesta_llamadas [llamada_suma, llamada_sin_b, llamada_volar]))
        (agregar (create_assistant_message_with_tools cliente_ejemplo
                    (respuesta_llamadas [llamada_suma, llamada_sin_b, llamada_volar]))
           ExpertoCocinero_init)
        mundo_vacio
     = (Inl TypeError,
        ExpertoCocinero_init
          \<lparr>messages := messages (ExpertoCocinero_init :: rat agente)
             @ [gemini_create_assistant_message_with_tools
                  (respuesta_llamadas [llamada_suma, llamada_sin_b, llamada_volar]),
                gemini_create_tool_result_message ''c3''
                  (Some ''El resultado de 2 sumar 3 = 5'') ''calculadora'']\<rparr>,
        mundo_vacio)
   \<and> orq_resultados_de pyrt_exacto reloj_ejemplo cliente_ejemplo False
        (tool_calls (respuesta_llamadas [llamada_suma, llamada_fisica]))
        (AgenteOrquestador_init None) mundo_vacio
     = Some ([Some ''El resultado de 2 sumar 3 = 5'',
              Some (''Error: no existe el experto '' @ [CHR 0x27] @ ''fisica'' @ [CHR 0x27])],
             AgenteOrquestador_init None, mundo_vacio)
   \<and> orq_ejecutar_tool_calls pyrt_exacto reloj_ejemplo cliente_ejemplo False
        (tool_calls (respuesta_llamadas [llamada_suma, llamada_fisica]))
        (orq_agregar (create_assistant_message_with_tools cliente_ejemplo
                        (respuesta_llamadas [llamada_suma, llamada_fisica]))
           (AgenteOrquestador_init None))
        mundo_vacio
     = Some (Inr (),
             AgenteOrquestador_init None
               \<lparr>orq_messages := orq_messages (AgenteOrquestador_init None :: rat orquestador)
                  @ [gemini_create_assistant_message_with_tools
                       (respuesta_llamadas [llamada_suma, llamada_fisica]),
                     gemini_create_tool_result_message ''c3''
                       (Some ''El resultado de 2 sumar 3 = 5'') ''calculadora'',
                     gemini_create_tool_result_message ''c6''
                       (Some (''Error: no existe el experto '' @ [CHR 0x27] @ ''fisica''
                              @ [CHR 0x27])) ''consultar_agente_experto'']\<rparr>,
             mundo_vacio)"
proof -
  let ?r2 = "respuesta_llamadas [llamada_suma, llamada_volar]"
  let ?r3 = "respuesta_llamadas [llamada_suma, llamada_sin_b, llamada_volar]"
  let ?r4 = "respuesta_llamadas [llamada_suma, llamada_fisica]"
  let ?s = "Some ''El resultado de 2 sumar 3 = 5''"
  let ?v = "Some (error_herramienta ''volar'')"
  let ?f = "Some (''Error: no existe el experto '' @ [CHR 0x27] @ ''fisica'' @ [CHR 0x27])"
  let ?o = "AgenteOrquestador_init None :: rat orquestador"
  have t2: "tool_calls ?r2 = [llamada_suma, llamada_volar]"
    and t3: "tool_calls ?r3 = [llamada_suma] @ llamada_sin_b # [llamada_volar]"
    and t4: "tool_calls ?r4 = [llamada_suma, llamada_fisica]"
    by (simp_all add: respuesta_llamadas_def)
  have n: "tc_id llamada_suma = ''c3''" "tc_name llamada_suma = ''calculadora''"
    "tc_id llamada_volar = ''c1''" "tc_name llamada_volar = ''volar''"
    "tc_name llamada_sin_b = ''calculadora''"
    "tc_id llamada_fisica = ''c6''" "tc_name llamada_fisica = ''consultar_agente_experto''"
    by (simp_all add: llamada_suma_def llamada_volar_def llamada_sin_b_def llamada_fisica_def)
  have g: "create_assistant_message_with_tools cliente_ejemplo
             = gemini_create_assistant_message_with_tools"
    "create_tool_result_message cliente_ejemplo = gemini_create_tool_result_message"
    by (simp_all add: cliente_ejemplo_def cliente_guion_def)
  have h2: "resultados_de pyrt_exacto reloj_ejemplo (tool_calls ?r2) mundo_vacio
              = Some ([?s, ?v], mundo_vacio)"
    unfolding t2 by (simp add: n ejecutar_suma_ejemplo ejecutar_volar_ejemplo)
  have h3: "resultados_de pyrt_exacto reloj_ejemplo [llamada_suma] mundo_vacio
              = Some ([?s], mundo_vacio)"
    by (simp add: n ejecutar_suma_ejemplo)
  have e3: "ejecutar_herramienta pyrt_exacto reloj_ejemplo (tc_name llamada_sin_b)
              (tc_arguments llamada_sin_b) mundo_vacio = (Inl TypeError, mundo_vacio)"
    by (simp add: n ejecutar_sin_b_ejemplo)
  have nv2: "\<not> (False \<and> None \<in> set [?s, ?v])" and nv3: "\<not> (False \<and> None \<in> set [?s])"
    by simp_all
  have c1: "orq_ejecutar_tool_call pyrt_exacto reloj_ejemplo cliente_ejemplo False llamada_suma
              ?o mundo_vacio = Some (Inr ?s, ?o, mundo_vacio)"
    by (simp add: orq_ejecutar_tool_call_def n ejecutar_suma_ejemplo)
  have a1: "map_of (tc_arguments llamada_fisica) ''tipo_experto'' = Some (PStr ''fisica'')"
    and a2: "map_of (tc_arguments llamada_fisica) ''consulta'' = Some (PStr ''e=mc2'')"
    by (simp_all add: llamada_fisica_def)
  have x: "expertos ?o ''fisica'' = None"
    by (simp add: expertos_init)
  have c2: "orq_ejecutar_tool_call pyrt_exacto reloj_ejemplo cliente_ejemplo False llamada_fisica
              ?o mundo_vacio = Some (Inr ?f, ?o, mundo_vacio)"
    by (simp only: orq_ejecutar_tool_call_delegar [OF n(7) a1 a2] consultar_experto_no_existe [OF x])
  have h4: "orq_resultados_de pyrt_exacto reloj_ejemplo cliente_ejemplo False (tool_calls ?r4)
              ?o mundo_vacio = Some ([?s, ?f], ?o, mundo_vacio)"
    unfolding t4
    by (simp only: orq_resultados_de.simps c1 c2 option.case prod.case sum.case)
  note t = resultados_en_orden [where P = pyrt_exacto and R = reloj_ejemplo
      and C = cliente_ejemplo and verbose = False and w = mundo_vacio
      and ag = ExpertoCocinero_init and orq = ?o]
  have 1: "ejecutar_tool_calls pyrt_exacto reloj_ejemplo cliente_ejemplo False (tool_calls ?r2)
        (agregar (create_assistant_message_with_tools cliente_ejemplo ?r2) ExpertoCocinero_init)
        mundo_vacio
     = (Inr (),
        ExpertoCocinero_init
          \<lparr>messages := messages (ExpertoCocinero_init :: rat agente)
             @ [gemini_create_assistant_message_with_tools ?r2,
                gemini_create_tool_result_message ''c3'' ?s ''calculadora'',
                gemini_create_tool_result_message ''c1'' ?v ''volar'']\<rparr>,
        mundo_vacio)"
    using t [where response = ?r2 and rs = "[?s, ?v]" and ?w2.0 = mundo_vacio,
             THEN conjunct2, THEN conjunct1, rule_format, OF conjI [OF h2 nv2],
             THEN conjunct2, THEN conjunct1]
    by (simp add: t2 g n)
  have 2: "ejecutar_tool_calls pyrt_exacto reloj_ejemplo cliente_ejemplo False (tool_calls ?r3)
        (agregar (create_assistant_message_with_tools cliente_ejemplo ?r3) ExpertoCocinero_init)
        mundo_vacio
     = (Inl TypeError,
        ExpertoCocinero_init
          \<lparr>messages := messages (ExpertoCocinero_init :: rat agente)
             @ [gemini_create_assistant_message_with_tools ?r3,
                gemini_create_tool_result_message ''c3'' ?s ''calculadora'']\<rparr>,
        mundo_vacio)"
    using t [where response = ?r3 and antes = "[llamada_suma]" and tc = llamada_sin_b
               and resto = "[llamada_volar]" and rj = "[?s]" and wj = mundo_vacio
               and e = TypeError and wx = mundo_vacio,
             THEN conjunct2, THEN conjunct2, THEN conjunct1, rule_format,
             OF conjI [OF t3 conjI [OF h3 conjI [OF nv3 e3]]], THEN conjunct2]
    by (simp add: g n)
  have 3: "orq_ejecutar_tool_calls pyrt_exacto reloj_ejemplo cliente_ejemplo False (tool_calls ?r4)
        (orq_agregar (create_assistant_message_with_tools cliente_ejemplo ?r4) ?o) mundo_vacio
     = Some (Inr (),
             ?o\<lparr>orq_messages := orq_messages ?o
                  @ [gemini_create_assistant_message_with_tools ?r4,
                     gemini_create_tool_result_message ''c3'' ?s ''calculadora'',
                     gemini_create_tool_result_message ''c6'' ?f ''consultar_agente_experto'']\<rparr>,
             mundo_vacio)"
    using t [where response = ?r4 and rs = "[?s, ?f]" and ?orq2.0 = ?o and ?w2.0 = mundo_vacio,
             THEN conjunct2, THEN conjunct2, THEN conjunct2, THEN conjunct2, THEN conjunct1,
             rule_format, OF h4, THEN conjunct2, THEN conjunct1]
    by (simp add: t4 g n)
  from h2 1 t3 e3 2 h4 3 show ?thesis by (intro conjI)
qed

text \<open>
  C2 as it is written fails when a call raises: the response below carries two tool
  calls, the first without the argument \<open>b\<close>. The dispatcher raises TypeError for it,
  the loop ends, and the history holds the assistant message of the turn and no
  tool-result message at all, in \<^verbatim>\<open>pensar\<close> and in \<^verbatim>\<open>procesar\<close>
  alike.
\<close>

theorem resultados_en_orden_counterexample:
  "length (tool_calls (respuesta_llamadas [llamada_sin_b, llamada_suma])) = 2
   \<and> pensar_con_herramientas pyrt_exacto reloj_ejemplo cliente_ejemplo ExpertoCocinero_init
        (PStr ''suma'') False
        (mundo_inicial [respuesta_llamadas [llamada_sin_b, llamada_suma], respuesta_final ''listo''])
     = Some (Inl TypeError,
             ExpertoCocinero_init
               \<lparr>messages := messages (ExpertoCocinero_init :: rat agente)
                  @ [mensaje_de ''user'' (PStr ''suma''),
                     gemini_create_assistant_message_with_tools
                       (respuesta_llamadas [llamada_sin_b, llamada_suma])]\<rparr>,
             \<lparr>guion = [respuesta_final ''listo''], llamadas = 1, llamadas_chat = 0\<rparr>)
   \<and> procesar pyrt_exacto reloj_ejemplo cliente_ejemplo (AgenteOrquestador_init None)
        ''suma'' False
        (mundo_inicial [respuesta_llamadas [llamada_sin_b, llamada_suma], respuesta_final ''listo''])
     = Some (Inl TypeError,
             AgenteOrquestador_init None
               \<lparr>orq_messages := orq_messages (AgenteOrquestador_init None :: rat orquestador)
                  @ [mensaje_de ''user'' (PStr ''suma''),
                     gemini_create_assistant_message_with_tools
                       (respuesta_llamadas [llamada_sin_b, llamada_suma])]\<rparr>,
             \<lparr>guion = [respuesta_final ''listo''], llamadas = 1, llamadas_chat = 0\<rparr>)"
proof -
  let ?r = "respuesta_llamadas [llamada_sin_b, llamada_suma]"
  let ?w = "mundo_inicial [?r, respuesta_final ''listo''] :: rat mundo_guion"
  let ?w1 = "\<lparr>guion = [respuesta_final ''listo''], llamadas = 1, llamadas_chat = 0\<rparr> :: rat mundo_guion"
  let ?a = "agregar (mensaje_de ''user'' (PStr ''suma'')) (ExpertoCocinero_init :: rat agente)"
  let ?o = "orq_agregar (mensaje_de ''user'' (PStr ''suma''))
              (AgenteOrquestador_init None :: rat orquestador)"
  have l: "tool_calls ?r = [llamada_sin_b, llamada_suma]" and t: "tool_calls ?r \<noteq> []"
    by (simp_all add: respuesta_llamadas_def)
  have n: "tc_name llamada_sin_b = ''calculadora''"
    by (simp add: llamada_sin_b_def)
  have g: "create_assistant_message_with_tools cliente_ejemplo
             = gemini_create_assistant_message_with_tools"
    by (simp add: cliente_ejemplo_def cliente_guion_def)
  have h: "tools ?a \<noteq> []"
    by (simp add: ExpertoCocinero_init_def AgenteConHerramientas_init_def AgenteBase_init_def
                  TOOLS_COCINERO_def agregar_def)
  have c1: "chat_with_tools cliente_ejemplo (messages ?a) (tools ?a) (model ?a) ?w = (Inr ?r, ?w1)"
    by (simp add: cliente_ejemplo_def cliente_guion_def mundo_inicial_def)
  have c2: "chat_with_tools cliente_ejemplo (orq_messages ?o) TOOLS_DEFINITION (orq_model ?o) ?w
              = (Inr ?r, ?w1)"
    by (simp add: cliente_ejemplo_def cliente_guion_def mundo_inicial_def)
  have 1: "pensar_con_herramientas pyrt_exacto reloj_ejemplo cliente_ejemplo ExpertoCocinero_init
        (PStr ''suma'') False ?w
     = Some (Inl TypeError,
             ExpertoCocinero_init
               \<lparr>messages := messages (ExpertoCocinero_init :: rat agente)
                  @ [mensaje_de ''user'' (PStr ''suma''),
                     gemini_create_assistant_message_with_tools ?r]\<rparr>, ?w1)"
    unfolding pensar_con_herramientas_def Let_def bucle_pensar_paso [OF c1 t] l
    using h by (simp add: n ejecutar_sin_b_ejemplo g agregar_def)
  have 2: "procesar pyrt_exacto reloj_ejemplo cliente_ejemplo (AgenteOrquestador_init None)
        ''suma'' False ?w
     = Some (Inl TypeError,
             AgenteOrquestador_init None
               \<lparr>orq_messages := orq_messages (AgenteOrquestador_init None :: rat orquestador)
                  @ [mensaje_de ''user'' (PStr ''suma''),
                     gemini_create_assistant_message_with_tools ?r]\<rparr>, ?w1)"
    unfolding procesar_def bucle_procesar_paso [OF c2 t] l
    by (simp add: n ejecutar_sin_b_ejemplo g orq_agregar_def orq_ejecutar_tool_call_def)
  from l 1 2 show ?thesis by (intro conjI) simp_all
qed

section \<open>Final and acting responses, call by call\<close>

lemma bucle_pensar_todas:
  assumes "chat_with_tools C (messages ag) (tools ag) (model ag) w = (Inr response, w')"
    and "tool_calls response \<noteq> []"
    and "resultados_de P R (tool_calls response) w' = Some (rs, w2)"
    and "\<not> (verbose \<and> None \<in> set rs)"
  shows "bucle_pensar P R C verbose ag w
           = bucle_pensar P R C verbose
               (ag\<lparr>messages := messages ag @ create_assistant_message_with_tools C response
                                 # mensajes_resultado C (tool_calls response) rs\<rparr>) w2"
  unfolding bucle_pensar_paso [OF assms(1,2)] ejecutar_tool_calls_todas [OF assms(3,4)]
  by (simp add: agregar_def)

lemma bucle_pensar_falla_en:
  assumes "chat_with_tools C (messages ag) (tools ag) (model ag) w = (Inr response, w')"
    and "tool_calls response = antes @ tc # resto"
    and "resultados_de P R antes w' = Some (rj, wj)"
    and "\<not> (verbose \<and> None \<in> set rj)"
    and "ejecutar_herramienta P R (tc_name tc) (tc_arguments tc) wj = (Inl e, wx)"
  shows "bucle_pensar P R C verbose ag w
           = Some (Inl e,
                   ag\<lparr>messages := messages ag @ create_assistant_message_with_tools C response
                                     # mensajes_resultado C antes rj\<rparr>, wx)"
proof -
  have t: "tool_calls response \<noteq> []" using assms(2) by simp
  show ?thesis
    unfolding bucle_pensar_paso [OF assms(1) t]
    unfolding assms(2) ejecutar_tool_calls_falla_en [OF assms(3,4,5)]
    by (simp add: agregar_def)
qed

lemma bucle_procesar_todas:
  assumes "chat_with_tools C (orq_messages orq) TOOLS_DEFINITION (orq_model orq) w = (Inr response, w')"
    and "tool_calls response \<noteq> []"
    and "orq_resultados_de P R C verbose (tool_calls response) orq w' = Some (rs, orq2, w2)"
  shows "bucle_procesar P R C verbose orq w
           = bucle_procesar P R C verbose
               (orq2\<lparr>orq_messages := orq_messages orq @ create_assistant_message_with_tools C response
                                        # mensajes_resultado C (tool_calls response) rs\<rparr>) w2"
proof -
  let ?m = "create_assistant_message_with_tools C response"
  have o1: "orq_agregar ?m orq = orq\<lparr>orq_messages := orq_messages orq @ [?m]\<rparr>"
    by (simp add: orq_agregar_def)
  have "orq_resultados_de P R C verbose (tool_calls response) (orq_agregar ?m orq) w'
          = Some (rs, orq2\<lparr>orq_messages := orq_messages orq @ [?m]\<rparr>, w2)"
    unfolding o1 orq_resultados_de_mensajes by (simp add: assms(3))
  from orq_ejecutar_tool_calls_todas [OF this] show ?thesis
    unfolding bucle_procesar_paso [OF assms(1,2)] by simp
qed

lemma bucle_procesar_falla_en:
  assumes "chat_with_tools C (orq_messages orq) TOOLS_DEFINITION (orq_model orq) w = (Inr response, w')"
    and "tool_calls response = antes @ tc # resto"
    and "orq_resultados_de P R C verbose antes orq w' = Some (rj, orqj, wj)"
    and "orq_ejecutar_tool_call P R C verbose tc orqj wj = Some (Inl e, orqx, wx)"
  shows "bucle_procesar P R C verbose orq w
           = Some (Inl e,
                   orqx\<lparr>orq_messages := orq_messages orq @ create_assistant_message_with_tools C response
                                            # mensajes_resultado C antes rj\<rparr>, wx)"
proof -
  let ?m = "create_assistant_message_with_tools C response"
  have t: "tool_calls response \<noteq> []" using assms(2) by simp
  have o1: "orq_agregar ?m orq = orq\<lparr>orq_messages := orq_messages orq @ [?m]\<rparr>"
    by (simp add: orq_agregar_def)
  have a: "orq_resultados_de P R C verbose antes (orq_agregar ?m orq) w'
            = Some (rj, orqj\<lparr>orq_messages := orq_messages orq @ [?m]\<rparr>, wj)"
    unfolding o1 orq_resultados_de_mensajes by (simp add: assms(3))
  have b: "orq_ejecutar_tool_call P R C verbose tc
               (orqj\<lparr>orq_messages := orq_messages orq @ [?m]\<rparr>) wj
             = Some (Inl e, orqx\<lparr>orq_messages := orq_messages orq @ [?m]\<rparr>, wx)"
    unfolding orq_ejecutar_tool_call_mensajes by (simp add: assms(4))
  show ?thesis
    unfolding bucle_procesar_paso [OF assms(1) t]
    unfolding assms(2) orq_ejecutar_tool_calls_falla_en [OF a b]
    by simp
qed

text \<open>
  C7, as the code has it. What a loop does with a response depends on its tool calls
  only. Without tool calls the loop ends at once: it appends the content as an assistant
  message and returns it, in the world right after the model call. With at least one
  tool call it appends the assistant message of the response and dispatches the calls in
  order. When every call returns, it asks the model again, with a history that holds the
  old history, the assistant message of the response and the tool results, and no
  assistant text message; when that next response has no tool calls, its content is what
  the loop returns. When a call raises, the calls before it having returned, the loop
  ends with the exception and the model is not asked again (in \<^verbatim>\<open>pensar\<close>
  with \<open>verbose\<close> a call that returns None counts as one that raises, at the
  preview). The content of a response with tool calls plays no part: the loop does
  the same for a response that differs in the content only (the encoder of the assistant
  message permitting).
\<close>

theorem final_sii_sin_tool_calls:
  "(chat_with_tools C (messages ag) (tools ag) (model ag) w = (Inr response, w') \<longrightarrow>
      (tool_calls response = [] \<longrightarrow>
         bucle_pensar P R C verbose ag w
           = Some (Inr (content response),
                   agregar (mensaje_de ''assistant'' (opcional (content response))) ag, w'))
    \<and> (tool_calls response \<noteq> [] \<longrightarrow>
         (resultados_de P R (tool_calls response) w' = Some (rs, w2)
            \<and> \<not> (verbose \<and> None \<in> set rs) \<longrightarrow>
            bucle_pensar P R C verbose ag w
              = bucle_pensar P R C verbose
                  (ag\<lparr>messages := messages ag @ create_assistant_message_with_tools C response
                                    # mensajes_resultado C (tool_calls response) rs\<rparr>) w2
          \<and> (chat_with_tools C
                 (messages ag @ create_assistant_message_with_tools C response
                    # mensajes_resultado C (tool_calls response) rs)
                 (tools ag) (model ag) w2 = (Inr response2, w3)
               \<and> tool_calls response2 = [] \<longrightarrow>
              bucle_pensar P R C verbose ag w
                = Some (Inr (content response2),
                        ag\<lparr>messages := messages ag @ create_assistant_message_with_tools C response
                                          # mensajes_resultado C (tool_calls response) rs
                                          @ [mensaje_de ''assistant'' (opcional (content response2))]\<rparr>,
                        w3)))
       \<and> (tool_calls response = antes @ tc # resto
            \<and> resultados_de P R antes w' = Some (rj, wj) \<and> \<not> (verbose \<and> None \<in> set rj)
            \<and> ejecutar_herramienta P R (tc_name tc) (tc_arguments tc) wj = (Inl e, wx) \<longrightarrow>
            bucle_pensar P R C verbose ag w
              = Some (Inl e,
                      ag\<lparr>messages := messages ag @ create_assistant_message_with_tools C response
                                        # mensajes_resultado C antes rj\<rparr>, wx))
       \<and> bucle_pensar P R C verbose ag w
           = (case ejecutar_tool_calls P R C verbose (tool_calls response)
                     (agregar (create_assistant_message_with_tools C response) ag) w' of
                (Inl e, ag', w'') \<Rightarrow> Some (Inl e, ag', w'')
              | (Inr u, ag', w'') \<Rightarrow> bucle_pensar P R C verbose ag' w'')
       \<and> (bucle_pensar P R C verbose ag w = Some (r, ag1, w1) \<longrightarrow>
            prefix (messages ag @ [create_assistant_message_with_tools C response]) (messages ag1))
       \<and> (chat_with_tools C (messages ag) (tools ag) (model ag) v
              = (Inr (response\<lparr>content := c\<rparr>), w')
            \<and> create_assistant_message_with_tools C (response\<lparr>content := c\<rparr>)
                = create_assistant_message_with_tools C response \<longrightarrow>
            bucle_pensar P R C verbose ag v = bucle_pensar P R C verbose ag w)))
   \<and> (chat_with_tools C (orq_messages orq) TOOLS_DEFINITION (orq_model orq) w
        = (Inr response, w') \<longrightarrow>
      (tool_calls response = [] \<longrightarrow>
         bucle_procesar P R C verbose orq w
           = Some (Inr (content response),
                   orq_agregar (mensaje_de ''assistant'' (opcional (content response))) orq, w'))
    \<and> (tool_calls response \<noteq> [] \<longrightarrow>
         (orq_resultados_de P R C verbose (tool_calls response) orq w' = Some (rs, orq2, w2) \<longrightarrow>
            bucle_procesar P R C verbose orq w
              = bucle_procesar P R C verbose
                  (orq2\<lparr>orq_messages := orq_messages orq @ create_assistant_message_with_tools C response
                                           # mensajes_resultado C (tool_calls response) rs\<rparr>) w2
          \<and> (chat_with_tools C
                 (orq_messages orq @ create_assistant_message_with_tools C response
                    # mensajes_resultado C (tool_calls response) rs)
                 TOOLS_DEFINITION (orq_model orq2) w2 = (Inr response2, w3)
               \<and> tool_calls response2 = [] \<longrightarrow>
              bucle_procesar P R C verbose orq w
                = Some (Inr (content response2),
                        orq2\<lparr>orq_messages := orq_messages orq @ create_assistant_message_with_tools C response
                                                 # mensajes_resultado C (tool_calls response) rs
                                                 @ [mensaje_de ''assistant'' (opcional (content response2))]\<rparr>,
                        w3)))
       \<and> (tool_calls response = antes @ tc # resto
            \<and> orq_resultados_de P R C verbose antes orq w' = Some (rj, orqj, wj)
            \<and> orq_ejecutar_tool_call P R C verbose tc orqj wj = Some (Inl e, orqx, wx) \<longrightarrow>
            bucle_procesar P R C verbose orq w
              = Some (Inl e,
                      orqx\<lparr>orq_messages := orq_messages orq @ create_assistant_message_with_tools C response
                                               # mensajes_resultado C antes rj\<rparr>, wx))
       \<and> bucle_procesar P R C verbose orq w
           = (case orq_ejecutar_tool_calls P R C verbose (tool_calls response)
                     (orq_agregar (create_assistant_message_with_tools C response) orq) w' of
                None \<Rightarrow> None
              | Some (Inl e, orq', w'') \<Rightarrow> Some (Inl e, orq', w'')
              | Some (Inr u, orq', w'') \<Rightarrow> bucle_procesar P R C verbose orq' w'')
       \<and> (bucle_procesar P R C verbose orq w = Some (r, orq1, w1) \<longrightarrow>
            prefix (orq_messages orq @ [create_assistant_message_with_tools C response])
              (orq_messages orq1))
       \<and> (chat_with_tools C (orq_messages orq) TOOLS_DEFINITION (orq_model orq) v
              = (Inr (response\<lparr>content := c\<rparr>), w')
            \<and> create_assistant_message_with_tools C (response\<lparr>content := c\<rparr>)
                = create_assistant_message_with_tools C response \<longrightarrow>
            bucle_procesar P R C verbose orq v = bucle_procesar P R C verbose orq w)))"
proof -
  let ?m = "create_assistant_message_with_tools C response"
  have p: "(tool_calls response = [] \<longrightarrow>
         bucle_pensar P R C verbose ag w
           = Some (Inr (content response),
                   agregar (mensaje_de ''assistant'' (opcional (content response))) ag, w'))
    \<and> (tool_calls response \<noteq> [] \<longrightarrow>
         (resultados_de P R (tool_calls response) w' = Some (rs, w2)
            \<and> \<not> (verbose \<and> None \<in> set rs) \<longrightarrow>
            bucle_pensar P R C verbose ag w
              = bucle_pensar P R C verbose
                  (ag\<lparr>messages := messages ag @ ?m
                                    # mensajes_resultado C (tool_calls response) rs\<rparr>) w2
          \<and> (chat_with_tools C
                 (messages ag @ ?m # mensajes_resultado C (tool_calls response) rs)
                 (tools ag) (model ag) w2 = (Inr response2, w3)
               \<and> tool_calls response2 = [] \<longrightarrow>
              bucle_pensar P R C verbose ag w
                = Some (Inr (content response2),
                        ag\<lparr>messages := messages ag @ ?m
                                          # mensajes_resultado C (tool_calls response) rs
                                          @ [mensaje_de ''assistant'' (opcional (content response2))]\<rparr>,
                        w3)))
       \<and> (tool_calls response = antes @ tc # resto
            \<and> resultados_de P R antes w' = Some (rj, wj) \<and> \<not> (verbose \<and> None \<in> set rj)
            \<and> ejecutar_herramienta P R (tc_name tc) (tc_arguments tc) wj = (Inl e, wx) \<longrightarrow>
            bucle_pensar P R C verbose ag w
              = Some (Inl e,
                      ag\<lparr>messages := messages ag @ ?m # mensajes_resultado C antes rj\<rparr>, wx))
       \<and> bucle_pensar P R C verbose ag w
           = (case ejecutar_tool_calls P R C verbose (tool_calls response) (agregar ?m ag) w' of
                (Inl e, ag', w'') \<Rightarrow> Some (Inl e, ag', w'')
              | (Inr u, ag', w'') \<Rightarrow> bucle_pensar P R C verbose ag' w'')
       \<and> (bucle_pensar P R C verbose ag w = Some (r, ag1, w1) \<longrightarrow>
            prefix (messages ag @ [?m]) (messages ag1))
       \<and> (chat_with_tools C (messages ag) (tools ag) (model ag) v
              = (Inr (response\<lparr>content := c\<rparr>), w')
            \<and> create_assistant_message_with_tools C (response\<lparr>content := c\<rparr>) = ?m \<longrightarrow>
            bucle_pensar P R C verbose ag v = bucle_pensar P R C verbose ag w))"
    if ch: "chat_with_tools C (messages ag) (tools ag) (model ag) w = (Inr response, w')"
  proof (intro conjI impI)
    assume "tool_calls response = []"
    then show "bucle_pensar P R C verbose ag w
           = Some (Inr (content response),
                   agregar (mensaje_de ''assistant'' (opcional (content response))) ag, w')"
      by (rule bucle_pensar_final [OF ch])
  next
    assume t: "tool_calls response \<noteq> []"
      and h: "resultados_de P R (tool_calls response) w' = Some (rs, w2)
            \<and> \<not> (verbose \<and> None \<in> set rs)"
    let ?ag2 = "ag\<lparr>messages := messages ag @ ?m # mensajes_resultado C (tool_calls response) rs\<rparr>"
    show a: "bucle_pensar P R C verbose ag w = bucle_pensar P R C verbose ?ag2 w2"
      by (rule bucle_pensar_todas [OF ch t conjunct1 [OF h] conjunct2 [OF h]])
    assume f: "chat_with_tools C
                 (messages ag @ ?m # mensajes_resultado C (tool_calls response) rs)
                 (tools ag) (model ag) w2 = (Inr response2, w3)
               \<and> tool_calls response2 = []"
    have "chat_with_tools C (messages ?ag2) (tools ?ag2) (model ?ag2) w2 = (Inr response2, w3)"
      using f by simp
    from bucle_pensar_final [OF this conjunct2 [OF f], of P R verbose]
    show "bucle_pensar P R C verbose ag w
                = Some (Inr (content response2),
                        ag\<lparr>messages := messages ag @ ?m
                                          # mensajes_resultado C (tool_calls response) rs
                                          @ [mensaje_de ''assistant'' (opcional (content response2))]\<rparr>,
                        w3)"
      unfolding a by (simp add: agregar_def)
  next
    assume "tool_calls response \<noteq> []"
      and h: "tool_calls response = antes @ tc # resto
            \<and> resultados_de P R antes w' = Some (rj, wj) \<and> \<not> (verbose \<and> None \<in> set rj)
            \<and> ejecutar_herramienta P R (tc_name tc) (tc_arguments tc) wj = (Inl e, wx)"
    from h have h1: "tool_calls response = antes @ tc # resto"
      and h2: "resultados_de P R antes w' = Some (rj, wj)"
      and h3: "\<not> (verbose \<and> None \<in> set rj)"
      and h4: "ejecutar_herramienta P R (tc_name tc) (tc_arguments tc) wj = (Inl e, wx)"
      by blast+
    show "bucle_pensar P R C verbose ag w
              = Some (Inl e,
                      ag\<lparr>messages := messages ag @ ?m # mensajes_resultado C antes rj\<rparr>, wx)"
      by (rule bucle_pensar_falla_en [OF ch h1 h2 h3 h4])
  next
    assume t: "tool_calls response \<noteq> []"
    show "bucle_pensar P R C verbose ag w
           = (case ejecutar_tool_calls P R C verbose (tool_calls response) (agregar ?m ag) w' of
                (Inl e, ag', w'') \<Rightarrow> Some (Inl e, ag', w'')
              | (Inr u, ag', w'') \<Rightarrow> bucle_pensar P R C verbose ag' w'')"
      by (rule bucle_pensar_paso [OF ch t])
  next
    assume t: "tool_calls response \<noteq> []"
      and "bucle_pensar P R C verbose ag w = Some (r, ag1, w1)"
    then show "prefix (messages ag @ [?m]) (messages ag1)"
      by (rule bucle_pensar_prefijo [OF ch])
  next
    assume t: "tool_calls response \<noteq> []"
      and h: "chat_with_tools C (messages ag) (tools ag) (model ag) v
              = (Inr (response\<lparr>content := c\<rparr>), w')
            \<and> create_assistant_message_with_tools C (response\<lparr>content := c\<rparr>) = ?m"
    show "bucle_pensar P R C verbose ag v = bucle_pensar P R C verbose ag w"
      using t h by (simp add: bucle_pensar_paso [OF ch t] bucle_pensar_paso [OF conjunct1 [OF h]])
  qed
  have q: "(tool_calls response = [] \<longrightarrow>
         bucle_procesar P R C verbose orq w
           = Some (Inr (content response),
                   orq_agregar (mensaje_de ''assistant'' (opcional (content response))) orq, w'))
    \<and> (tool_calls response \<noteq> [] \<longrightarrow>
         (orq_resultados_de P R C verbose (tool_calls response) orq w' = Some (rs, orq2, w2) \<longrightarrow>
            bucle_procesar P R C verbose orq w
              = bucle_procesar P R C verbose
                  (orq2\<lparr>orq_messages := orq_messages orq @ ?m
                                           # mensajes_resultado C (tool_calls response) rs\<rparr>) w2
          \<and> (chat_with_tools C
                 (orq_messages orq @ ?m # mensajes_resultado C (tool_calls response) rs)
                 TOOLS_DEFINITION (orq_model orq2) w2 = (Inr response2, w3)
               \<and> tool_calls response2 = [] \<longrightarrow>
              bucle_procesar P R C verbose orq w
                = Some (Inr (content response2),
                        orq2\<lparr>orq_messages := orq_messages orq @ ?m
                                                 # mensajes_resultado C (tool_calls response) rs
                                                 @ [mensaje_de ''assistant'' (opcional (content response2))]\<rparr>,
                        w3)))
       \<and> (tool_calls response = antes @ tc # resto
            \<and> orq_resultados_de P R C verbose antes orq w' = Some (rj, orqj, wj)
            \<and> orq_ejecutar_tool_call P R C verbose tc orqj wj = Some (Inl e, orqx, wx) \<longrightarrow>
            bucle_procesar P R C verbose orq w
              = Some (Inl e,
                      orqx\<lparr>orq_messages := orq_messages orq @ ?m
                                               # mensajes_resultado C antes rj\<rparr>, wx))
       \<and> bucle_procesar P R C verbose orq w
           = (case orq_ejecutar_tool_calls P R C verbose (tool_calls response)
                     (orq_agregar ?m orq) w' of
                None \<Rightarrow> None
              | Some (Inl e, orq', w'') \<Rightarrow> Some (Inl e, orq', w'')
              | Some (Inr u, orq', w'') \<Rightarrow> bucle_procesar P R C verbose orq' w'')
       \<and> (bucle_procesar P R C verbose orq w = Some (r, orq1, w1) \<longrightarrow>
            prefix (orq_messages orq @ [?m]) (orq_messages orq1))
       \<and> (chat_with_tools C (orq_messages orq) TOOLS_DEFINITION (orq_model orq) v
              = (Inr (response\<lparr>content := c\<rparr>), w')
            \<and> create_assistant_message_with_tools C (response\<lparr>content := c\<rparr>) = ?m \<longrightarrow>
            bucle_procesar P R C verbose orq v = bucle_procesar P R C verbose orq w))"
    if ch: "chat_with_tools C (orq_messages orq) TOOLS_DEFINITION (orq_model orq) w
              = (Inr response, w')"
  proof (intro conjI impI)
    assume "tool_calls response = []"
    then show "bucle_procesar P R C verbose orq w
           = Some (Inr (content response),
                   orq_agregar (mensaje_de ''assistant'' (opcional (content response))) orq, w')"
      by (rule bucle_procesar_final [OF ch])
  next
    assume t: "tool_calls response \<noteq> []"
      and h: "orq_resultados_de P R C verbose (tool_calls response) orq w' = Some (rs, orq2, w2)"
    let ?o2 = "orq2\<lparr>orq_messages := orq_messages orq @ ?m
                                           # mensajes_resultado C (tool_calls response) rs\<rparr>"
    show a: "bucle_procesar P R C verbose orq w = bucle_procesar P R C verbose ?o2 w2"
      by (rule bucle_procesar_todas [OF ch t h])
    assume f: "chat_with_tools C
                 (orq_messages orq @ ?m # mensajes_resultado C (tool_calls response) rs)
                 TOOLS_DEFINITION (orq_model orq2) w2 = (Inr response2, w3)
               \<and> tool_calls response2 = []"
    have "chat_with_tools C (orq_messages ?o2) TOOLS_DEFINITION (orq_model ?o2) w2
            = (Inr response2, w3)"
      using f by simp
    from bucle_procesar_final [OF this conjunct2 [OF f], of P R verbose]
    show "bucle_procesar P R C verbose orq w
                = Some (Inr (content response2),
                        orq2\<lparr>orq_messages := orq_messages orq @ ?m
                                                 # mensajes_resultado C (tool_calls response) rs
                                                 @ [mensaje_de ''assistant'' (opcional (content response2))]\<rparr>,
                        w3)"
      unfolding a by (simp add: orq_agregar_def)
  next
    assume "tool_calls response \<noteq> []"
      and h: "tool_calls response = antes @ tc # resto
            \<and> orq_resultados_de P R C verbose antes orq w' = Some (rj, orqj, wj)
            \<and> orq_ejecutar_tool_call P R C verbose tc orqj wj = Some (Inl e, orqx, wx)"
    from h have h1: "tool_calls response = antes @ tc # resto"
      and h2: "orq_resultados_de P R C verbose antes orq w' = Some (rj, orqj, wj)"
      and h3: "orq_ejecutar_tool_call P R C verbose tc orqj wj = Some (Inl e, orqx, wx)"
      by blast+
    show "bucle_procesar P R C verbose orq w
              = Some (Inl e,
                      orqx\<lparr>orq_messages := orq_messages orq @ ?m
                                               # mensajes_resultado C antes rj\<rparr>, wx)"
      by (rule bucle_procesar_falla_en [OF ch h1 h2 h3])
  next
    assume t: "tool_calls response \<noteq> []"
    show "bucle_procesar P R C verbose orq w
           = (case orq_ejecutar_tool_calls P R C verbose (tool_calls response)
                     (orq_agregar ?m orq) w' of
                None \<Rightarrow> None
              | Some (Inl e, orq', w'') \<Rightarrow> Some (Inl e, orq', w'')
              | Some (Inr u, orq', w'') \<Rightarrow> bucle_procesar P R C verbose orq' w'')"
      by (rule bucle_procesar_paso [OF ch t])
  next
    assume t: "tool_calls response \<noteq> []"
      and "bucle_procesar P R C verbose orq w = Some (r, orq1, w1)"
    then show "prefix (orq_messages orq @ [?m]) (orq_messages orq1)"
      by (rule bucle_procesar_prefijo [OF ch])
  next
    assume t: "tool_calls response \<noteq> []"
      and h: "chat_with_tools C (orq_messages orq) TOOLS_DEFINITION (orq_model orq) v
              = (Inr (response\<lparr>content := c\<rparr>), w')
            \<and> create_assistant_message_with_tools C (response\<lparr>content := c\<rparr>) = ?m"
    show "bucle_procesar P R C verbose orq v = bucle_procesar P R C verbose orq w"
      using t h
      by (simp add: bucle_procesar_paso [OF ch t] bucle_procesar_paso [OF conjunct1 [OF h]])
  qed
  show ?thesis
    by (intro conjI; rule impI; (erule p | erule q))
qed

theorem final_sii_sin_tool_calls_witness:
  "chat_with_tools cliente_ejemplo (messages agente_ejemplo) (tools agente_ejemplo)
       (model agente_ejemplo) (mundo_inicial [respuesta_final ''listo''])
     = (Inr (respuesta_final ''listo''), \<lparr>guion = [], llamadas = 1, llamadas_chat = 0\<rparr>)
   \<and> tool_calls (respuesta_final ''listo'') = []
   \<and> bucle_pensar pyrt_exacto reloj_ejemplo cliente_ejemplo False agente_ejemplo
        (mundo_inicial [respuesta_final ''listo''])
     = Some (Inr (Some ''listo''),
             agregar (mensaje_de ''assistant'' (PStr ''listo'')) agente_ejemplo,
             \<lparr>guion = [], llamadas = 1, llamadas_chat = 0\<rparr>)
   \<and> chat_with_tools cliente_ejemplo (messages agente_ejemplo) (tools agente_ejemplo)
       (model agente_ejemplo) (mundo_inicial [respuesta_con_texto, respuesta_final ''listo''])
     = (Inr respuesta_con_texto,
        \<lparr>guion = [respuesta_final ''listo''], llamadas = 1, llamadas_chat = 0\<rparr>)
   \<and> tool_calls respuesta_con_texto \<noteq> []
   \<and> content respuesta_con_texto = Some ''ignorado''
   \<and> resultados_de pyrt_exacto reloj_ejemplo (tool_calls respuesta_con_texto)
        \<lparr>guion = [respuesta_final ''listo''], llamadas = 1, llamadas_chat = 0\<rparr>
     = Some ([Some ''El resultado de 2 sumar 3 = 5''],
             \<lparr>guion = [respuesta_final ''listo''], llamadas = 1, llamadas_chat = 0\<rparr>)
   \<and> bucle_pensar pyrt_exacto reloj_ejemplo cliente_ejemplo False agente_ejemplo
        (mundo_inicial [respuesta_con_texto, respuesta_final ''listo''])
     = Some (Inr (Some ''listo''),
             agente_ejemplo
               \<lparr>messages := messages agente_ejemplo
                  @ [gemini_create_assistant_message_with_tools respuesta_con_texto,
                     gemini_create_tool_result_message ''c3''
                       (Some ''El resultado de 2 sumar 3 = 5'') ''calculadora'',
                     mensaje_de ''assistant'' (PStr ''listo'')]\<rparr>,
             \<lparr>guion = [], llamadas = 2, llamadas_chat = 0\<rparr>)
   \<and> bucle_pensar pyrt_exacto reloj_ejemplo cliente_ejemplo False agente_ejemplo
        (mundo_inicial [respuesta_llamadas [llamada_suma], respuesta_final ''listo''])
     = bucle_pensar pyrt_exacto reloj_ejemplo cliente_ejemplo False agente_ejemplo
        (mundo_inicial [respuesta_con_texto, respuesta_final ''listo''])"
proof -
  let ?w1 = "\<lparr>guion = [respuesta_final ''listo''], llamadas = 1, llamadas_chat = 0\<rparr> :: rat mundo_guion"
  let ?w2 = "\<lparr>guion = [], llamadas = 2, llamadas_chat = 0\<rparr> :: rat mundo_guion"
  let ?s = "Some ''El resultado de 2 sumar 3 = 5''"
  have c1: "chat_with_tools cliente_ejemplo (messages agente_ejemplo) (tools agente_ejemplo)
       (model agente_ejemplo) (mundo_inicial [respuesta_final ''listo''])
     = (Inr (respuesta_final ''listo''), \<lparr>guion = [], llamadas = 1, llamadas_chat = 0\<rparr>)"
    by (simp add: cliente_ejemplo_def cliente_guion_def mundo_inicial_def)
  have t1: "tool_calls (respuesta_final ''listo'') = []"
    by (simp add: respuesta_final_def)
  have c2: "chat_with_tools cliente_ejemplo (messages agente_ejemplo) (tools agente_ejemplo)
       (model agente_ejemplo) (mundo_inicial [respuesta_con_texto, respuesta_final ''listo''])
     = (Inr respuesta_con_texto, ?w1)"
    by (simp add: cliente_ejemplo_def cliente_guion_def mundo_inicial_def)
  have t2: "tool_calls respuesta_con_texto \<noteq> []"
    and l2: "tool_calls respuesta_con_texto = [llamada_suma]"
    by (simp_all add: respuesta_con_texto_def respuesta_llamadas_def)
  have t3: "content respuesta_con_texto = Some ''ignorado''"
    by (simp add: respuesta_con_texto_def)
  have n: "tc_id llamada_suma = ''c3''" "tc_name llamada_suma = ''calculadora''"
    by (simp_all add: llamada_suma_def)
  have g: "create_assistant_message_with_tools cliente_ejemplo
             = gemini_create_assistant_message_with_tools"
    "create_tool_result_message cliente_ejemplo = gemini_create_tool_result_message"
    by (simp_all add: cliente_ejemplo_def cliente_guion_def)
  have h: "resultados_de pyrt_exacto reloj_ejemplo (tool_calls respuesta_con_texto) ?w1
             = Some ([?s], ?w1)"
    unfolding l2 by (simp add: n ejecutar_suma_ejemplo)
  have nv: "\<not> (False \<and> None \<in> set [?s])" by simp
  have c4: "chat_with_tools cliente_ejemplo
              (messages agente_ejemplo
                 @ create_assistant_message_with_tools cliente_ejemplo respuesta_con_texto
                 # mensajes_resultado cliente_ejemplo (tool_calls respuesta_con_texto) [?s])
              (tools agente_ejemplo) (model agente_ejemplo) ?w1
            = (Inr (respuesta_final ''listo''), ?w2)"
    by (simp add: cliente_ejemplo_def cliente_guion_def)
  have c3: "chat_with_tools cliente_ejemplo (messages agente_ejemplo) (tools agente_ejemplo)
       (model agente_ejemplo)
       (mundo_inicial [respuesta_llamadas [llamada_suma], respuesta_final ''listo''])
     = (Inr (respuesta_con_texto\<lparr>content := None\<rparr>), ?w1)"
    by (simp add: cliente_ejemplo_def cliente_guion_def mundo_inicial_def respuesta_con_texto_def
                  respuesta_llamadas_def)
  have gi: "create_assistant_message_with_tools cliente_ejemplo (respuesta_con_texto\<lparr>content := None\<rparr>)
             = create_assistant_message_with_tools cliente_ejemplo respuesta_con_texto"
    by (simp add: cliente_ejemplo_def cliente_guion_def gemini_assistant_ignora_content)
  have 1: "bucle_pensar pyrt_exacto reloj_ejemplo cliente_ejemplo False agente_ejemplo
        (mundo_inicial [respuesta_final ''listo''])
     = Some (Inr (Some ''listo''),
             agregar (mensaje_de ''assistant'' (PStr ''listo'')) agente_ejemplo,
             \<lparr>guion = [], llamadas = 1, llamadas_chat = 0\<rparr>)"
    using final_sii_sin_tool_calls [where P = pyrt_exacto and R = reloj_ejemplo
        and C = cliente_ejemplo and verbose = False and ag = agente_ejemplo
        and w = "mundo_inicial [respuesta_final ''listo'']" and response = "respuesta_final ''listo''"
        and orq = "AgenteOrquestador_init None",
        THEN conjunct1, rule_format, OF c1, THEN conjunct1, rule_format, OF t1]
    by (simp add: respuesta_final_def opcional_def)
  note t = final_sii_sin_tool_calls [where P = pyrt_exacto and R = reloj_ejemplo
        and C = cliente_ejemplo and verbose = False and ag = agente_ejemplo
        and w = "mundo_inicial [respuesta_con_texto, respuesta_final ''listo'']"
        and response = respuesta_con_texto and orq = "AgenteOrquestador_init None",
        THEN conjunct1, rule_format, OF c2, THEN conjunct2, rule_format, OF t2]
  have 2: "bucle_pensar pyrt_exacto reloj_ejemplo cliente_ejemplo False agente_ejemplo
        (mundo_inicial [respuesta_con_texto, respuesta_final ''listo''])
     = Some (Inr (Some ''listo''),
             agente_ejemplo
               \<lparr>messages := messages agente_ejemplo
                  @ [gemini_create_assistant_message_with_tools respuesta_con_texto,
                     gemini_create_tool_result_message ''c3'' ?s ''calculadora'',
                     mensaje_de ''assistant'' (PStr ''listo'')]\<rparr>, ?w2)"
    using t [where rs = "[?s]" and ?w2.0 = ?w1 and ?response2.0 = "respuesta_final ''listo''"
               and ?w3.0 = ?w2,
             THEN conjunct1, rule_format, OF conjI [OF h nv], THEN conjunct2, rule_format,
             OF conjI [OF c4 t1]]
    by (simp add: l2 g n respuesta_final_def opcional_def)
  have 3: "bucle_pensar pyrt_exacto reloj_ejemplo cliente_ejemplo False agente_ejemplo
        (mundo_inicial [respuesta_llamadas [llamada_suma], respuesta_final ''listo''])
     = bucle_pensar pyrt_exacto reloj_ejemplo cliente_ejemplo False agente_ejemplo
        (mundo_inicial [respuesta_con_texto, respuesta_final ''listo''])"
    using t [where c = None
               and v = "mundo_inicial [respuesta_llamadas [llamada_suma], respuesta_final ''listo'']",
             THEN conjunct2, THEN conjunct2, THEN conjunct2, THEN conjunct2, rule_format,
             OF conjI [OF c3 gi]] .
  from c1 t1 1 c2 t2 t3 h 2 3 show ?thesis by (intro conjI)
qed

text \<open>
  C7 as it is written fails when a tool call raises. The response below has a text and
  one tool call, a delegation without the argument \<open>consulta\<close>. The loop of
  \<^verbatim>\<open>procesar\<close> does not ask the model again: it ends with KeyError after one
  model call, the final answer still waiting in the script.
\<close>

theorem final_sii_sin_tool_calls_counterexample:
  "tool_calls ((respuesta_llamadas [llamada_sin_consulta])\<lparr>content := Some ''ignorado''\<rparr>) \<noteq> []
   \<and> procesar pyrt_exacto reloj_ejemplo cliente_ejemplo (AgenteOrquestador_init None)
        ''pregunta'' False
        (mundo_inicial [(respuesta_llamadas [llamada_sin_consulta])\<lparr>content := Some ''ignorado''\<rparr>,
                        respuesta_final ''listo''])
     = Some (Inl KeyError,
             AgenteOrquestador_init None
               \<lparr>orq_messages := orq_messages (AgenteOrquestador_init None :: rat orquestador)
                  @ [mensaje_de ''user'' (PStr ''pregunta''),
                     gemini_create_assistant_message_with_tools
                       (respuesta_llamadas [llamada_sin_consulta])]\<rparr>,
             \<lparr>guion = [respuesta_final ''listo''], llamadas = 1, llamadas_chat = 0\<rparr>)"
proof -
  let ?r = "(respuesta_llamadas [llamada_sin_consulta])\<lparr>content := Some ''ignorado''\<rparr>"
  let ?w = "mundo_inicial [?r, respuesta_final ''listo''] :: rat mundo_guion"
  let ?w1 = "\<lparr>guion = [respuesta_final ''listo''], llamadas = 1, llamadas_chat = 0\<rparr> :: rat mundo_guion"
  let ?o = "orq_agregar (mensaje_de ''user'' (PStr ''pregunta''))
              (AgenteOrquestador_init None :: rat orquestador)"
  have l: "tool_calls ?r = [llamada_sin_consulta]" and t: "tool_calls ?r \<noteq> []"
    by (simp_all add: respuesta_llamadas_def)
  have g: "create_assistant_message_with_tools cliente_ejemplo ?r
             = gemini_create_assistant_message_with_tools (respuesta_llamadas [llamada_sin_consulta])"
    by (simp add: cliente_ejemplo_def cliente_guion_def gemini_assistant_ignora_content)
  have c: "chat_with_tools cliente_ejemplo (orq_messages ?o) TOOLS_DEFINITION (orq_model ?o) ?w
              = (Inr ?r, ?w1)"
    by (simp add: cliente_ejemplo_def cliente_guion_def mundo_inicial_def)
  have k: "orq_ejecutar_tool_call pyrt_exacto reloj_ejemplo cliente_ejemplo False
             llamada_sin_consulta orq w = Some (Inl KeyError, orq, w)"
    for orq :: "rat orquestador" and w :: "rat mundo_guion"
    by (simp add: orq_ejecutar_tool_call_def llamada_sin_consulta_def py_getitem_def)
  have "procesar pyrt_exacto reloj_ejemplo cliente_ejemplo (AgenteOrquestador_init None)
        ''pregunta'' False ?w
     = Some (Inl KeyError,
             AgenteOrquestador_init None
               \<lparr>orq_messages := orq_messages (AgenteOrquestador_init None :: rat orquestador)
                  @ [mensaje_de ''user'' (PStr ''pregunta''),
                     gemini_create_assistant_message_with_tools
                       (respuesta_llamadas [llamada_sin_consulta])]\<rparr>, ?w1)"
    unfolding procesar_def bucle_procesar_paso [OF c t] l g
    by (simp add: k orq_agregar_def)
  with t show ?thesis by (intro conjI)
qed

section \<open>Malformed arguments, at any position of the turn\<close>

lemma calculadora_sumar_un_numero:
  assumes "(como_numero a = None) \<noteq> (como_numero b = None)"
  shows "calculadora P (PStr ''sumar'') a b = Inl TypeError"
proof -
  have "py_add P a b = Inl TypeError"
    using assms
    by (cases a; cases b) (simp_all add: py_add_def como_numero_def)
  then show ?thesis by (simp add: calculadora_def hashable_def operaciones_def)
qed

lemma calculadora_dividir_no_numero:
  assumes "como_numero a = None \<or> como_numero b = None" and "py_ne_zero P b"
  shows "calculadora P (PStr ''dividir'') a b = Inl TypeError"
proof -
  have "py_truediv P a b = Inl TypeError"
    using assms(1) by (auto simp: py_truediv_def split: option.splits numero.splits)
  then show ?thesis using assms(2) by (simp add: calculadora_def hashable_def operaciones_def)
qed

lemma delegacion_sin_argumento:
  assumes "tc_name tc = ''consultar_agente_experto''"
    and "map_of (tc_arguments tc) ''tipo_experto'' = None
         \<or> map_of (tc_arguments tc) ''consulta'' = None"
  shows "orq_ejecutar_tool_call P R C verbose tc orq w = Some (Inl KeyError, orq, w)"
  using assms by (auto simp: orq_ejecutar_tool_call_def py_getitem_def split: option.splits)

lemma ingrediente_sin_campo:
  assumes "map_of kvs ''nombre'' = None
           \<or> (\<exists>s. map_of kvs ''nombre'' = Some (PStr s)) \<and> map_of kvs ''cantidad_gramos'' = None"
  shows "calcular_calorias P (PList (PDict kvs # resto)) num_porciones = Inl KeyError"
  using assms
  by (auto simp: calcular_calorias_def py_iter_def py_getitem_def py_lower_def)

lemma orq_ejecutar_tool_call_despacha:
  assumes "tc_name tc \<noteq> ''consultar_agente_experto''"
    and "ejecutar_herramienta P R (tc_name tc) (tc_arguments tc) w = (r, w')"
  shows "orq_ejecutar_tool_call P R C verbose tc orq w = Some (r, orq, w')"
  using assms by (simp add: orq_ejecutar_tool_call_def)

text \<open>
  C4, as the code has it. Malformed arguments are not turned into a text. A missing or
  unexpected argument name makes the dispatcher raise TypeError for both tools that take
  arguments; an operand that is not a number raises TypeError in \<^verbatim>\<open>restar\<close>,
  in \<^verbatim>\<open>sumar\<close> when the other operand is a number, and in
  \<^verbatim>\<open>dividir\<close> when the divisor is not zero; an ingredient without its name,
  or with a text for a name and without its grams, raises KeyError; in
  \<^verbatim>\<open>procesar\<close> a delegation without
  \<open>tipo_experto\<close> or \<open>consulta\<close> raises KeyError. An exception raised by a call at
  any position of the turn, the calls before it having returned (and, in
  \<^verbatim>\<open>pensar\<close> with \<open>verbose\<close>, none of them None), leaves the
  \<^verbatim>\<open>for\<close> loop at once and ends \<^verbatim>\<open>pensar\<close> and
  \<^verbatim>\<open>procesar\<close> with that exception: the assistant message of the turn and the
  results of the earlier calls are in the history, and the model is not asked again. An
  operation name outside the four known ones is answered with an error text.
\<close>

theorem argumentos_malformados_propagan:
  "(set (map fst argumentos) \<noteq> {''operacion'', ''a'', ''b''} \<longrightarrow>
      ejecutar_herramienta P R ''calculadora'' argumentos w = (Inl TypeError, w))
   \<and> (set (map fst argumentos) \<noteq> {''ingredientes'', ''num_porciones''} \<longrightarrow>
      ejecutar_herramienta P R ''calcular_calorias'' argumentos w = (Inl TypeError, w))
   \<and> (como_numero a = None \<or> como_numero b = None \<longrightarrow>
      calculadora P (PStr ''restar'') a b = Inl TypeError)
   \<and> ((como_numero a = None) \<noteq> (como_numero b = None) \<longrightarrow>
      calculadora P (PStr ''sumar'') a b = Inl TypeError)
   \<and> ((como_numero a = None \<or> como_numero b = None) \<and> py_ne_zero P b \<longrightarrow>
      calculadora P (PStr ''dividir'') a b = Inl TypeError)
   \<and> (operaciones P s = None \<longrightarrow>
      calculadora P (PStr s) a b
        = Inr (''Error: operaci'' @ o_acento @ ''n '' @ [CHR 0x27] @ s @ [CHR 0x27]
               @ '' no reconocida''))
   \<and> (map_of kvs ''nombre'' = None
        \<or> (\<exists>s. map_of kvs ''nombre'' = Some (PStr s)) \<and> map_of kvs ''cantidad_gramos'' = None \<longrightarrow>
      calcular_calorias P (PList (PDict kvs # ings)) num_porciones = Inl KeyError)
   \<and> (tc_name tc = ''consultar_agente_experto''
        \<and> (map_of (tc_arguments tc) ''tipo_experto'' = None
            \<or> map_of (tc_arguments tc) ''consulta'' = None) \<longrightarrow>
      orq_ejecutar_tool_call P R C verbose tc orqj wj = Some (Inl KeyError, orqj, wj))
   \<and> (tc_name tc \<noteq> ''consultar_agente_experto''
        \<and> ejecutar_herramienta P R (tc_name tc) (tc_arguments tc) wj = (Inl e, wx) \<longrightarrow>
      orq_ejecutar_tool_call P R C verbose tc orqj wj = Some (Inl e, orqj, wx))
   \<and> (tool_calls response = antes @ tc # resto
        \<and> resultados_de P R antes w = Some (rj, wj) \<and> \<not> (verbose \<and> None \<in> set rj)
        \<and> ejecutar_herramienta P R (tc_name tc) (tc_arguments tc) wj = (Inl e, wx) \<longrightarrow>
        ejecutar_tool_calls P R C verbose (tool_calls response)
          (agregar (create_assistant_message_with_tools C response) ag0) w
          = (Inl e,
             ag0\<lparr>messages := messages ag0 @ create_assistant_message_with_tools C response
                                 # mensajes_resultado C antes rj\<rparr>, wx)
      \<and> (chat_with_tools C (messages ag0) (tools ag0) (model ag0) w0 = (Inr response, w) \<longrightarrow>
         bucle_pensar P R C verbose ag0 w0
           = Some (Inl e,
                   ag0\<lparr>messages := messages ag0 @ create_assistant_message_with_tools C response
                                       # mensajes_resultado C antes rj\<rparr>, wx)))
   \<and> (tool_calls response = antes @ tc # resto
        \<and> orq_resultados_de P R C verbose antes orq0 w = Some (rj, orqj, wj)
        \<and> orq_ejecutar_tool_call P R C verbose tc orqj wj = Some (Inl e, orqx, wx) \<longrightarrow>
        orq_ejecutar_tool_calls P R C verbose (tool_calls response)
          (orq_agregar (create_assistant_message_with_tools C response) orq0) w
          = Some (Inl e,
                  orqx\<lparr>orq_messages := orq_messages orq0 @ create_assistant_message_with_tools C response
                                           # mensajes_resultado C antes rj\<rparr>, wx)
      \<and> (chat_with_tools C (orq_messages orq0) TOOLS_DEFINITION (orq_model orq0) w0
            = (Inr response, w) \<longrightarrow>
         bucle_procesar P R C verbose orq0 w0
           = Some (Inl e,
                   orqx\<lparr>orq_messages := orq_messages orq0 @ create_assistant_message_with_tools C response
                                            # mensajes_resultado C antes rj\<rparr>, wx)))"
proof -
  let ?m = "create_assistant_message_with_tools C response"
  have 1: "ejecutar_herramienta P R ''calculadora'' argumentos w = (Inl TypeError, w)"
    if "set (map fst argumentos) \<noteq> {''operacion'', ''a'', ''b''}"
    using vincular_mal [of argumentos "[''operacion'', ''a'', ''b'']"] that
    by (simp add: ejecutar_herramienta_def)
  have 2: "ejecutar_herramienta P R ''calcular_calorias'' argumentos w = (Inl TypeError, w)"
    if "set (map fst argumentos) \<noteq> {''ingredientes'', ''num_porciones''}"
    using vincular_mal [of argumentos "[''ingredientes'', ''num_porciones'']"] that
    by (simp add: ejecutar_herramienta_def)
  have 3: "calculadora P (PStr ''restar'') a b = Inl TypeError"
    if "como_numero a = None \<or> como_numero b = None"
    using that by (rule calculadora_restar_no_numero)
  have 4: "calculadora P (PStr ''sumar'') a b = Inl TypeError"
    if "(como_numero a = None) \<noteq> (como_numero b = None)"
    using that by (rule calculadora_sumar_un_numero)
  have 5: "calculadora P (PStr ''dividir'') a b = Inl TypeError"
    if "(como_numero a = None \<or> como_numero b = None) \<and> py_ne_zero P b"
    using conjunct1 [OF that] conjunct2 [OF that] by (rule calculadora_dividir_no_numero)
  have 6: "calculadora P (PStr s) a b
        = Inr (''Error: operaci'' @ o_acento @ ''n '' @ [CHR 0x27] @ s @ [CHR 0x27]
               @ '' no reconocida'')"
    if "operaciones P s = None"
    using that by (rule calculadora_no_reconocida)
  have 7: "calcular_calorias P (PList (PDict kvs # ings)) num_porciones = Inl KeyError"
    if "map_of kvs ''nombre'' = None
        \<or> (\<exists>s. map_of kvs ''nombre'' = Some (PStr s)) \<and> map_of kvs ''cantidad_gramos'' = None"
    using that by (rule ingrediente_sin_campo)
  have 8: "orq_ejecutar_tool_call P R C verbose tc orqj wj = Some (Inl KeyError, orqj, wj)"
    if "tc_name tc = ''consultar_agente_experto''
        \<and> (map_of (tc_arguments tc) ''tipo_experto'' = None
            \<or> map_of (tc_arguments tc) ''consulta'' = None)"
    using conjunct1 [OF that] conjunct2 [OF that] by (rule delegacion_sin_argumento)
  have 9: "orq_ejecutar_tool_call P R C verbose tc orqj wj = Some (Inl e, orqj, wx)"
    if "tc_name tc \<noteq> ''consultar_agente_experto''
        \<and> ejecutar_herramienta P R (tc_name tc) (tc_arguments tc) wj = (Inl e, wx)"
    using conjunct1 [OF that] conjunct2 [OF that] by (rule orq_ejecutar_tool_call_despacha)
  have 10: "ejecutar_tool_calls P R C verbose (tool_calls response) (agregar ?m ag0) w
          = (Inl e, ag0\<lparr>messages := messages ag0 @ ?m # mensajes_resultado C antes rj\<rparr>, wx)
      \<and> (chat_with_tools C (messages ag0) (tools ag0) (model ag0) w0 = (Inr response, w) \<longrightarrow>
         bucle_pensar P R C verbose ag0 w0
           = Some (Inl e, ag0\<lparr>messages := messages ag0 @ ?m # mensajes_resultado C antes rj\<rparr>, wx))"
    if h: "tool_calls response = antes @ tc # resto
        \<and> resultados_de P R antes w = Some (rj, wj) \<and> \<not> (verbose \<and> None \<in> set rj)
        \<and> ejecutar_herramienta P R (tc_name tc) (tc_arguments tc) wj = (Inl e, wx)"
  proof -
    from h have h1: "tool_calls response = antes @ tc # resto"
      and h2: "resultados_de P R antes w = Some (rj, wj)"
      and h3: "\<not> (verbose \<and> None \<in> set rj)"
      and h4: "ejecutar_herramienta P R (tc_name tc) (tc_arguments tc) wj = (Inl e, wx)"
      by blast+
    have a: "ejecutar_tool_calls P R C verbose (tool_calls response) (agregar ?m ag0) w
          = (Inl e, ag0\<lparr>messages := messages ag0 @ ?m # mensajes_resultado C antes rj\<rparr>, wx)"
      unfolding h1 ejecutar_tool_calls_falla_en [OF h2 h3 h4] by (simp add: agregar_def)
    have "bucle_pensar P R C verbose ag0 w0
           = Some (Inl e, ag0\<lparr>messages := messages ag0 @ ?m # mensajes_resultado C antes rj\<rparr>, wx)"
      if "chat_with_tools C (messages ag0) (tools ag0) (model ag0) w0 = (Inr response, w)"
      by (rule bucle_pensar_falla_en [OF that h1 h2 h3 h4])
    with a show ?thesis by blast
  qed
  have 11: "orq_ejecutar_tool_calls P R C verbose (tool_calls response) (orq_agregar ?m orq0) w
          = Some (Inl e,
                  orqx\<lparr>orq_messages := orq_messages orq0 @ ?m # mensajes_resultado C antes rj\<rparr>, wx)
      \<and> (chat_with_tools C (orq_messages orq0) TOOLS_DEFINITION (orq_model orq0) w0
            = (Inr response, w) \<longrightarrow>
         bucle_procesar P R C verbose orq0 w0
           = Some (Inl e,
                   orqx\<lparr>orq_messages := orq_messages orq0 @ ?m # mensajes_resultado C antes rj\<rparr>, wx))"
    if h: "tool_calls response = antes @ tc # resto
        \<and> orq_resultados_de P R C verbose antes orq0 w = Some (rj, orqj, wj)
        \<and> orq_ejecutar_tool_call P R C verbose tc orqj wj = Some (Inl e, orqx, wx)"
  proof -
    from h have h1: "tool_calls response = antes @ tc # resto"
      and h2: "orq_resultados_de P R C verbose antes orq0 w = Some (rj, orqj, wj)"
      and h3: "orq_ejecutar_tool_call P R C verbose tc orqj wj = Some (Inl e, orqx, wx)"
      by blast+
    have o1: "orq_agregar ?m orq0 = orq0\<lparr>orq_messages := orq_messages orq0 @ [?m]\<rparr>"
      by (simp add: orq_agregar_def)
    have x: "orq_resultados_de P R C verbose antes (orq_agregar ?m orq0) w
            = Some (rj, orqj\<lparr>orq_messages := orq_messages orq0 @ [?m]\<rparr>, wj)"
      unfolding o1 orq_resultados_de_mensajes by (simp add: h2)
    have y: "orq_ejecutar_tool_call P R C verbose tc
               (orqj\<lparr>orq_messages := orq_messages orq0 @ [?m]\<rparr>) wj
             = Some (Inl e, orqx\<lparr>orq_messages := orq_messages orq0 @ [?m]\<rparr>, wx)"
      unfolding orq_ejecutar_tool_call_mensajes by (simp add: h3)
    have a: "orq_ejecutar_tool_calls P R C verbose (tool_calls response) (orq_agregar ?m orq0) w
          = Some (Inl e,
                  orqx\<lparr>orq_messages := orq_messages orq0 @ ?m # mensajes_resultado C antes rj\<rparr>, wx)"
      unfolding h1 orq_ejecutar_tool_calls_falla_en [OF x y] by simp
    have "bucle_procesar P R C verbose orq0 w0
           = Some (Inl e,
                   orqx\<lparr>orq_messages := orq_messages orq0 @ ?m # mensajes_resultado C antes rj\<rparr>, wx)"
      if "chat_with_tools C (orq_messages orq0) TOOLS_DEFINITION (orq_model orq0) w0
            = (Inr response, w)"
      by (rule bucle_procesar_falla_en [OF that h1 h2 h3])
    with a show ?thesis by blast
  qed
  show ?thesis
    by (intro conjI; rule impI;
        (erule 1 | erule 2 | erule 3 | erule 4 | erule 5 | erule 6 | erule 7 | erule 8 | erule 9
         | erule 10 | erule 11))
qed

theorem argumentos_malformados_propagan_witness:
  "set (map fst (tc_arguments llamada_sin_b)) \<noteq> {''operacion'', ''a'', ''b''}
   \<and> ejecutar_herramienta pyrt_exacto reloj_ejemplo ''calculadora'' (tc_arguments llamada_sin_b)
        mundo_vacio = (Inl TypeError, mundo_vacio)
   \<and> como_numero (PStr ''dos'' :: rat pyval) = None
   \<and> calculadora pyrt_exacto (PStr ''restar'') (PStr ''dos'') (PInt 1) = Inl TypeError
   \<and> calculadora pyrt_exacto (PStr ''sumar'') (PStr ''dos'') (PInt 1) = Inl TypeError
   \<and> calculadora pyrt_exacto (PStr ''dividir'') (PStr ''dos'') (PInt 1) = Inl TypeError
   \<and> operaciones pyrt_exacto ''potencia'' = None
   \<and> calculadora pyrt_exacto (PStr ''potencia'') (PInt 2) (PInt 3)
       = Inr (''Error: operaci'' @ o_acento @ ''n '' @ [CHR 0x27] @ ''potencia'' @ [CHR 0x27]
              @ '' no reconocida'')
   \<and> calcular_calorias pyrt_exacto receta_sin_gramos (PInt 2) = Inl KeyError
   \<and> orq_ejecutar_tool_call pyrt_exacto reloj_ejemplo cliente_ejemplo False llamada_sin_consulta
        (AgenteOrquestador_init None) mundo_vacio
       = Some (Inl KeyError, AgenteOrquestador_init None, mundo_vacio)
   \<and> bucle_pensar pyrt_exacto reloj_ejemplo cliente_ejemplo False agente_ejemplo
        (mundo_inicial [respuesta_llamadas [llamada_suma, llamada_sin_b], respuesta_final ''listo''])
       = Some (Inl TypeError,
               agente_ejemplo
                 \<lparr>messages := messages agente_ejemplo
                    @ [gemini_create_assistant_message_with_tools
                         (respuesta_llamadas [llamada_suma, llamada_sin_b]),
                       gemini_create_tool_result_message ''c3''
                         (Some ''El resultado de 2 sumar 3 = 5'') ''calculadora'']\<rparr>,
               \<lparr>guion = [respuesta_final ''listo''], llamadas = 1, llamadas_chat = 0\<rparr>)
   \<and> bucle_procesar pyrt_exacto reloj_ejemplo cliente_ejemplo False (AgenteOrquestador_init None)
        (mundo_inicial [respuesta_llamadas [llamada_fisica, llamada_sin_consulta],
                        respuesta_final ''listo''])
       = Some (Inl KeyError,
               AgenteOrquestador_init None
                 \<lparr>orq_messages := orq_messages (AgenteOrquestador_init None :: rat orquestador)
                    @ [gemini_create_assistant_message_with_tools
                         (respuesta_llamadas [llamada_fisica, llamada_sin_consulta]),
                       gemini_create_tool_result_message ''c6''
                         (Some (''Error: no existe el experto '' @ [CHR 0x27] @ ''fisica''
                                @ [CHR 0x27])) ''consultar_agente_experto'']\<rparr>,
               \<lparr>guion = [respuesta_final ''listo''], llamadas = 1, llamadas_chat = 0\<rparr>)"
proof -
  let ?w1 = "\<lparr>guion = [respuesta_final ''listo''], llamadas = 1, llamadas_chat = 0\<rparr> :: rat mundo_guion"
  let ?r = "respuesta_llamadas [llamada_suma, llamada_sin_b]"
  let ?q = "respuesta_llamadas [llamada_fisica, llamada_sin_consulta]"
  let ?s = "Some ''El resultado de 2 sumar 3 = 5''"
  let ?f = "Some (''Error: no existe el experto '' @ [CHR 0x27] @ ''fisica'' @ [CHR 0x27])"
  let ?o = "AgenteOrquestador_init None :: rat orquestador"
  have h1: "set (map fst (tc_arguments llamada_sin_b)) \<noteq> {''operacion'', ''a'', ''b''}"
    by (auto simp: llamada_sin_b_def)
  have h3: "como_numero (PStr ''dos'' :: rat pyval) = None"
    by (simp add: como_numero_def)
  have h3b: "(como_numero (PStr ''dos'' :: rat pyval) = None) \<noteq> (como_numero (PInt 1 :: rat pyval) = None)"
    by (simp add: como_numero_def)
  have h3c: "py_ne_zero pyrt_exacto (PInt 1)"
    by (simp add: py_ne_zero_def como_numero_def)
  have h4: "operaciones pyrt_exacto ''potencia'' = None"
    by (simp add: operaciones_def)
  have h7: "map_of [(''nombre'', PStr ''pollo'' :: rat pyval)] ''nombre'' = None
        \<or> (\<exists>s. map_of [(''nombre'', PStr ''pollo'' :: rat pyval)] ''nombre'' = Some (PStr s))
          \<and> map_of [(''nombre'', PStr ''pollo'' :: rat pyval)] ''cantidad_gramos'' = None"
    by simp
  have n: "tc_id llamada_suma = ''c3''" "tc_name llamada_suma = ''calculadora''"
    "tc_name llamada_sin_b = ''calculadora''"
    "tc_id llamada_fisica = ''c6''" "tc_name llamada_fisica = ''consultar_agente_experto''"
    "tc_name llamada_sin_consulta = ''consultar_agente_experto''"
    by (simp_all add: llamada_suma_def llamada_sin_b_def llamada_fisica_def llamada_sin_consulta_def)
  have h8: "tc_name llamada_sin_consulta = ''consultar_agente_experto''
        \<and> (map_of (tc_arguments llamada_sin_consulta) ''tipo_experto'' = None
            \<or> map_of (tc_arguments llamada_sin_consulta) ''consulta'' = None)"
    by (simp add: llamada_sin_consulta_def)
  have g: "create_assistant_message_with_tools cliente_ejemplo
             = gemini_create_assistant_message_with_tools"
    "create_tool_result_message cliente_ejemplo = gemini_create_tool_result_message"
    by (simp_all add: cliente_ejemplo_def cliente_guion_def)
  have tr: "tool_calls ?r = [llamada_suma] @ llamada_sin_b # []"
    and tq: "tool_calls ?q = [llamada_fisica] @ llamada_sin_consulta # []"
    by (simp_all add: respuesta_llamadas_def)
  have cr: "chat_with_tools cliente_ejemplo (messages agente_ejemplo) (tools agente_ejemplo)
       (model agente_ejemplo) (mundo_inicial [?r, respuesta_final ''listo'']) = (Inr ?r, ?w1)"
    by (simp add: cliente_ejemplo_def cliente_guion_def mundo_inicial_def)
  have cq: "chat_with_tools cliente_ejemplo (orq_messages ?o) TOOLS_DEFINITION (orq_model ?o)
       (mundo_inicial [?q, respuesta_final ''listo'']) = (Inr ?q, ?w1)"
    by (simp add: cliente_ejemplo_def cliente_guion_def mundo_inicial_def)
  have rr: "resultados_de pyrt_exacto reloj_ejemplo [llamada_suma] ?w1 = Some ([?s], ?w1)"
    by (simp add: n ejecutar_suma_ejemplo)
  have nv: "\<not> (False \<and> None \<in> set [?s])" by simp
  have er: "ejecutar_herramienta pyrt_exacto reloj_ejemplo (tc_name llamada_sin_b)
              (tc_arguments llamada_sin_b) ?w1 = (Inl TypeError, ?w1)"
    by (simp add: llamada_sin_b_def ejecutar_herramienta_def vincular_def)
  have a1: "map_of (tc_arguments llamada_fisica) ''tipo_experto'' = Some (PStr ''fisica'')"
    and a2: "map_of (tc_arguments llamada_fisica) ''consulta'' = Some (PStr ''e=mc2'')"
    by (simp_all add: llamada_fisica_def)
  have x: "expertos ?o ''fisica'' = None"
    by (simp add: expertos_init)
  have cf: "orq_ejecutar_tool_call pyrt_exacto reloj_ejemplo cliente_ejemplo False llamada_fisica
              ?o ?w1 = Some (Inr ?f, ?o, ?w1)"
    by (simp only: orq_ejecutar_tool_call_delegar [OF n(5) a1 a2] consultar_experto_no_existe [OF x])
  have rq: "orq_resultados_de pyrt_exacto reloj_ejemplo cliente_ejemplo False [llamada_fisica]
              ?o ?w1 = Some ([?f], ?o, ?w1)"
    by (simp only: orq_resultados_de.simps cf option.case prod.case sum.case)
  note t = argumentos_malformados_propagan [where P = pyrt_exacto and R = reloj_ejemplo
      and C = cliente_ejemplo and verbose = False and s = "''potencia''"]
  have 1: "ejecutar_herramienta pyrt_exacto reloj_ejemplo ''calculadora'' (tc_arguments llamada_sin_b)
        mundo_vacio = (Inl TypeError, mundo_vacio)"
    using t [where argumentos = "tc_arguments llamada_sin_b" and w = mundo_vacio
               and orqj = ?o and ?orq0.0 = ?o,
             THEN conjunct1, rule_format, OF h1] .
  have 3: "calculadora pyrt_exacto (PStr ''restar'') (PStr ''dos'') (PInt 1) = Inl TypeError"
    using t [where a = "PStr ''dos''" and b = "PInt 1" and w = mundo_vacio
               and orqj = ?o and ?orq0.0 = ?o,
             THEN conjunct2, THEN conjunct2, THEN conjunct1, rule_format, OF disjI1 [OF h3]] .
  have 4: "calculadora pyrt_exacto (PStr ''sumar'') (PStr ''dos'') (PInt 1) = Inl TypeError"
    using t [where a = "PStr ''dos''" and b = "PInt 1" and w = mundo_vacio
               and orqj = ?o and ?orq0.0 = ?o,
             THEN conjunct2, THEN conjunct2, THEN conjunct2, THEN conjunct1, rule_format, OF h3b] .
  have 5: "calculadora pyrt_exacto (PStr ''dividir'') (PStr ''dos'') (PInt 1) = Inl TypeError"
    using t [where a = "PStr ''dos''" and b = "PInt 1" and w = mundo_vacio
               and orqj = ?o and ?orq0.0 = ?o,
             THEN conjunct2, THEN conjunct2, THEN conjunct2, THEN conjunct2, THEN conjunct1,
             rule_format, OF conjI [OF disjI1 [OF h3] h3c]] .
  have 6: "calculadora pyrt_exacto (PStr ''potencia'') (PInt 2) (PInt 3)
       = Inr (''Error: operaci'' @ o_acento @ ''n '' @ [CHR 0x27] @ ''potencia'' @ [CHR 0x27]
              @ '' no reconocida'')"
    using t [where a = "PInt 2" and b = "PInt 3" and w = mundo_vacio
               and orqj = ?o and ?orq0.0 = ?o,
             THEN conjunct2, THEN conjunct2, THEN conjunct2, THEN conjunct2, THEN conjunct2,
             THEN conjunct1, rule_format, OF h4] .
  have 7: "calcular_calorias pyrt_exacto receta_sin_gramos (PInt 2) = Inl KeyError"
    using t [where kvs = "[(''nombre'', PStr ''pollo'')]" and ings = "[]"
               and num_porciones = "PInt 2" and w = mundo_vacio
               and orqj = ?o and ?orq0.0 = ?o,
             THEN conjunct2, THEN conjunct2, THEN conjunct2, THEN conjunct2, THEN conjunct2,
             THEN conjunct2, THEN conjunct1, rule_format, OF h7]
    by (simp add: receta_sin_gramos_def)
  have 8: "orq_ejecutar_tool_call pyrt_exacto reloj_ejemplo cliente_ejemplo False llamada_sin_consulta
        ?o mundo_vacio = Some (Inl KeyError, ?o, mundo_vacio)"
    using t [where tc = llamada_sin_consulta and orqj = ?o and wj = mundo_vacio
               and w = mundo_vacio and ?orq0.0 = ?o,
             THEN conjunct2, THEN conjunct2, THEN conjunct2, THEN conjunct2, THEN conjunct2,
             THEN conjunct2, THEN conjunct2, THEN conjunct1, rule_format, OF h8] .
  have k: "orq_ejecutar_tool_call pyrt_exacto reloj_ejemplo cliente_ejemplo False llamada_sin_consulta
        ?o ?w1 = Some (Inl KeyError, ?o, ?w1)"
    using t [where tc = llamada_sin_consulta and orqj = ?o and wj = ?w1
               and w = mundo_vacio and ?orq0.0 = ?o,
             THEN conjunct2, THEN conjunct2, THEN conjunct2, THEN conjunct2, THEN conjunct2,
             THEN conjunct2, THEN conjunct2, THEN conjunct1, rule_format, OF h8] .
  have 10: "bucle_pensar pyrt_exacto reloj_ejemplo cliente_ejemplo False agente_ejemplo
        (mundo_inicial [?r, respuesta_final ''listo''])
       = Some (Inl TypeError,
               agente_ejemplo
                 \<lparr>messages := messages agente_ejemplo
                    @ [gemini_create_assistant_message_with_tools ?r,
                       gemini_create_tool_result_message ''c3'' ?s ''calculadora'']\<rparr>, ?w1)"
    using t [where response = ?r and antes = "[llamada_suma]" and tc = llamada_sin_b
               and resto = "[]" and w = ?w1 and rj = "[?s]" and wj = ?w1 and e = TypeError
               and wx = ?w1 and ?ag0.0 = agente_ejemplo
               and ?w0.0 = "mundo_inicial [?r, respuesta_final ''listo'']"
               and orqj = ?o and ?orq0.0 = ?o,
             THEN conjunct2, THEN conjunct2, THEN conjunct2, THEN conjunct2, THEN conjunct2,
             THEN conjunct2, THEN conjunct2, THEN conjunct2, THEN conjunct2, THEN conjunct1,
             rule_format, OF conjI [OF tr conjI [OF rr conjI [OF nv er]]],
             THEN conjunct2, rule_format, OF cr]
    by (simp add: g n)
  have 11: "bucle_procesar pyrt_exacto reloj_ejemplo cliente_ejemplo False ?o
        (mundo_inicial [?q, respuesta_final ''listo''])
       = Some (Inl KeyError,
               ?o\<lparr>orq_messages := orq_messages ?o
                    @ [gemini_create_assistant_message_with_tools ?q,
                       gemini_create_tool_result_message ''c6'' ?f ''consultar_agente_experto'']\<rparr>,
               ?w1)"
    using t [where response = ?q and antes = "[llamada_fisica]" and tc = llamada_sin_consulta
               and resto = "[]" and w = ?w1 and rj = "[?f]" and orqj = ?o and wj = ?w1
               and e = KeyError and orqx = ?o and wx = ?w1 and ?orq0.0 = ?o
               and ?w0.0 = "mundo_inicial [?q, respuesta_final ''listo'']",
             THEN conjunct2, THEN conjunct2, THEN conjunct2, THEN conjunct2, THEN conjunct2,
             THEN conjunct2, THEN conjunct2, THEN conjunct2, THEN conjunct2, THEN conjunct2,
             rule_format, OF conjI [OF tq conjI [OF rq k]],
             THEN conjunct2, rule_format, OF cq]
    by (simp add: g n)
  from h1 1 h3 3 4 5 h4 6 7 8 10 11 show ?thesis by (intro conjI)
qed

text \<open>
  C4 as it is written fails: with the argument \<open>b\<close> missing, and with a string where a
  number is expected, the dispatcher raises TypeError instead of returning a text, and
  \<^verbatim>\<open>procesar\<close> ends with that exception after one call of the provider,
  although the script holds a final answer for the next call.
\<close>

theorem argumentos_malformados_counterexample:
  "ejecutar_herramienta pyrt_exacto reloj_ejemplo ''calculadora''
       [(''operacion'', PStr ''sumar''), (''a'', PInt 2)] mundo_vacio
     = (Inl TypeError, mundo_vacio)
   \<and> ejecutar_herramienta pyrt_exacto reloj_ejemplo ''calculadora''
       [(''operacion'', PStr ''sumar''), (''a'', PStr ''dos''), (''b'', PInt 3)] mundo_vacio
     = (Inl TypeError, mundo_vacio)
   \<and> procesar pyrt_exacto reloj_ejemplo cliente_ejemplo (AgenteOrquestador_init None) ''suma'' False
        (mundo_inicial [respuesta_llamadas [llamada_sin_b], respuesta_final ''listo''])
     = Some (Inl TypeError,
             orq_agregar (gemini_create_assistant_message_with_tools (respuesta_llamadas [llamada_sin_b]))
               (orq_agregar (mensaje_de ''user'' (PStr ''suma'')) (AgenteOrquestador_init None)),
             \<lparr>guion = [respuesta_final ''listo''], llamadas = 1, llamadas_chat = 0\<rparr>)"
proof -
  let ?o = "orq_agregar (mensaje_de ''user'' (PStr ''suma'')) (AgenteOrquestador_init None)"
  let ?w = "mundo_inicial [respuesta_llamadas [llamada_sin_b], respuesta_final ''listo''] :: rat mundo_guion"
  have c: "chat_with_tools cliente_ejemplo (orq_messages ?o) TOOLS_DEFINITION (orq_model ?o) ?w
             = (Inr (respuesta_llamadas [llamada_sin_b]),
                \<lparr>guion = [respuesta_final ''listo''], llamadas = 1, llamadas_chat = 0\<rparr>)"
    by (simp add: cliente_ejemplo_def cliente_guion_def mundo_inicial_def)
  have e: "ejecutar_herramienta pyrt_exacto reloj_ejemplo (tc_name llamada_sin_b)
             (tc_arguments llamada_sin_b) w = (Inl TypeError, w)" for w :: "rat mundo_guion"
    by (simp add: llamada_sin_b_def ejecutar_herramienta_def vincular_def)
  have t: "tool_calls (respuesta_llamadas [llamada_sin_b]) \<noteq> []"
    by (simp add: respuesta_llamadas_def)
  have g: "create_assistant_message_with_tools cliente_ejemplo
             = gemini_create_assistant_message_with_tools"
    by (simp add: cliente_ejemplo_def cliente_guion_def)
  have n: "tc_name llamada_sin_b \<noteq> ''consultar_agente_experto''"
    by (simp add: llamada_sin_b_def)
  have 1: "ejecutar_herramienta pyrt_exacto reloj_ejemplo ''calculadora''
       [(''operacion'', PStr ''sumar''), (''a'', PInt 2)] mundo_vacio
     = (Inl TypeError, mundo_vacio)"
    by (simp add: ejecutar_herramienta_def vincular_def)
  have 2: "ejecutar_herramienta pyrt_exacto reloj_ejemplo ''calculadora''
       [(''operacion'', PStr ''sumar''), (''a'', PStr ''dos''), (''b'', PInt 3)] mundo_vacio
     = (Inl TypeError, mundo_vacio)"
    by code_simp
  have 3: "procesar pyrt_exacto reloj_ejemplo cliente_ejemplo (AgenteOrquestador_init None) ''suma'' False ?w
     = Some (Inl TypeError,
             orq_agregar (gemini_create_assistant_message_with_tools (respuesta_llamadas [llamada_sin_b])) ?o,
             \<lparr>guion = [respuesta_final ''listo''], llamadas = 1, llamadas_chat = 0\<rparr>)"
    unfolding procesar_def bucle_procesar_paso [OF c t]
    by (simp add: respuesta_llamadas_def orq_ejecutar_tool_call_def e g n)
  from 1 2 3 show ?thesis by (intro conjI)
qed

section \<open>Division in the tools, on every input\<close>

lemma a_float_bien:
  assumes "sin_desbordes P"
  shows "\<exists>x. a_float P n = Inr x"
  using assms by (cases n) (auto simp: a_float_def sin_desbordes_def split: option.splits)

lemma float_to_int_bien:
  assumes "sin_desbordes P"
  shows "\<exists>k. float_to_int P x = Inr k"
proof -
  from assms obtain k where "float_trunc P x = Entero k"
    unfolding sin_desbordes_def by blast
  then show ?thesis by (simp add: float_to_int_def)
qed

lemma num_int_bien:
  assumes "sin_desbordes P"
  shows "\<exists>k. num_int P n = Inr k"
  using float_to_int_bien [OF assms] by (cases n) (simp_all add: num_int_def)

lemma num_add_bien:
  assumes "sin_desbordes P"
  shows "\<exists>t. num_add P total_calorias (NFloat x) = Inr t"
proof -
  from a_float_bien [OF assms, of total_calorias] obtain y where "a_float P total_calorias = Inr y"
    by blast
  then show ?thesis
    by (cases total_calorias) (simp_all add: num_add_def num_binop_def a_float_def)
qed

lemma kcal_bien:
  assumes "sin_desbordes P" and "runtime_coherente P" and "como_numero gramos = Some n"
  shows "\<exists>x. kcal P gramos c = Inr x"
proof (cases n)
  case (NInt i)
  from assms(1) obtain q where q: "int_truediv P (i * c) 100 = Some q"
    unfolding sin_desbordes_def by (metis not_None_eq zero_neq_numeral)
  have "py_mul P gramos (PInt c) = Inr (PInt (i * c))"
    using assms(3) NInt by (simp add: py_mul_def como_numero_def num_binop_def de_numero_def)
  then show ?thesis
    using q by (simp add: kcal_def py_truediv_def como_numero_def)
next
  case (NFloat u)
  from assms(1) obtain y where y: "float_of_int P c = Some y"
    unfolding sin_desbordes_def by (metis not_None_eq)
  from assms(1) obtain v where v: "float_of_int P 100 = Some v"
    unfolding sin_desbordes_def by (metis not_None_eq)
  from assms(2) v have z: "\<not> float_is_zero P v"
    unfolding runtime_coherente_def by auto
  have "py_mul P gramos (PInt c) = Inr (PFloat (float_mul P u y))"
    using assms(3) NFloat y
    by (simp add: py_mul_def como_numero_def num_binop_def de_numero_def a_float_def)
  then show ?thesis
    using v z by (simp add: kcal_def py_truediv_def como_numero_def a_float_def)
qed

lemma bucle_ingredientes_bien:
  assumes "sin_desbordes P" and "runtime_coherente P"
    and "\<forall>ing \<in> set ings. ingrediente_bien_formado ing"
  shows "\<exists>t d. bucle_ingredientes P ings t0 d0 = Inr (t, d) \<and> length d = length d0 + length ings"
  using assms(3)
proof (induction ings arbitrary: t0 d0)
  case Nil
  show ?case by simp
next
  case (Cons ing resto)
  from Cons.prems have "ingrediente_bien_formado ing" by simp
  then obtain kvs s g n where ing: "ing = PDict kvs"
    and k1: "map_of kvs ''nombre'' = Some (PStr s)"
    and k2: "map_of kvs ''cantidad_gramos'' = Some g"
    and k3: "como_numero g = Some n"
    by (auto simp: ingrediente_bien_formado_def split: pyval.splits option.splits)
  from Cons.prems have r: "\<forall>ing \<in> set resto. ingrediente_bien_formado ing" by simp
  have c: "py_getitem ing ''nombre'' = Inr (PStr s)" "py_lower P (PStr s) = Inr (str_lower P s)"
    "py_getitem ing ''cantidad_gramos'' = Inr g"
    by (simp_all add: ing py_getitem_def k1 k2 py_lower_def)
  show ?case
  proof (cases "buscar_calorias calorias_por_100g (str_lower P s)")
    case None
    from kcal_bien [OF assms(1,2) k3] obtain x where x: "kcal P g 100 = Inr x" by blast
    from float_to_int_bien [OF assms(1)] obtain k where k: "float_to_int P x = Inr k" by blast
    from Cons.IH [OF r, of t0 "d0 @ [linea_estimada (str_lower P s) (py_str P g) k]"]
    show ?thesis by (simp add: c None x k)
  next
    case (Some cal)
    from kcal_bien [OF assms(1,2) k3] obtain x where x: "kcal P g cal = Inr x" by blast
    from num_add_bien [OF assms(1)] obtain t1 where t1: "num_add P t0 (NFloat x) = Inr t1" by blast
    from float_to_int_bien [OF assms(1)] obtain k where k: "float_to_int P x = Inr k" by blast
    from Cons.IH [OF r, of t1 "d0 @ [linea_ingrediente (str_lower P s) (py_str P g) k]"]
    show ?thesis by (simp add: c Some x t1 k)
  qed
qed

lemma calcular_calorias_sin_porciones_eq:
  assumes "py_gt_zero P num_porciones = Inr False"
  shows "calcular_calorias P ingredientes num_porciones =
           ligar (py_iter ingredientes) (\<lambda>ings.
           ligar (bucle_ingredientes P ings (NInt 0) []) (\<lambda>(total_calorias, detalles).
           ligar (num_int P total_calorias) (\<lambda>t.
             Inr (texto_analisis detalles t (py_str P num_porciones) t))))"
proof (cases "py_iter ingredientes")
  case (Inl e)
  then show ?thesis by (simp add: calcular_calorias_def)
next
  case (Inr ings)
  show ?thesis
  proof (cases "bucle_ingredientes P ings (NInt 0) []")
    case (Inl e)
    with Inr show ?thesis by (simp add: calcular_calorias_def)
  next
    case b: (Inr td)
    obtain total_calorias detalles where td: "td = (total_calorias, detalles)" by (cases td)
    show ?thesis
      using Inr b td assms
      by (cases "num_int P total_calorias") (simp_all add: calcular_calorias_def)
  qed
qed

lemma calcular_calorias_sin_porciones_bien:
  assumes "py_gt_zero P num_porciones = Inr False"
    and "sin_desbordes P" and "runtime_coherente P"
    and "\<forall>ing \<in> set ings. ingrediente_bien_formado ing"
  shows "\<exists>detalles t. calcular_calorias P (PList ings) num_porciones
                         = Inr (texto_analisis detalles t (py_str P num_porciones) t)
                     \<and> length detalles = length ings"
proof -
  from bucle_ingredientes_bien [OF assms(2,3,4), of "NInt 0" "[]"] obtain total_calorias detalles
    where b: "bucle_ingredientes P ings (NInt 0) [] = Inr (total_calorias, detalles)"
      and l: "length detalles = length ings" by auto
  from num_int_bien [OF assms(2)] obtain t where t: "num_int P total_calorias = Inr t" by blast
  have "calcular_calorias P (PList ings) num_porciones
          = Inr (texto_analisis detalles t (py_str P num_porciones) t)"
    unfolding calcular_calorias_sin_porciones_eq [OF assms(1)]
    by (simp add: py_iter_def b t)
  with l show ?thesis by blast
qed

text \<open>
  C8, as the code has it. Dividing by a second argument that is zero (the int 0, False or
  a float zero) never raises, whatever the first argument is: \<^verbatim>\<open>calculadora\<close>
  returns a text that ends with the division-by-zero message, and so does the
  dispatcher. With a number of portions that is not greater than zero
  \<^verbatim>\<open>calcular_calorias\<close> skips the division: on every input it never raises
  ZeroDivisionError (in a runtime that converts the int 100 to a float other than zero),
  and its outcome is that of the loop over the ingredients and of the conversion of the
  total, with the total as the figure per portion. So it returns the analysis for every
  list of well-formed ingredients (in a runtime without overflow), but it raises KeyError
  for an ingredient without its name, or with a text for a name and without its grams.
\<close>

theorem division_por_cero_es_texto:
  "(\<not> py_ne_zero P b \<longrightarrow>
      calculadora P (PStr ''dividir'') a b
        = Inr (''El resultado de '' @ py_str P a @ '' dividir '' @ py_str P b @ '' = ''
               @ error_division)
    \<and> sublist error_division
        (''El resultado de '' @ py_str P a @ '' dividir '' @ py_str P b @ '' = ''
         @ error_division)
    \<and> (vincular [''operacion'', ''a'', ''b''] argumentos = Inr [PStr ''dividir'', a, b] \<longrightarrow>
        ejecutar_herramienta P R ''calculadora'' argumentos w
          = (Inr (Some (''El resultado de '' @ py_str P a @ '' dividir '' @ py_str P b @ '' = ''
                        @ error_division)), w)))
   \<and> (py_gt_zero P num_porciones = Inr False \<longrightarrow>
        (runtime_coherente P \<longrightarrow>
           calcular_calorias P ingredientes num_porciones \<noteq> Inl ZeroDivisionError)
      \<and> calcular_calorias P ingredientes num_porciones =
          ligar (py_iter ingredientes) (\<lambda>ings.
          ligar (bucle_ingredientes P ings (NInt 0) []) (\<lambda>(total_calorias, detalles).
          ligar (num_int P total_calorias) (\<lambda>t.
            Inr (texto_analisis detalles t (py_str P num_porciones) t))))
      \<and> (py_iter ingredientes = Inr ings
           \<and> bucle_ingredientes P ings (NInt 0) [] = Inr (total_calorias, detalles)
           \<and> num_int P total_calorias = Inr t \<longrightarrow>
         calcular_calorias P ingredientes num_porciones
           = Inr (texto_analisis detalles t (py_str P num_porciones) t))
      \<and> (sin_desbordes P \<and> runtime_coherente P
           \<and> (\<forall>ing \<in> set ings. ingrediente_bien_formado ing) \<longrightarrow>
         (\<exists>detalles t.
             calcular_calorias P (PList ings) num_porciones
               = Inr (texto_analisis detalles t (py_str P num_porciones) t)
           \<and> length detalles = length ings))
      \<and> (map_of kvs ''nombre'' = None
           \<or> (\<exists>s. map_of kvs ''nombre'' = Some (PStr s)) \<and> map_of kvs ''cantidad_gramos'' = None \<longrightarrow>
         calcular_calorias P (PList (PDict kvs # ings)) num_porciones = Inl KeyError))"
proof -
  let ?texto = "''El resultado de '' @ py_str P a @ '' dividir '' @ py_str P b @ '' = ''
                @ error_division"
  have s: "sublist error_division ?texto"
  proof -
    have "?texto = (''El resultado de '' @ py_str P a @ '' dividir '' @ py_str P b @ '' = '')
                   @ error_division"
      by simp
    then show ?thesis by (simp only: sublist_final)
  qed
  have 1: "calculadora P (PStr ''dividir'') a b = Inr ?texto
    \<and> sublist error_division ?texto
    \<and> (vincular [''operacion'', ''a'', ''b''] argumentos = Inr [PStr ''dividir'', a, b] \<longrightarrow>
        ejecutar_herramienta P R ''calculadora'' argumentos w = (Inr (Some ?texto), w))"
    if z: "\<not> py_ne_zero P b"
  proof -
    have "ejecutar_herramienta P R ''calculadora'' argumentos w = (Inr (Some ?texto), w)"
      if "vincular [''operacion'', ''a'', ''b''] argumentos = Inr [PStr ''dividir'', a, b]"
      using that z by (simp add: ejecutar_herramienta_def calculadora_dividir_cero)
    with s calculadora_dividir_cero [OF z] show ?thesis by blast
  qed
  have 2: "(runtime_coherente P \<longrightarrow>
           calcular_calorias P ingredientes num_porciones \<noteq> Inl ZeroDivisionError)
      \<and> calcular_calorias P ingredientes num_porciones =
          ligar (py_iter ingredientes) (\<lambda>ings.
          ligar (bucle_ingredientes P ings (NInt 0) []) (\<lambda>(total_calorias, detalles).
          ligar (num_int P total_calorias) (\<lambda>t.
            Inr (texto_analisis detalles t (py_str P num_porciones) t))))
      \<and> (py_iter ingredientes = Inr ings
           \<and> bucle_ingredientes P ings (NInt 0) [] = Inr (total_calorias, detalles)
           \<and> num_int P total_calorias = Inr t \<longrightarrow>
         calcular_calorias P ingredientes num_porciones
           = Inr (texto_analisis detalles t (py_str P num_porciones) t))
      \<and> (sin_desbordes P \<and> runtime_coherente P
           \<and> (\<forall>ing \<in> set ings. ingrediente_bien_formado ing) \<longrightarrow>
         (\<exists>detalles t.
             calcular_calorias P (PList ings) num_porciones
               = Inr (texto_analisis detalles t (py_str P num_porciones) t)
           \<and> length detalles = length ings))
      \<and> (map_of kvs ''nombre'' = None
           \<or> (\<exists>s. map_of kvs ''nombre'' = Some (PStr s)) \<and> map_of kvs ''cantidad_gramos'' = None \<longrightarrow>
         calcular_calorias P (PList (PDict kvs # ings)) num_porciones = Inl KeyError)"
    if g: "py_gt_zero P num_porciones = Inr False"
  proof (intro conjI impI)
    assume "runtime_coherente P"
    then show "calcular_calorias P ingredientes num_porciones \<noteq> Inl ZeroDivisionError"
      using g by (rule calcular_calorias_sin_porciones_no_division)
  next
    show "calcular_calorias P ingredientes num_porciones =
          ligar (py_iter ingredientes) (\<lambda>ings.
          ligar (bucle_ingredientes P ings (NInt 0) []) (\<lambda>(total_calorias, detalles).
          ligar (num_int P total_calorias) (\<lambda>t.
            Inr (texto_analisis detalles t (py_str P num_porciones) t))))"
      using g by (rule calcular_calorias_sin_porciones_eq)
  next
    assume h: "py_iter ingredientes = Inr ings
           \<and> bucle_ingredientes P ings (NInt 0) [] = Inr (total_calorias, detalles)
           \<and> num_int P total_calorias = Inr t"
    show "calcular_calorias P ingredientes num_porciones
           = Inr (texto_analisis detalles t (py_str P num_porciones) t)"
      using h by (intro calcular_calorias_sin_porciones [OF g]) blast+
  next
    assume h: "sin_desbordes P \<and> runtime_coherente P
           \<and> (\<forall>ing \<in> set ings. ingrediente_bien_formado ing)"
    from h have h1: "sin_desbordes P" and h2: "runtime_coherente P"
      and h3: "\<forall>ing \<in> set ings. ingrediente_bien_formado ing" by blast+
    show "\<exists>detalles t.
             calcular_calorias P (PList ings) num_porciones
               = Inr (texto_analisis detalles t (py_str P num_porciones) t)
           \<and> length detalles = length ings"
      by (rule calcular_calorias_sin_porciones_bien [OF g h1 h2 h3])
  next
    assume "map_of kvs ''nombre'' = None
           \<or> (\<exists>s. map_of kvs ''nombre'' = Some (PStr s)) \<and> map_of kvs ''cantidad_gramos'' = None"
    then show "calcular_calorias P (PList (PDict kvs # ings)) num_porciones = Inl KeyError"
      by (rule ingrediente_sin_campo)
  qed
  show ?thesis
    by (intro conjI; rule impI; (erule 1 | erule 2))
qed

theorem division_por_cero_es_texto_witness:
  "\<not> py_ne_zero pyrt_exacto (PInt 0)
   \<and> calculadora pyrt_exacto (PStr ''dividir'') (PInt 7) (PInt 0)
       = Inr (''El resultado de 7 dividir 0 = '' @ error_division)
   \<and> calculadora pyrt_exacto (PStr ''dividir'') (PStr ''siete'') (PInt 0)
       = Inr (''El resultado de siete dividir 0 = '' @ error_division)
   \<and> py_gt_zero pyrt_exacto (PInt 0) = Inr False
   \<and> runtime_coherente pyrt_exacto
   \<and> sin_desbordes pyrt_exacto
   \<and> calcular_calorias pyrt_exacto receta_ejemplo (PInt 0) \<noteq> Inl ZeroDivisionError
   \<and> calcular_calorias pyrt_exacto receta_ejemplo (PInt 0)
       = Inr (texto_analisis [linea_ingrediente ''pollo'' ''200'' 330,
                              linea_estimada ''kiwi'' ''50'' 50] 330 ''0'' 330)
   \<and> ingrediente_bien_formado
        (PDict [(''nombre'', PStr ''Pollo''), (''cantidad_gramos'', PInt 200)] :: rat pyval)
   \<and> ingrediente_bien_formado
        (PDict [(''nombre'', PStr ''kiwi''), (''cantidad_gramos'', PInt 50)] :: rat pyval)
   \<and> (\<exists>detalles t.
         calcular_calorias pyrt_exacto receta_ejemplo (PInt 0)
           = Inr (texto_analisis detalles t ''0'' t)
       \<and> length detalles = 2)
   \<and> calcular_calorias pyrt_exacto receta_sin_gramos (PInt 0) = Inl KeyError"
proof -
  let ?i1 = "PDict [(''nombre'', PStr ''Pollo''), (''cantidad_gramos'', PInt 200)] :: rat pyval"
  let ?i2 = "PDict [(''nombre'', PStr ''kiwi''), (''cantidad_gramos'', PInt 50)] :: rat pyval"
  have z: "\<not> py_ne_zero pyrt_exacto (PInt 0)"
    by (simp add: py_ne_zero_def como_numero_def)
  have g: "py_gt_zero pyrt_exacto (PInt 0) = Inr False"
    by (simp add: py_gt_zero_def como_numero_def)
  have c: "runtime_coherente pyrt_exacto"
    by (simp add: runtime_coherente_def pyrt_exacto_def)
  have d: "sin_desbordes pyrt_exacto"
    by (simp add: sin_desbordes_def pyrt_exacto_def)
  have i: "py_iter receta_ejemplo = Inr [?i1, ?i2]"
    by (simp add: py_iter_def receta_ejemplo_def)
  have l: "bucle_ingredientes pyrt_exacto [?i1, ?i2] (NInt 0) []
           = Inr (NFloat 330, [linea_ingrediente ''pollo'' ''200'' 330,
                               linea_estimada ''kiwi'' ''50'' 50])"
    by code_simp
  have n: "num_int pyrt_exacto (NFloat 330) = Inr 330"
    by code_simp
  have s7: "py_str pyrt_exacto (PInt 7) = ''7''" and s0: "py_str pyrt_exacto (PInt 0) = ''0''"
    and ss: "py_str pyrt_exacto (PStr ''siete'') = ''siete''"
    by (code_simp, code_simp, simp add: py_str_def)
  have b1: "ingrediente_bien_formado ?i1" and b2: "ingrediente_bien_formado ?i2"
    by (simp_all add: ingrediente_bien_formado_def como_numero_def)
  have b: "\<forall>ing \<in> set [?i1, ?i2]. ingrediente_bien_formado ing"
    using b1 b2 by simp
  have k: "map_of [(''nombre'', PStr ''pollo'' :: rat pyval)] ''nombre'' = None
        \<or> (\<exists>s. map_of [(''nombre'', PStr ''pollo'' :: rat pyval)] ''nombre'' = Some (PStr s))
          \<and> map_of [(''nombre'', PStr ''pollo'' :: rat pyval)] ''cantidad_gramos'' = None"
    by simp
  have r: "receta_ejemplo = PList [?i1, ?i2]" by (simp add: receta_ejemplo_def)
  note t = division_por_cero_es_texto [where P = pyrt_exacto and b = "PInt 0"
      and num_porciones = "PInt 0" and R = reloj_ejemplo and w = mundo_vacio and argumentos = "[]"]
  have 1: "calculadora pyrt_exacto (PStr ''dividir'') (PInt 7) (PInt 0)
       = Inr (''El resultado de 7 dividir 0 = '' @ error_division)"
    using t [where a = "PInt 7", THEN conjunct1, rule_format, OF z, THEN conjunct1]
    by (simp add: s7 s0)
  have 2: "calculadora pyrt_exacto (PStr ''dividir'') (PStr ''siete'') (PInt 0)
       = Inr (''El resultado de siete dividir 0 = '' @ error_division)"
    using t [where a = "PStr ''siete''", THEN conjunct1, rule_format, OF z, THEN conjunct1]
    by (simp add: ss s0)
  note u = t [where a = "PInt 7" and ingredientes = receta_ejemplo and ings = "[?i1, ?i2]"
      and total_calorias = "NFloat 330" and t = 330
      and detalles = "[linea_ingrediente ''pollo'' ''200'' 330, linea_estimada ''kiwi'' ''50'' 50]",
      THEN conjunct2, rule_format, OF g]
  have 3: "calcular_calorias pyrt_exacto receta_ejemplo (PInt 0) \<noteq> Inl ZeroDivisionError"
    using u [THEN conjunct1, rule_format, OF c] .
  have 4: "calcular_calorias pyrt_exacto receta_ejemplo (PInt 0)
       = Inr (texto_analisis [linea_ingrediente ''pollo'' ''200'' 330,
                              linea_estimada ''kiwi'' ''50'' 50] 330 ''0'' 330)"
    using u [THEN conjunct2, THEN conjunct2, THEN conjunct1, rule_format,
             OF conjI [OF i conjI [OF l n]]]
    by (simp add: s0)
  have 5: "\<exists>detalles t.
         calcular_calorias pyrt_exacto receta_ejemplo (PInt 0)
           = Inr (texto_analisis detalles t ''0'' t)
       \<and> length detalles = 2"
    using u [THEN conjunct2, THEN conjunct2, THEN conjunct2, THEN conjunct1, rule_format,
             OF conjI [OF d conjI [OF c b]]]
    by (simp add: s0 r numeral_2_eq_2)
  have 6: "calcular_calorias pyrt_exacto receta_sin_gramos (PInt 0) = Inl KeyError"
    using t [where a = "PInt 7" and kvs = "[(''nombre'', PStr ''pollo'')]" and ings = "[]",
             THEN conjunct2, rule_format, OF g, THEN conjunct2, THEN conjunct2, THEN conjunct2,
             THEN conjunct2, rule_format, OF k]
    by (simp add: receta_sin_gramos_def)
  from z 1 2 g c d 3 4 b1 b2 5 6 show ?thesis by (intro conjI)
qed

text \<open>
  C8 as it is written fails for \<^verbatim>\<open>calcular_calorias\<close>: with zero portions and
  an ingredient that has a name and no grams it does not return a text. It raises
  KeyError in the loop over the ingredients, before the division is reached, and the
  dispatcher passes the exception on.
\<close>

theorem division_por_cero_counterexample:
  "py_gt_zero pyrt_exacto (PInt 0) = Inr False
   \<and> calcular_calorias pyrt_exacto receta_sin_gramos (PInt 0) = Inl KeyError
   \<and> ejecutar_herramienta pyrt_exacto reloj_ejemplo ''calcular_calorias''
        [(''ingredientes'', receta_sin_gramos), (''num_porciones'', PInt 0)] mundo_vacio
       = (Inl KeyError, mundo_vacio)"
proof -
  have g: "py_gt_zero pyrt_exacto (PInt 0) = Inr False"
    by (simp add: py_gt_zero_def como_numero_def)
  have c: "calcular_calorias pyrt_exacto receta_sin_gramos (PInt 0) = Inl KeyError"
    by (simp add: calcular_calorias_def receta_sin_gramos_def py_iter_def py_getitem_def
                  py_lower_def)
  have "ejecutar_herramienta pyrt_exacto reloj_ejemplo ''calcular_calorias''
        [(''ingredientes'', receta_sin_gramos), (''num_porciones'', PInt 0)] mundo_vacio
       = (Inl KeyError, mundo_vacio)"
    by (simp add: ejecutar_herramienta_def vincular_def c)
  with g c show ?thesis by (intro conjI)
qed

section \<open>The calorie total as a sum\<close>









end
